theory Spec2Isabelle
  imports Complex_Main "HOL-Library.Multiset"
begin

section \<open>Values of the animation engine\<close>

text \<open>
  The engine is TypeScript: its numbers are JavaScript numbers and most of its fields are
  typed \<^verbatim>\<open>any\<close>. Frames, gradients and repeat counts are modelled as reals (exact
  arithmetic: rounding and the infinities are abstracted away, and a frame is never NaN).
  The components of animated values are reals extended with NaN, because the code itself
  produces NaN from well-formed input (a number minus an object, an undefined offset).
\<close>

datatype num = Fin real | NaN

fun num_plus :: "num \<Rightarrow> num \<Rightarrow> num" where
  "num_plus (Fin a) (Fin b) = Fin (a + b)"
| "num_plus _ _ = NaN"

fun num_minus :: "num \<Rightarrow> num \<Rightarrow> num" where
  "num_minus (Fin a) (Fin b) = Fin (a - b)"
| "num_minus _ _ = NaN"

fun num_times :: "num \<Rightarrow> num \<Rightarrow> num" where
  "num_times (Fin a) (Fin b) = Fin (a * b)"
| "num_times _ _ = NaN"

text \<open>
  A value of type \<^verbatim>\<open>any\<close>: undefined, a number, an instance of one of the maths classes
  (by its components), a function of no argument (by the value it returns), an array, or
  an object of another kind (by its address).
\<close>

datatype any =
    Undefined
  | Number num
  | Vector2 num num
  | Vector3 num num num
  | Quaternion num num num num
  | Matrix "num list"
  | Color3 num num num
  | Color4 num num num num
  | Size num num
  | Function any
  | Array "any list"
  | Object nat

text \<open>The only exception the code can raise: a property read on undefined, or the call of
  a method that the receiver does not have.\<close>

datatype error = TypeError

text \<open>JavaScript truthiness, as \<^verbatim>\<open>if (x)\<close> tests it.\<close>

fun truthy :: "any \<Rightarrow> bool" where
  "truthy Undefined = False"
| "truthy (Number (Fin x)) = (x \<noteq> 0)"
| "truthy (Number NaN) = False"
| "truthy _ = True"

text \<open>
  The arithmetic operators on \<^verbatim>\<open>any\<close>: numeric on two numbers, NaN otherwise. (JavaScript
  concatenates strings when \<^verbatim>\<open>+\<close> gets an object; no track of the declared data types
  reaches that case, and it is not modelled.)
\<close>

fun js_plus :: "any \<Rightarrow> any \<Rightarrow> any" where
  "js_plus (Number a) (Number b) = Number (num_plus a b)"
| "js_plus _ _ = Number NaN"

fun js_minus :: "any \<Rightarrow> any \<Rightarrow> any" where
  "js_minus (Number a) (Number b) = Number (num_minus a b)"
| "js_minus _ _ = Number NaN"

fun js_times :: "any \<Rightarrow> any \<Rightarrow> any" where
  "js_times (Number a) (Number b) = Number (num_times a b)"
| "js_times _ _ = Number NaN"

section \<open>Data model\<close>

text \<open>
  \<^verbatim>\<open>IAnimationKey\<close>: an optional field that is absent reads as undefined. The field
  \<^verbatim>\<open>value\<close> is written \<open>value'\<close>.
\<close>

record IAnimationKey =
  frame :: real
  value' :: any
  inTangent :: any
  outTangent :: any
  interpolation :: any

text \<open>\<^verbatim>\<open>AnimationRange\<close> (its fields \<^verbatim>\<open>name\<close>, \<^verbatim>\<open>from\<close>, \<^verbatim>\<open>to\<close>).\<close>

record AnimationRange =
  rangeName :: string
  rangeFrom :: real
  rangeTo :: real

text \<open>\<^verbatim>\<open>AnimationEvent\<close>: its frame (field \<^verbatim>\<open>frame\<close>) and a payload this core never reads.\<close>

record AnimationEvent =
  eventFrame :: real
  payload :: nat

text \<open>
  The \<^verbatim>\<open>Animation\<close> class. Private fields lose their leading underscore, and the field
  \<^verbatim>\<open>loopMode\<close> is written \<open>animationLoopMode\<close> (the cursor has a field of the same name).
  \<open>ranges\<close> is the object \<^verbatim>\<open>_ranges\<close> as the list of its own properties in insertion
  order, a property holding either a range or null (\<open>None\<close>); a property name is listed
  once.

  An animation holds its keys and its ranges by reference. The record is therefore
  parametric in what stands for a key and for a range: the objects themselves in
  \<open>Animation\<close>, which is enough wherever the code only reads keys or rearranges the arrays,
  and their addresses in a store in \<open>AnimationRef\<close>, for the code that copies an animation
  or writes into its keys.
\<close>

record ('k, 'r) AnimationOf =
  uniqueId :: nat
  name :: string
  targetProperty :: string
  framePerSecond :: real
  dataType :: int
  animationLoopMode :: int
  enableBlending :: "bool option"
  blendingSpeed :: real
  targetPropertyPath :: "string list"
  keys :: "'k list"
  easingFunction :: "(real \<Rightarrow> real) option"
  events :: "AnimationEvent list"
  ranges :: "(string \<times> 'r option) list"

type_synonym Animation = "(IAnimationKey, AnimationRange) AnimationOf"

type_synonym AnimationRef = "(nat, nat) AnimationOf"

definition ANIMATIONTYPE_FLOAT :: int where "ANIMATIONTYPE_FLOAT = 0"
definition ANIMATIONTYPE_VECTOR3 :: int where "ANIMATIONTYPE_VECTOR3 = 1"
definition ANIMATIONTYPE_QUATERNION :: int where "ANIMATIONTYPE_QUATERNION = 2"
definition ANIMATIONTYPE_MATRIX :: int where "ANIMATIONTYPE_MATRIX = 3"
definition ANIMATIONTYPE_COLOR3 :: int where "ANIMATIONTYPE_COLOR3 = 4"
definition ANIMATIONTYPE_COLOR4 :: int where "ANIMATIONTYPE_COLOR4 = 7"
definition ANIMATIONTYPE_VECTOR2 :: int where "ANIMATIONTYPE_VECTOR2 = 5"
definition ANIMATIONTYPE_SIZE :: int where "ANIMATIONTYPE_SIZE = 6"
definition ANIMATIONLOOPMODE_RELATIVE :: int where "ANIMATIONLOOPMODE_RELATIVE = 0"
definition ANIMATIONLOOPMODE_CYCLE :: int where "ANIMATIONLOOPMODE_CYCLE = 1"
definition ANIMATIONLOOPMODE_CONSTANT :: int where "ANIMATIONLOOPMODE_CONSTANT = 2"
definition ANIMATIONLOOPMODE_YOYO :: int where "ANIMATIONLOOPMODE_YOYO = 4"

lemmas ANIMATIONTYPE_defs =
  ANIMATIONTYPE_FLOAT_def ANIMATIONTYPE_VECTOR3_def ANIMATIONTYPE_QUATERNION_def
  ANIMATIONTYPE_MATRIX_def ANIMATIONTYPE_COLOR3_def ANIMATIONTYPE_COLOR4_def
  ANIMATIONTYPE_VECTOR2_def ANIMATIONTYPE_SIZE_def

lemmas ANIMATIONLOOPMODE_defs =
  ANIMATIONLOOPMODE_RELATIVE_def ANIMATIONLOOPMODE_CYCLE_def
  ANIMATIONLOOPMODE_CONSTANT_def ANIMATIONLOOPMODE_YOYO_def

section \<open>Event registry\<close>

text \<open>
  \<^verbatim>\<open>Array.prototype.splice(index, 1)\<close>: the array without the element at \<open>index\<close>.
\<close>

definition splice1 :: "'a list \<Rightarrow> nat \<Rightarrow> 'a list" where
  "splice1 xs index = take index xs @ drop (Suc index) xs"

text \<open>
  \<^verbatim>\<open>addEvent\<close> pushes the event and sorts the array with the comparator
  \<^verbatim>\<open>a.frame - b.frame\<close>. \<^verbatim>\<open>Array.prototype.sort\<close> is a builtin of the language: it is
  stable, and the result of a stable sort by a key is unique, so \<open>sort_key\<close> is that result.
\<close>

definition addEvent :: "Animation \<Rightarrow> AnimationEvent \<Rightarrow> Animation" where
  "addEvent this event = this\<lparr>events := sort_key eventFrame (events this @ [event])\<rparr>"

text \<open>
  The loop of \<^verbatim>\<open>removeEvents\<close>: a removal is followed by \<^verbatim>\<open>index--\<close> and the loop's
  \<^verbatim>\<open>index++\<close>, so the index stays where it is.
\<close>

function removeEvents_loop :: "AnimationEvent list \<Rightarrow> real \<Rightarrow> nat \<Rightarrow> AnimationEvent list" where
  "removeEvents_loop evs f index =
     (if index < length evs then
        (if eventFrame (evs ! index) = f then removeEvents_loop (splice1 evs index) f index
         else removeEvents_loop evs f (Suc index))
      else evs)"
  by pat_completeness auto
termination
  by (relation "measure (\<lambda>(evs, f, index). length evs - index)") (auto simp: splice1_def)

declare removeEvents_loop.simps [simp del]

definition removeEvents :: "Animation \<Rightarrow> real \<Rightarrow> Animation" where
  "removeEvents this f = this\<lparr>events := removeEvents_loop (events this) f 0\<rparr>"

definition getEvents :: "Animation \<Rightarrow> AnimationEvent list" where
  "getEvents this = events this"

text \<open>A call of the event registry's interface, and a sequence of calls.\<close>

datatype eventCall = AddEvent AnimationEvent | RemoveEvents real

fun eventCall_run :: "Animation \<Rightarrow> eventCall \<Rightarrow> Animation" where
  "eventCall_run this (AddEvent e) = addEvent this e"
| "eventCall_run this (RemoveEvents f) = removeEvents this f"

section \<open>Range registry\<close>

text \<open>Reading and writing a property of the \<^verbatim>\<open>_ranges\<close> object.\<close>

fun setProperty :: "('k \<times> 'v) list \<Rightarrow> 'k \<Rightarrow> 'v \<Rightarrow> ('k \<times> 'v) list" where
  "setProperty [] k v = [(k, v)]"
| "setProperty (p # ps) k v = (if fst p = k then (k, v) # ps else p # setProperty ps k v)"

text \<open>\<^verbatim>\<open>this._ranges[name]\<close>: the range, or nothing when the property is absent or null.\<close>

definition getRange :: "Animation \<Rightarrow> string \<Rightarrow> AnimationRange option" where
  "getRange this n = (case map_of (ranges this) n of None \<Rightarrow> None | Some r \<Rightarrow> r)"

definition createRange :: "Animation \<Rightarrow> string \<Rightarrow> real \<Rightarrow> real \<Rightarrow> Animation" where
  "createRange this n from' to' =
     (if getRange this n = None
      then this\<lparr>ranges := setProperty (ranges this) n
                  (Some \<lparr>rangeName = n, rangeFrom = from', rangeTo = to'\<rparr>)\<rparr>
      else this)"

text \<open>
  The loop of \<^verbatim>\<open>deleteRange\<close> runs from the last index down to 0; the argument \<open>n\<close> is
  the number of indices still to visit, the next one being \<open>n - 1\<close>.
\<close>

fun deleteRange_loop :: "IAnimationKey list \<Rightarrow> real \<Rightarrow> real \<Rightarrow> nat \<Rightarrow> IAnimationKey list" where
  "deleteRange_loop ks from' to' 0 = ks"
| "deleteRange_loop ks from' to' (Suc key) =
     (if frame (ks ! key) \<ge> from' \<and> frame (ks ! key) \<le> to'
      then deleteRange_loop (splice1 ks key) from' to' key
      else deleteRange_loop ks from' to' key)"

definition deleteRange :: "Animation \<Rightarrow> string \<Rightarrow> bool \<Rightarrow> Animation" where
  "deleteRange this n deleteFrames =
     (case getRange this n of
        None \<Rightarrow> this
      | Some r \<Rightarrow>
          (let this1 =
                 (if deleteFrames
                  then this\<lparr>keys := deleteRange_loop (keys this) (rangeFrom r) (rangeTo r)
                                       (length (keys this))\<rparr>
                  else this)
           in this1\<lparr>ranges := setProperty (ranges this1) n None\<rparr>))"

definition getKeys :: "Animation \<Rightarrow> IAnimationKey list" where
  "getKeys this = keys this"

section \<open>The maths library and the static switches\<close>

text \<open>
  \<^verbatim>\<open>Scalar\<close>, \<^verbatim>\<open>Vector2\<close>, \<^verbatim>\<open>Vector3\<close>, \<^verbatim>\<open>Quaternion\<close>, \<^verbatim>\<open>Matrix\<close>, \<^verbatim>\<open>Color3\<close>,
  \<^verbatim>\<open>Color4\<close> and \<^verbatim>\<open>Size\<close> are classes of the repository's \<^verbatim>\<open>Maths\<close> directory, and
  \<^verbatim>\<open>AnimationKeyInterpolation\<close> is an enumeration of \<^verbatim>\<open>animationKey.ts\<close>; none of them is
  among the sources. What the evaluator calls of them is a parameter of the model, and
  every property proved of the evaluator holds whatever these functions compute. A static
  function keeps its class in its name (\<^verbatim>\<open>Vector3.Lerp\<close> is \<open>Vector3_Lerp\<close>); a method
  is one function whose first argument is the receiver (\<^verbatim>\<open>v.scale(x)\<close> is \<open>scale L v x\<close>).
  A function that writes its result into an object it is given (\<^verbatim>\<open>addInPlace\<close>, the
  \<^verbatim>\<open>ToRef\<close> functions) returns the new contents of that object.
\<close>

record Maths =
  Scalar_Lerp :: "any \<Rightarrow> any \<Rightarrow> real \<Rightarrow> any"
  Scalar_Hermite :: "any \<Rightarrow> any \<Rightarrow> any \<Rightarrow> any \<Rightarrow> real \<Rightarrow> any"
  Quaternion_Slerp :: "any \<Rightarrow> any \<Rightarrow> real \<Rightarrow> any"
  Quaternion_Hermite :: "any \<Rightarrow> any \<Rightarrow> any \<Rightarrow> any \<Rightarrow> real \<Rightarrow> any"
  Vector3_Lerp :: "any \<Rightarrow> any \<Rightarrow> real \<Rightarrow> any"
  Vector3_Hermite :: "any \<Rightarrow> any \<Rightarrow> any \<Rightarrow> any \<Rightarrow> real \<Rightarrow> any"
  Vector2_Lerp :: "any \<Rightarrow> any \<Rightarrow> real \<Rightarrow> any"
  Vector2_Hermite :: "any \<Rightarrow> any \<Rightarrow> any \<Rightarrow> any \<Rightarrow> real \<Rightarrow> any"
  Size_Lerp :: "any \<Rightarrow> any \<Rightarrow> real \<Rightarrow> any"
  Color3_Lerp :: "any \<Rightarrow> any \<Rightarrow> real \<Rightarrow> any"
  Color3_Hermite :: "any \<Rightarrow> any \<Rightarrow> any \<Rightarrow> any \<Rightarrow> real \<Rightarrow> any"
  Color4_Lerp :: "any \<Rightarrow> any \<Rightarrow> real \<Rightarrow> any"
  Color4_Hermite :: "any \<Rightarrow> any \<Rightarrow> any \<Rightarrow> any \<Rightarrow> real \<Rightarrow> any"
  Matrix_DecomposeLerp :: "any \<Rightarrow> any \<Rightarrow> real \<Rightarrow> any"
  Matrix_DecomposeLerpToRef :: "any \<Rightarrow> any \<Rightarrow> real \<Rightarrow> any \<Rightarrow> any"
  Matrix_Lerp :: "any \<Rightarrow> any \<Rightarrow> real \<Rightarrow> any"
  Matrix_LerpToRef :: "any \<Rightarrow> any \<Rightarrow> real \<Rightarrow> any \<Rightarrow> any"
  normalize' :: "any \<Rightarrow> any"
  scale :: "any \<Rightarrow> real \<Rightarrow> any"
  add :: "any \<Rightarrow> any \<Rightarrow> any"
  addInPlace :: "any \<Rightarrow> any \<Rightarrow> any"
  STEP :: any

text \<open>The static fields of \<^verbatim>\<open>Animation\<close> that the code reads or writes.\<close>

record Statics =
  AllowMatricesInterpolation :: bool
  AllowMatrixDecomposeForInterpolation :: bool
  UniqueIdGenerator :: nat

text \<open>
  \<^verbatim>\<open>===\<close> against a primitive: true on two equal numbers other than NaN and on two
  undefined. (Two objects are equal when they are the same object, which values do not
  record; the code compares with \<^verbatim>\<open>===\<close> only against the number \<^verbatim>\<open>STEP\<close>.)
\<close>

fun strictEquals :: "any \<Rightarrow> any \<Rightarrow> bool" where
  "strictEquals (Number (Fin a)) (Number (Fin b)) = (a = b)"
| "strictEquals Undefined Undefined = True"
| "strictEquals _ _ = False"

section \<open>The evaluator\<close>

text \<open>
  The evaluation cursor \<^verbatim>\<open>_IAnimationState\<close>. The field \<^verbatim>\<open>workValue\<close> is the scratch matrix
  of the cursor: the evaluator is written over its contents (\<open>IAnimationState\<close>, undefined
  when the cursor has none); where the cursors are objects in a store, the field holds the
  address of the matrix object.
\<close>

record 'w IAnimationStateOf =
  key :: int
  repeatCount :: real
  workValue :: 'w
  loopMode :: "int option"
  offsetValue :: any
  highLimitValue :: any

type_synonym IAnimationState = "any IAnimationStateOf"

fun getKeyValue :: "any \<Rightarrow> any" where
  "getKeyValue (Function v) = v"
| "getKeyValue v = v"

text \<open>\<^verbatim>\<open>keys[i]\<close>: undefined (\<open>None\<close>) outside the array.\<close>

definition keyAt :: "IAnimationKey list \<Rightarrow> int \<Rightarrow> IAnimationKey option" where
  "keyAt ks i = (if 0 \<le> i \<and> i < int (length ks) then Some (ks ! nat i) else None)"

text \<open>
  The two loops that resolve the left key index:
  \<^verbatim>\<open>while (key >= 0 && currentFrame < keys[key].frame) --key;\<close> and
  \<^verbatim>\<open>while (key + 1 <= keysLength - 1 && currentFrame >= keys[key + 1].frame) ++key;\<close>.
  Reading \<^verbatim>\<open>frame\<close> of an undefined element raises.
\<close>

function keyWalkDown :: "IAnimationKey list \<Rightarrow> real \<Rightarrow> int \<Rightarrow> error + int" where
  "keyWalkDown ks currentFrame k =
     (if k \<ge> 0 then
        (case keyAt ks k of
           None \<Rightarrow> Inl TypeError
         | Some ky \<Rightarrow> if currentFrame < frame ky then keyWalkDown ks currentFrame (k - 1)
                      else Inr k)
      else Inr k)"
  by pat_completeness auto
termination
  by (relation "measure (\<lambda>(ks, currentFrame, k). nat (k + 1))") auto

declare keyWalkDown.simps [simp del]

function keyWalkUp :: "IAnimationKey list \<Rightarrow> real \<Rightarrow> int \<Rightarrow> error + int" where
  "keyWalkUp ks currentFrame k =
     (if k + 1 \<le> int (length ks) - 1 then
        (case keyAt ks (k + 1) of
           None \<Rightarrow> Inl TypeError
         | Some ky \<Rightarrow> if currentFrame \<ge> frame ky then keyWalkUp ks currentFrame (k + 1)
                      else Inr k)
      else Inr k)"
  by pat_completeness auto
termination
  by (relation "measure (\<lambda>(ks, currentFrame, k). nat (int (length ks) - k))") auto

declare keyWalkUp.simps [simp del]

text \<open>
  \<^verbatim>\<open>matrixInterpolateFunction(startValue, endValue, gradient, result?)\<close>: the matrix it
  returns, and the contents of \<open>result\<close> afterwards.
\<close>

definition matrixInterpolateFunction ::
  "Maths \<Rightarrow> Statics \<Rightarrow> any \<Rightarrow> any \<Rightarrow> real \<Rightarrow> any \<Rightarrow> any \<times> any" where
  "matrixInterpolateFunction L S startValue endValue gradient result =
     (if AllowMatrixDecomposeForInterpolation S then
        (if truthy result
         then (let r = Matrix_DecomposeLerpToRef L startValue endValue gradient result in (r, r))
         else (Matrix_DecomposeLerp L startValue endValue gradient, result))
      else
        (if truthy result
         then (let r = Matrix_LerpToRef L startValue endValue gradient result in (r, r))
         else (Matrix_Lerp L startValue endValue gradient, result)))"

text \<open>
  A method called on a receiver that the library has made for the class of the track (the
  value that an interpolation function returns) or that the class of the track has by
  declaration (\<^verbatim>\<open>asArray\<close>): a value that is not an object of the maths classes (undefined,
  a number, a function, an array, another object) has no such method, and the call raises.
  Methods that only some of the classes have are told apart below.
\<close>

fun isMathsObject :: "any \<Rightarrow> bool" where
  "isMathsObject (Vector2 x y) = True"
| "isMathsObject (Vector3 x y z) = True"
| "isMathsObject (Quaternion x y z w) = True"
| "isMathsObject (Matrix m) = True"
| "isMathsObject (Color3 r g b) = True"
| "isMathsObject (Color4 r g b a) = True"
| "isMathsObject (Size w h) = True"
| "isMathsObject Undefined = False"
| "isMathsObject (Number a) = False"
| "isMathsObject (Function v) = False"
| "isMathsObject (Array vs) = False"
| "isMathsObject (Object p) = False"

definition method1 :: "(any \<Rightarrow> 'a) \<Rightarrow> any \<Rightarrow> error + 'a" where
  "method1 m receiver = (if isMathsObject receiver then Inr (m receiver) else Inl TypeError)"

text \<open>
  \<^verbatim>\<open>scale\<close> is a method of the vectors, of the quaternion, of the matrix and of the colours.
  \<^verbatim>\<open>Size\<close> has \<^verbatim>\<open>add\<close> and \<^verbatim>\<open>subtract\<close> and no \<^verbatim>\<open>scale\<close>: on a size, as on a value that is
  no object of the maths classes, the call \<^verbatim>\<open>receiver.scale(s)\<close> raises.
\<close>

fun declaresScale :: "any \<Rightarrow> bool" where
  "declaresScale (Vector2 x y) = True"
| "declaresScale (Vector3 x y z) = True"
| "declaresScale (Quaternion x y z w) = True"
| "declaresScale (Matrix m) = True"
| "declaresScale (Color3 r g b) = True"
| "declaresScale (Color4 r g b a) = True"
| "declaresScale (Size w h) = False"
| "declaresScale Undefined = False"
| "declaresScale (Number a) = False"
| "declaresScale (Function v) = False"
| "declaresScale (Array vs) = False"
| "declaresScale (Object p) = False"

definition methodScale :: "Maths \<Rightarrow> any \<Rightarrow> real \<Rightarrow> error + any" where
  "methodScale L receiver s =
     (if declaresScale receiver then Inr (scale L receiver s) else Inl TypeError)"

text \<open>Sequencing: an exception ends the computation.\<close>

definition bindE :: "error + 'a \<Rightarrow> ('a \<Rightarrow> error + 'b) \<Rightarrow> error + 'b" where
  "bindE r f = (case r of Inl e \<Rightarrow> Inl e | Inr v \<Rightarrow> f v)"

text \<open>\<^verbatim>\<open>state.offsetValue.scale(state.repeatCount)\<close>.\<close>

definition offsetScaled :: "Maths \<Rightarrow> IAnimationState \<Rightarrow> error + any" where
  "offsetScaled L state = methodScale L (offsetValue state) (repeatCount state)"

text \<open>
  The cubic value of a segment, for the function \<open>Hermite\<close> of the track's class:
  \<^verbatim>\<open>Hermite(startValue, startKey.outTangent.scale(frameDelta), endValue,
  endKey.inTangent.scale(frameDelta), gradient)\<close>.
\<close>

definition tangentValue ::
  "Maths \<Rightarrow> (any \<Rightarrow> any \<Rightarrow> any \<Rightarrow> any \<Rightarrow> real \<Rightarrow> any) \<Rightarrow> any \<Rightarrow> IAnimationKey \<Rightarrow> any \<Rightarrow> IAnimationKey
     \<Rightarrow> real \<Rightarrow> real \<Rightarrow> error + any" where
  "tangentValue L Hermite startValue startKey endValue endKey frameDelta gradient =
     bindE (methodScale L (outTangent startKey) frameDelta) (\<lambda>out.
     bindE (methodScale L (inTangent endKey) frameDelta) (\<lambda>in'.
     Inr (Hermite startValue out endValue in' gradient)))"

text \<open>
  The inner \<^verbatim>\<open>switch (state.loopMode)\<close> of every class of objects but the matrix: the
  plain value under CYCLE, CONSTANT and YOYO; under RELATIVE the method \<open>relative\<close>
  (\<^verbatim>\<open>add\<close> or \<^verbatim>\<open>addInPlace\<close>) of the plain value, called with the scaled offset; and
  \<open>otherwise\<close> when no case matches.
\<close>

definition loopModeSwitch ::
  "Maths \<Rightarrow> IAnimationState \<Rightarrow> any \<Rightarrow> (any \<Rightarrow> any \<Rightarrow> any) \<Rightarrow> any \<Rightarrow> error + any" where
  "loopModeSwitch L state plain relative otherwise =
     (if loopMode state = Some ANIMATIONLOOPMODE_CYCLE
         \<or> loopMode state = Some ANIMATIONLOOPMODE_CONSTANT
         \<or> loopMode state = Some ANIMATIONLOOPMODE_YOYO then Inr plain
      else if loopMode state = Some ANIMATIONLOOPMODE_RELATIVE then
        bindE (offsetScaled L state) (\<lambda>off. method1 (\<lambda>v. relative v off) plain)
      else Inr otherwise)"

definition getEasingFunction :: "Animation \<Rightarrow> (real \<Rightarrow> real) option" where
  "getEasingFunction this = easingFunction this"

text \<open>
  The gradient of a frame in a segment: the share of the segment's length that lies
  before the frame, passed through the easing function when the track has one.
\<close>

definition segmentGradient :: "Animation \<Rightarrow> real \<Rightarrow> IAnimationKey \<Rightarrow> IAnimationKey \<Rightarrow> real" where
  "segmentGradient this currentFrame startKey endKey =
     (let frameDelta = frame endKey - frame startKey;
          gradient = (currentFrame - frame startKey) / frameDelta
      in case getEasingFunction this of None \<Rightarrow> gradient | Some ease \<Rightarrow> ease gradient)"

text \<open>
  \<^verbatim>\<open>_interpolate\<close> from the point where the bounding keys are known (the source's lines
  from \<^verbatim>\<open>const startValue\<close> on). The result is the value returned or the exception
  raised, and the cursor as the call leaves it.
\<close>

definition interpolateSegment ::
  "Maths \<Rightarrow> Statics \<Rightarrow> Animation \<Rightarrow> real \<Rightarrow> IAnimationState \<Rightarrow> IAnimationKey \<Rightarrow> IAnimationKey
     \<Rightarrow> (error + any) \<times> IAnimationState" where
  "interpolateSegment L S this currentFrame state startKey endKey =
     (let startValue = getKeyValue (value' startKey);
          endValue = getKeyValue (value' endKey)
      in
      if strictEquals (interpolation startKey) (STEP L) then
        (if frame endKey > currentFrame then (Inr startValue, state) else (Inr endValue, state))
      else
        (let useTangent = (outTangent startKey \<noteq> Undefined \<and> inTangent endKey \<noteq> Undefined);
             frameDelta = frame endKey - frame startKey;
             gradient = segmentGradient this currentFrame startKey endKey
         in
         if dataType this = ANIMATIONTYPE_FLOAT then
           (let floatValue =
                  (if useTangent
                   then Scalar_Hermite L startValue
                          (js_times (outTangent startKey) (Number (Fin frameDelta))) endValue
                          (js_times (inTangent endKey) (Number (Fin frameDelta))) gradient
                   else Scalar_Lerp L startValue endValue gradient)
            in
            if loopMode state = Some ANIMATIONLOOPMODE_CYCLE
               \<or> loopMode state = Some ANIMATIONLOOPMODE_CONSTANT
               \<or> loopMode state = Some ANIMATIONLOOPMODE_YOYO then (Inr floatValue, state)
            else if loopMode state = Some ANIMATIONLOOPMODE_RELATIVE then
              (Inr (js_plus (js_times (offsetValue state) (Number (Fin (repeatCount state))))
                      floatValue), state)
            else (Inr (Number (Fin 0)), state))
         else if dataType this = ANIMATIONTYPE_QUATERNION then
           (bindE (if useTangent
                   then bindE (tangentValue L (Quaternion_Hermite L) startValue startKey
                                 endValue endKey frameDelta gradient)
                          (method1 (normalize' L))
                   else Inr (Quaternion_Slerp L startValue endValue gradient))
              (\<lambda>quatValue. loopModeSwitch L state quatValue (addInPlace L) quatValue), state)
         else if dataType this = ANIMATIONTYPE_VECTOR3 then
           (bindE (if useTangent
                   then tangentValue L (Vector3_Hermite L) startValue startKey
                          endValue endKey frameDelta gradient
                   else Inr (Vector3_Lerp L startValue endValue gradient))
              (\<lambda>vec3Value. loopModeSwitch L state vec3Value (add L) (Number (Fin 0))), state)
         else if dataType this = ANIMATIONTYPE_VECTOR2 then
           (bindE (if useTangent
                   then tangentValue L (Vector2_Hermite L) startValue startKey
                          endValue endKey frameDelta gradient
                   else Inr (Vector2_Lerp L startValue endValue gradient))
              (\<lambda>vec2Value. loopModeSwitch L state vec2Value (add L) (Number (Fin 0))), state)
         else if dataType this = ANIMATIONTYPE_SIZE then
           (loopModeSwitch L state (Size_Lerp L startValue endValue gradient) (add L)
              (Number (Fin 0)), state)
         else if dataType this = ANIMATIONTYPE_COLOR3 then
           (bindE (if useTangent
                   then tangentValue L (Color3_Hermite L) startValue startKey
                          endValue endKey frameDelta gradient
                   else Inr (Color3_Lerp L startValue endValue gradient))
              (\<lambda>color3Value. loopModeSwitch L state color3Value (add L) (Number (Fin 0))), state)
         else if dataType this = ANIMATIONTYPE_COLOR4 then
           (bindE (if useTangent
                   then tangentValue L (Color4_Hermite L) startValue startKey
                          endValue endKey frameDelta gradient
                   else Inr (Color4_Lerp L startValue endValue gradient))
              (\<lambda>color4Value. loopModeSwitch L state color4Value (add L) (Number (Fin 0))), state)
         else if dataType this = ANIMATIONTYPE_MATRIX then
           (if loopMode state = Some ANIMATIONLOOPMODE_CYCLE
               \<or> loopMode state = Some ANIMATIONLOOPMODE_CONSTANT
               \<or> loopMode state = Some ANIMATIONLOOPMODE_YOYO then
              (if AllowMatricesInterpolation S then
                 (let (m, work) = matrixInterpolateFunction L S startValue endValue gradient
                                    (workValue state)
                  in (Inr m, state\<lparr>workValue := work\<rparr>))
               else (Inr startValue, state))
            else if loopMode state = Some ANIMATIONLOOPMODE_RELATIVE then (Inr startValue, state)
            else (Inr (Number (Fin 0)), state))
         else (Inr (Number (Fin 0)), state)))"

text \<open>The value of a segment before the loop mode is looked at, for the classes of
  objects that have cubic interpolation.\<close>

definition cubicOrLinear ::
  "Maths \<Rightarrow> (any \<Rightarrow> any \<Rightarrow> any \<Rightarrow> any \<Rightarrow> real \<Rightarrow> any) \<Rightarrow> (any \<Rightarrow> any \<Rightarrow> real \<Rightarrow> any) \<Rightarrow> Animation \<Rightarrow> real
     \<Rightarrow> IAnimationKey \<Rightarrow> IAnimationKey \<Rightarrow> error + any" where
  "cubicOrLinear L Hermite Lerp this f sk ek =
     (if outTangent sk \<noteq> Undefined \<and> inTangent ek \<noteq> Undefined
      then tangentValue L Hermite (getKeyValue (value' sk)) sk (getKeyValue (value' ek)) ek
             (frame ek - frame sk) (segmentGradient this f sk ek)
      else Inr (Lerp (getKeyValue (value' sk)) (getKeyValue (value' ek))
                  (segmentGradient this f sk ek)))"

text \<open>
  \<^verbatim>\<open>_interpolate(currentFrame, state)\<close>. \<^verbatim>\<open>x.clone ? x.clone() : x\<close> is a copy of the
  value, which is the value itself here; read on undefined, \<^verbatim>\<open>clone\<close> raises.
\<close>

definition interpolate ::
  "Maths \<Rightarrow> Statics \<Rightarrow> Animation \<Rightarrow> real \<Rightarrow> IAnimationState \<Rightarrow> (error + any) \<times> IAnimationState" where
  "interpolate L S this currentFrame state =
     (if loopMode state = Some ANIMATIONLOOPMODE_CONSTANT \<and> repeatCount state > 0 then
        (if highLimitValue state = Undefined then (Inl TypeError, state)
         else (Inr (highLimitValue state), state))
      else
        (let ks = keys this; keysLength = int (length ks) in
         case keyWalkDown ks currentFrame (key state) of
           Inl e \<Rightarrow> (Inl e, state)
         | Inr k1 \<Rightarrow>
             (case keyWalkUp ks currentFrame k1 of
                Inl e \<Rightarrow> (Inl e, state)
              | Inr k \<Rightarrow>
                  (let state1 = state\<lparr>key := k\<rparr> in
                   if k < 0 then
                     (case keyAt ks 0 of
                        None \<Rightarrow> (Inl TypeError, state1)
                      | Some k0 \<Rightarrow> (Inr (getKeyValue (value' k0)), state1))
                   else if k + 1 > keysLength - 1 then
                     (case keyAt ks (keysLength - 1) of
                        None \<Rightarrow> (Inl TypeError, state1)
                      | Some kl \<Rightarrow> (Inr (getKeyValue (value' kl)), state1))
                   else
                     (case (keyAt ks k, keyAt ks (k + 1)) of
                        (Some startKey, Some endKey) \<Rightarrow>
                          interpolateSegment L S this currentFrame state1 startKey endKey
                      | _ \<Rightarrow> (Inl TypeError, state1))))))"

definition evaluate :: "Maths \<Rightarrow> Statics \<Rightarrow> Animation \<Rightarrow> real \<Rightarrow> error + any" where
  "evaluate L S this currentFrame =
     fst (interpolate L S this currentFrame
            \<lparr>key = 0, repeatCount = 0, workValue = Undefined,
             loopMode = Some ANIMATIONLOOPMODE_CONSTANT,
             offsetValue = Undefined, highLimitValue = Undefined\<rparr>)"

text \<open>The two loops in sequence: the index \<^verbatim>\<open>_interpolate\<close> stores back into the cursor.\<close>

definition resolveKey :: "IAnimationKey list \<Rightarrow> real \<Rightarrow> int \<Rightarrow> error + int" where
  "resolveKey ks currentFrame k =
     (case keyWalkDown ks currentFrame k of
        Inl e \<Rightarrow> Inl e
      | Inr k1 \<Rightarrow> keyWalkUp ks currentFrame k1)"

text \<open>The first test of \<^verbatim>\<open>_interpolate\<close>: the cursor says that the track already reached
  its terminal constant value.\<close>

definition shortCircuit :: "IAnimationState \<Rightarrow> bool" where
  "shortCircuit state =
     (loopMode state = Some ANIMATIONLOOPMODE_CONSTANT \<and> repeatCount state > 0)"

section \<open>Construction\<close>

text \<open>\<^verbatim>\<open>String.prototype.split(".")\<close> and \<^verbatim>\<open>Array.prototype.join(".")\<close>.\<close>

fun splitDots :: "string \<Rightarrow> string list" where
  "splitDots [] = [[]]"
| "splitDots (c # cs) =
     (if c = CHR ''.'' then [] # splitDots cs
      else (case splitDots cs of [] \<Rightarrow> [[c]] | w # ws \<Rightarrow> (c # w) # ws))"

fun joinDots :: "string list \<Rightarrow> string" where
  "joinDots [] = []"
| "joinDots [w] = w"
| "joinDots (w # ws) = w @ CHR ''.'' # joinDots ws"

text \<open>
  The constructor. It draws the unique id from the static counter, which it increments.
  (\<^verbatim>\<open>_keys\<close> is left undefined by the constructor until \<^verbatim>\<open>setKeys\<close> is called; the model
  starts it as the empty array.)
\<close>

definition newAnimation ::
  "Statics \<Rightarrow> string \<Rightarrow> string \<Rightarrow> real \<Rightarrow> int \<Rightarrow> int option \<Rightarrow> bool option
     \<Rightarrow> ('k, 'r) AnimationOf \<times> Statics" where
  "newAnimation S name' targetProperty' framePerSecond' dataType' loopMode' enableBlending' =
     (\<lparr>uniqueId = UniqueIdGenerator S,
       name = name',
       targetProperty = targetProperty',
       framePerSecond = framePerSecond',
       dataType = dataType',
       animationLoopMode = (case loopMode' of None \<Rightarrow> ANIMATIONLOOPMODE_CYCLE | Some m \<Rightarrow> m),
       enableBlending = enableBlending',
       blendingSpeed = 0.01,
       targetPropertyPath = splitDots targetProperty',
       keys = [],
       easingFunction = None,
       events = [],
       ranges = []\<rparr>,
      S\<lparr>UniqueIdGenerator := UniqueIdGenerator S + 1\<rparr>)"

text \<open>\<^verbatim>\<open>setKeys\<close> stores a copy of the array (\<^verbatim>\<open>values.slice(0)\<close>).\<close>

definition setKeys :: "('k, 'r) AnimationOf \<Rightarrow> 'k list \<Rightarrow> ('k, 'r) AnimationOf" where
  "setKeys this values' = this\<lparr>keys := values'\<rparr>"

definition setEasingFunction :: "Animation \<Rightarrow> (real \<Rightarrow> real) option \<Rightarrow> Animation" where
  "setEasingFunction this ease = this\<lparr>easingFunction := ease\<rparr>"

section \<open>A sample maths library\<close>

text \<open>
  To run the model on concrete tracks the parameters need values. \<open>sampleMaths\<close> gives
  the functions their usual meaning on arguments of the right class: linear and Hermite
  interpolation, addition and scaling component by component, the spherical interpolation
  and the normalisation of quaternions. It returns undefined on arguments of another
  class, and says nothing of the decomposition of matrices; no example below reaches
  either.
\<close>

definition lerpNum :: "num \<Rightarrow> num \<Rightarrow> real \<Rightarrow> num" where
  "lerpNum a b amount = num_plus a (num_times (num_minus b a) (Fin amount))"

definition hermiteNum :: "num \<Rightarrow> num \<Rightarrow> num \<Rightarrow> num \<Rightarrow> real \<Rightarrow> num" where
  "hermiteNum value1 tangent1 value2 tangent2 amount =
     (let squared = amount * amount;
          cubed = amount * squared;
          part1 = 2 * cubed - 3 * squared + 1;
          part2 = - 2 * cubed + 3 * squared;
          part3 = cubed - 2 * squared + amount;
          part4 = cubed - squared
      in num_plus (num_plus (num_plus (num_times value1 (Fin part1)) (num_times value2 (Fin part2)))
                     (num_times tangent1 (Fin part3)))
           (num_times tangent2 (Fin part4)))"

text \<open>The components of a maths object, and an object of the same class with other
  components.\<close>

fun components :: "any \<Rightarrow> num list" where
  "components (Number a) = [a]"
| "components (Vector2 x y) = [x, y]"
| "components (Vector3 x y z) = [x, y, z]"
| "components (Quaternion x y z w) = [x, y, z, w]"
| "components (Matrix m) = m"
| "components (Color3 r g b) = [r, g, b]"
| "components (Color4 r g b a) = [r, g, b, a]"
| "components (Size w h) = [w, h]"
| "components Undefined = []"
| "components (Function v) = []"
| "components (Array vs) = []"
| "components (Object p) = []"

fun rebuild :: "any \<Rightarrow> num list \<Rightarrow> any" where
  "rebuild (Number a) cs = Number (cs ! 0)"
| "rebuild (Vector2 x y) cs = Vector2 (cs ! 0) (cs ! 1)"
| "rebuild (Vector3 x y z) cs = Vector3 (cs ! 0) (cs ! 1) (cs ! 2)"
| "rebuild (Quaternion x y z w) cs = Quaternion (cs ! 0) (cs ! 1) (cs ! 2) (cs ! 3)"
| "rebuild (Matrix m) cs = Matrix cs"
| "rebuild (Color3 r g b) cs = Color3 (cs ! 0) (cs ! 1) (cs ! 2)"
| "rebuild (Color4 r g b a) cs = Color4 (cs ! 0) (cs ! 1) (cs ! 2) (cs ! 3)"
| "rebuild (Size w h) cs = Size (cs ! 0) (cs ! 1)"
| "rebuild Undefined cs = Undefined"
| "rebuild (Function v) cs = Undefined"
| "rebuild (Array vs) cs = Undefined"
| "rebuild (Object p) cs = Undefined"

text \<open>Two values are objects of one class.\<close>

definition sameClass :: "any \<Rightarrow> any \<Rightarrow> bool" where
  "sameClass a b = (rebuild a [NaN, NaN, NaN, NaN] = rebuild b [NaN, NaN, NaN, NaN]
                    \<and> length (components a) = length (components b))"

definition sampleLerp :: "any \<Rightarrow> any \<Rightarrow> real \<Rightarrow> any" where
  "sampleLerp a b g =
     (if sameClass a b
      then rebuild a (map (\<lambda>(x, y). lerpNum x y g) (zip (components a) (components b)))
      else Undefined)"

definition sampleHermite :: "any \<Rightarrow> any \<Rightarrow> any \<Rightarrow> any \<Rightarrow> real \<Rightarrow> any" where
  "sampleHermite a s b t g =
     (if sameClass a s \<and> sameClass a b \<and> sameClass a t
      then rebuild a (map (\<lambda>((x, sx), (y, tx)). hermiteNum x sx y tx g)
                        (zip (zip (components a) (components s))
                             (zip (components b) (components t))))
      else Undefined)"

definition sampleScale :: "any \<Rightarrow> real \<Rightarrow> any" where
  "sampleScale a s = rebuild a (map (\<lambda>x. num_times x (Fin s)) (components a))"

definition sampleAdd :: "any \<Rightarrow> any \<Rightarrow> any" where
  "sampleAdd a b =
     (if sameClass a b
      then rebuild a (map (\<lambda>(x, y). num_plus x y) (zip (components a) (components b)))
      else Undefined)"

text \<open>\<^verbatim>\<open>Quaternion.Slerp\<close> and \<^verbatim>\<open>normalize\<close>, on quaternions of finite components.\<close>

fun isFin :: "num \<Rightarrow> bool" where
  "isFin (Fin a) = True"
| "isFin NaN = False"

fun realOf :: "num \<Rightarrow> real" where
  "realOf (Fin a) = a"
| "realOf NaN = 0"

definition slerpReal :: "real list \<Rightarrow> real list \<Rightarrow> real \<Rightarrow> real list" where
  "slerpReal left right amount =
     (let dot = (\<Sum>(l, r) \<leftarrow> zip left right. l * r);
          flag = (dot < 0);
          num4 = (if flag then - dot else dot);
          num3 = (if num4 > 0.999999 then 1 - amount
                  else sin ((1 - amount) * arccos num4) * (1 / sin (arccos num4)));
          num2 = (if num4 > 0.999999 then (if flag then - amount else amount)
                  else (if flag then - sin (amount * arccos num4) * (1 / sin (arccos num4))
                        else sin (amount * arccos num4) * (1 / sin (arccos num4))))
      in map (\<lambda>(l, r). num3 * l + num2 * r) (zip left right))"

fun sampleSlerp :: "any \<Rightarrow> any \<Rightarrow> real \<Rightarrow> any" where
  "sampleSlerp (Quaternion x y z w) b amount =
     (if sameClass (Quaternion x y z w) b then
        (if list_all isFin ([x, y, z, w] @ components b)
         then rebuild b (map Fin (slerpReal (map realOf [x, y, z, w])
                                    (map realOf (components b)) amount))
         else Quaternion NaN NaN NaN NaN)
      else Undefined)"
| "sampleSlerp _ _ _ = Undefined"

fun sampleNormalize :: "any \<Rightarrow> any" where
  "sampleNormalize (Quaternion x y z w) =
     (if list_all isFin [x, y, z, w] then
        (let len = sqrt (\<Sum>c \<leftarrow> map realOf [x, y, z, w]. c * c)
         in if len = 0 then Quaternion x y z w
            else rebuild (Quaternion x y z w)
                   (map (\<lambda>c. Fin (realOf c * (1 / len))) [x, y, z, w]))
      else Quaternion NaN NaN NaN NaN)"
| "sampleNormalize _ = Undefined"

definition sampleMaths :: Maths where
  "sampleMaths =
     \<lparr>Scalar_Lerp = sampleLerp, Scalar_Hermite = sampleHermite,
      Quaternion_Slerp = sampleSlerp, Quaternion_Hermite = sampleHermite,
      Vector3_Lerp = sampleLerp, Vector3_Hermite = sampleHermite,
      Vector2_Lerp = sampleLerp, Vector2_Hermite = sampleHermite,
      Size_Lerp = sampleLerp,
      Color3_Lerp = sampleLerp, Color3_Hermite = sampleHermite,
      Color4_Lerp = sampleLerp, Color4_Hermite = sampleHermite,
      Matrix_DecomposeLerp = undefined, Matrix_DecomposeLerpToRef = undefined,
      Matrix_Lerp = sampleLerp, Matrix_LerpToRef = (\<lambda>s e g result. sampleLerp s e g),
      normalize' = sampleNormalize, scale = sampleScale, add = sampleAdd,
      addInPlace = sampleAdd, STEP = Number (Fin 1)\<rparr>"

text \<open>The static fields as the class initialises them.\<close>

definition initialStatics :: Statics where
  "initialStatics =
     \<lparr>AllowMatricesInterpolation = False, AllowMatrixDecomposeForInterpolation = True,
      UniqueIdGenerator = 0\<rparr>"

section \<open>Example tracks\<close>

text \<open>The key \<^verbatim>\<open>{ frame: f, value: v }\<close>, and the same key flagged with an interpolation.\<close>

definition animationKey :: "real \<Rightarrow> any \<Rightarrow> IAnimationKey" where
  "animationKey f v =
     \<lparr>frame = f, value' = v, inTangent = Undefined, outTangent = Undefined,
      interpolation = Undefined\<rparr>"

definition animationKeyStep :: "real \<Rightarrow> any \<Rightarrow> IAnimationKey" where
  "animationKeyStep f v = (animationKey f v)\<lparr>interpolation := Number (Fin 1)\<rparr>"

text \<open>A new track of a data type with the given keys.\<close>

definition track :: "int \<Rightarrow> IAnimationKey list \<Rightarrow> Animation" where
  "track dataType' ks =
     setKeys (fst (newAnimation initialStatics ''track'' ''position.x'' 60 dataType' None None)) ks"

text \<open>The cursor \<^verbatim>\<open>evaluate\<close> starts from.\<close>

definition freshState :: IAnimationState where
  "freshState =
     \<lparr>key = 0, repeatCount = 0, workValue = Undefined,
      loopMode = Some ANIMATIONLOOPMODE_CONSTANT,
      offsetValue = Undefined, highLimitValue = Undefined\<rparr>"

text \<open>A step key at frame 0 with value 1, followed by a key at frame 10 with value 2.\<close>

definition stepTrack :: Animation where
  "stepTrack =
     track ANIMATIONTYPE_FLOAT
       [animationKeyStep 0 (Number (Fin 1)), animationKey 10 (Number (Fin 2))]"

text \<open>
  A step key at frame 0 followed by keys at the frames 10 and 20; and the same with two
  keys at frame 10.
\<close>

definition stepInteriorTrack :: Animation where
  "stepInteriorTrack =
     track ANIMATIONTYPE_FLOAT
       [animationKeyStep 0 (Number (Fin 1)), animationKey 10 (Number (Fin 2)),
        animationKey 20 (Number (Fin 4))]"

definition stepDoubledTrack :: Animation where
  "stepDoubledTrack =
     track ANIMATIONTYPE_FLOAT
       [animationKeyStep 0 (Number (Fin 1)), animationKey 10 (Number (Fin 2)),
        animationKey 10 (Number (Fin 5)), animationKey 20 (Number (Fin 6))]"


text \<open>Keys at the frames 0, 5, 10, 15 and 20, with a range over the frames 5 to 15.\<close>

definition fiveKeyTrack :: Animation where
  "fiveKeyTrack =
     createRange
       (track ANIMATIONTYPE_FLOAT
          [animationKey 0 (Number (Fin 1)), animationKey 5 (Number (Fin 2)),
           animationKey 10 (Number (Fin 3)), animationKey 15 (Number (Fin 4)),
           animationKey 20 (Number (Fin 5))])
       ''walk'' 5 15"

text \<open>The product of two quaternions (\<^verbatim>\<open>multiply\<close>), on finite components.\<close>

definition sampleMultiply :: "any \<Rightarrow> any \<Rightarrow> any" where
  "sampleMultiply a q1 =
     (if sameClass a (Quaternion NaN NaN NaN NaN) \<and> sameClass q1 (Quaternion NaN NaN NaN NaN)
      then
        (if list_all isFin (components a @ components q1) then
           (case (map realOf (components a), map realOf (components q1)) of
              ([x, y, z, w], [x1, y1, z1, w1]) \<Rightarrow>
                Quaternion (Fin (x * w1 + y * z1 - z * y1 + w * x1))
                           (Fin (- x * z1 + y * w1 + z * x1 + w * y1))
                           (Fin (x * y1 - y * x1 + z * w1 + w * z1))
                           (Fin (- x * x1 - y * y1 - z * z1 + w * w1))
            | _ \<Rightarrow> Undefined)
         else Quaternion NaN NaN NaN NaN)
      else Undefined)"

text \<open>Two keys holding the identity quaternion, and a cursor in the relative loop mode
  whose offset is the identity quaternion, after one repetition.\<close>

definition quaternionTrack :: Animation where
  "quaternionTrack =
     track ANIMATIONTYPE_QUATERNION
       [animationKey 0 (Quaternion (Fin 0) (Fin 0) (Fin 0) (Fin 1)),
        animationKey 10 (Quaternion (Fin 0) (Fin 0) (Fin 0) (Fin 1))]"

definition quaternionRelativeState :: IAnimationState where
  "quaternionRelativeState =
     freshState\<lparr>loopMode := Some ANIMATIONLOOPMODE_RELATIVE, repeatCount := 1,
                offsetValue := Quaternion (Fin 0) (Fin 0) (Fin 0) (Fin 1)\<rparr>"

text \<open>Two keys of a three-dimensional vector, and a cursor in the relative loop mode.\<close>

definition vectorTrack :: Animation where
  "vectorTrack =
     track ANIMATIONTYPE_VECTOR3
       [animationKey 0 (Vector3 (Fin 0) (Fin 0) (Fin 0)),
        animationKey 10 (Vector3 (Fin 10) (Fin 20) (Fin 30))]"

definition vectorRelativeState :: IAnimationState where
  "vectorRelativeState =
     freshState\<lparr>loopMode := Some ANIMATIONLOOPMODE_RELATIVE, repeatCount := 2,
                offsetValue := Vector3 (Fin 1) (Fin 1) (Fin 1)\<rparr>"

text \<open>Two keys of a size, and a cursor in the relative loop mode whose offset is a size.\<close>

definition sizeTrack :: Animation where
  "sizeTrack =
     track ANIMATIONTYPE_SIZE
       [animationKey 0 (Size (Fin 0) (Fin 0)), animationKey 10 (Size (Fin 10) (Fin 20))]"

definition sizeRelativeState :: IAnimationState where
  "sizeRelativeState =
     freshState\<lparr>loopMode := Some ANIMATIONLOOPMODE_RELATIVE, repeatCount := 2,
                offsetValue := Size (Fin 1) (Fin 1)\<rparr>"

section \<open>Cursors as objects\<close>











section \<open>Serialization\<close>

text \<open>
  What \<^verbatim>\<open>serialize\<close> and \<^verbatim>\<open>Parse\<close> call of the maths classes: the method \<^verbatim>\<open>asArray\<close>, the
  static \<^verbatim>\<open>FromArray\<close> of each class (its argument is whatever value the code passes, an
  array or not), \<^verbatim>\<open>Quaternion.Zero()\<close> and the method \<^verbatim>\<open>equals\<close>. They are parameters like
  the others.
\<close>

record Conversions =
  asArray :: "any \<Rightarrow> any list"
  Quaternion_FromArray :: "any \<Rightarrow> any"
  Matrix_FromArray :: "any \<Rightarrow> any"
  Color3_FromArray :: "any \<Rightarrow> any"
  Color4_FromArray :: "any \<Rightarrow> any"
  Vector3_FromArray :: "any \<Rightarrow> any"
  Quaternion_Zero :: any
  equals :: "any \<Rightarrow> any \<Rightarrow> bool"

text \<open>
  The serialized form. The fields of the serialization object carry the prefix \<open>so_\<close>,
  those of a serialized key \<open>sk_\<close> and those of a serialized range \<open>sr_\<close>
  (\<^verbatim>\<open>key.values\<close> is \<open>sk_values\<close>). A field that \<^verbatim>\<open>Parse\<close> tests before it reads it is
  optional; \<^verbatim>\<open>key.values\<close> is optional because \<^verbatim>\<open>serialize\<close> does not always set it.
\<close>

record SerializedKey =
  sk_frame :: real
  sk_values :: "any list option"

record SerializedRange =
  sr_name :: string
  sr_from :: real
  sr_to :: real

record SerializationObject =
  so_name :: string
  so_property :: string
  so_framePerSecond :: real
  so_dataType :: int
  so_loopBehavior :: "int option"
  so_enableBlending :: "bool option"
  so_blendingSpeed :: "real option"
  so_keys :: "SerializedKey list"
  so_ranges :: "SerializedRange list option"

text \<open>
  The slots that follow the value in \<^verbatim>\<open>key.values\<close>: \<open>inSlot\<close> and \<open>outSlot\<close> are what is
  pushed for the tangents (the tangent of a float key, the array of its components
  otherwise). The padding with undefined is the source's, test by test.
\<close>

definition pushOptionalSlots :: "any list \<Rightarrow> IAnimationKey \<Rightarrow> any \<Rightarrow> any \<Rightarrow> any list" where
  "pushOptionalSlots values0 animationKey' inSlot outSlot =
     (let values1 = (if inTangent animationKey' \<noteq> Undefined then values0 @ [inSlot] else values0);
          values2 =
            (if outTangent animationKey' \<noteq> Undefined then
               (if inTangent animationKey' = Undefined then values1 @ [Undefined] else values1)
                 @ [outSlot]
             else values1);
          values3 =
            (if interpolation animationKey' \<noteq> Undefined then
               (let padIn = (if inTangent animationKey' = Undefined then values2 @ [Undefined]
                             else values2);
                    padOut = (if outTangent animationKey' = Undefined then padIn @ [Undefined]
                              else padIn)
                in padOut @ [interpolation animationKey'])
             else values2)
      in values3)"

text \<open>\<^verbatim>\<open>x.asArray()\<close> of a tangent that is present.\<close>

definition tangentArray :: "Conversions \<Rightarrow> any \<Rightarrow> error + any" where
  "tangentArray C tangent =
     (if tangent \<noteq> Undefined then bindE (method1 (asArray C) tangent) (\<lambda>a. Inr (Array a))
      else Inr Undefined)"

text \<open>The body of the loop of \<^verbatim>\<open>serialize\<close>.\<close>

definition serializeKey :: "Conversions \<Rightarrow> int \<Rightarrow> IAnimationKey \<Rightarrow> error + SerializedKey" where
  "serializeKey C dataType' animationKey' =
     (if dataType' = ANIMATIONTYPE_FLOAT then
        Inr \<lparr>sk_frame = frame animationKey',
             sk_values = Some (pushOptionalSlots [value' animationKey'] animationKey'
                                 (inTangent animationKey') (outTangent animationKey'))\<rparr>
      else if dataType' = ANIMATIONTYPE_QUATERNION \<or> dataType' = ANIMATIONTYPE_MATRIX
              \<or> dataType' = ANIMATIONTYPE_VECTOR3 \<or> dataType' = ANIMATIONTYPE_COLOR3
              \<or> dataType' = ANIMATIONTYPE_COLOR4 then
        bindE (method1 (asArray C) (value' animationKey')) (\<lambda>values0.
        bindE (tangentArray C (inTangent animationKey')) (\<lambda>inSlot.
        bindE (tangentArray C (outTangent animationKey')) (\<lambda>outSlot.
        Inr \<lparr>sk_frame = frame animationKey',
             sk_values = Some (pushOptionalSlots values0 animationKey' inSlot outSlot)\<rparr>)))
      else Inr \<lparr>sk_frame = frame animationKey', sk_values = None\<rparr>)"

text \<open>A loop over an array that stops at the first exception.\<close>

fun mapE :: "('a \<Rightarrow> error + 'b) \<Rightarrow> 'a list \<Rightarrow> error + 'b list" where
  "mapE f [] = Inr []"
| "mapE f (x # xs) = bindE (f x) (\<lambda>y. bindE (mapE f xs) (\<lambda>ys. Inr (y # ys)))"

text \<open>The ranges that are not null, in the order of the properties of \<^verbatim>\<open>_ranges\<close>.\<close>

fun serializeRanges :: "(string \<times> AnimationRange option) list \<Rightarrow> SerializedRange list" where
  "serializeRanges [] = []"
| "serializeRanges ((n, None) # rs) = serializeRanges rs"
| "serializeRanges ((n, Some source) # rs) =
     \<lparr>sr_name = n, sr_from = rangeFrom source, sr_to = rangeTo source\<rparr> # serializeRanges rs"

definition serialize :: "Conversions \<Rightarrow> Animation \<Rightarrow> error + SerializationObject" where
  "serialize C this =
     bindE (mapE (serializeKey C (dataType this)) (getKeys this)) (\<lambda>ks.
     Inr \<lparr>so_name = name this,
          so_property = targetProperty this,
          so_framePerSecond = framePerSecond this,
          so_dataType = dataType this,
          so_loopBehavior = Some (animationLoopMode this),
          so_enableBlending = enableBlending this,
          so_blendingSpeed = Some (blendingSpeed this),
          so_keys = ks,
          so_ranges = Some (serializeRanges (ranges this))\<rparr>)"

text \<open>\<^verbatim>\<open>key.values[i]\<close>: undefined past the end of the array.\<close>

definition valuesAt :: "any list \<Rightarrow> nat \<Rightarrow> any" where
  "valuesAt vs i = (if i < length vs then vs ! i else Undefined)"

text \<open>\<^verbatim>\<open>key.values.slice(i, j)\<close>.\<close>

definition slice :: "any list \<Rightarrow> nat \<Rightarrow> nat \<Rightarrow> any list" where
  "slice vs i j = take (j - i) (drop i vs)"

text \<open>
  A quaternion tangent read from four array elements: undefined when it equals
  \<^verbatim>\<open>Quaternion.Zero()\<close>.
\<close>

definition parseQuaternionTangent :: "Conversions \<Rightarrow> any list \<Rightarrow> error + any" where
  "parseQuaternionTangent C four =
     (let tangent = Quaternion_FromArray C (Array four) in
      bindE (method1 (\<lambda>t. equals C t (Quaternion_Zero C)) tangent) (\<lambda>isZero.
      Inr (if \<not> isZero then tangent else Undefined)))"

text \<open>
  The body of the loop of \<^verbatim>\<open>Parse\<close>. Reading an element of \<^verbatim>\<open>key.values\<close> raises when
  \<^verbatim>\<open>key.values\<close> is undefined.
\<close>

definition parseKey :: "Conversions \<Rightarrow> int \<Rightarrow> SerializedKey \<Rightarrow> error + IAnimationKey" where
  "parseKey C dataType' key' =
     (case sk_values key' of
        None \<Rightarrow> Inl TypeError
      | Some vs \<Rightarrow>
          (let keyData = (\<lambda>data inTangent' outTangent' interpolation'.
                 \<lparr>frame = sk_frame key', value' = data, inTangent = inTangent',
                  outTangent = outTangent', interpolation = interpolation'\<rparr>)
           in
           if dataType' = ANIMATIONTYPE_FLOAT then
             Inr (keyData (valuesAt vs 0)
                    (if length vs \<ge> 2 then valuesAt vs 1 else Undefined)
                    (if length vs \<ge> 3 then valuesAt vs 2 else Undefined)
                    (if length vs \<ge> 4 then valuesAt vs 3 else Undefined))
           else if dataType' = ANIMATIONTYPE_QUATERNION then
             bindE (if length vs \<ge> 8 then parseQuaternionTangent C (slice vs 4 8)
                    else Inr Undefined) (\<lambda>inTangent'.
             bindE (if length vs \<ge> 12 then parseQuaternionTangent C (slice vs 8 12)
                    else Inr Undefined) (\<lambda>outTangent'.
             Inr (keyData (Quaternion_FromArray C (Array vs)) inTangent' outTangent'
                    (if length vs \<ge> 13 then valuesAt vs 12 else Undefined))))
           else if dataType' = ANIMATIONTYPE_MATRIX then
             Inr (keyData (Matrix_FromArray C (Array vs)) Undefined Undefined
                    (if length vs \<ge> 17 then valuesAt vs 16 else Undefined))
           else if dataType' = ANIMATIONTYPE_COLOR3 then
             Inr (keyData (Color3_FromArray C (Array vs))
                    (if truthy (valuesAt vs 3) then Color3_FromArray C (valuesAt vs 3)
                     else Undefined)
                    (if truthy (valuesAt vs 4) then Color3_FromArray C (valuesAt vs 4)
                     else Undefined)
                    (if truthy (valuesAt vs 5) then valuesAt vs 5 else Undefined))
           else if dataType' = ANIMATIONTYPE_COLOR4 then
             Inr (keyData (Color4_FromArray C (Array vs))
                    (if truthy (valuesAt vs 4) then Color4_FromArray C (valuesAt vs 4)
                     else Undefined)
                    (if truthy (valuesAt vs 5) then Color4_FromArray C (valuesAt vs 5)
                     else Undefined)
                    (if truthy (valuesAt vs 6) then Color4_FromArray C (valuesAt vs 6)
                     else Undefined))
           else
             Inr (keyData (Vector3_FromArray C (Array vs))
                    (if truthy (valuesAt vs 3) then Vector3_FromArray C (valuesAt vs 3)
                     else Undefined)
                    (if truthy (valuesAt vs 4) then Vector3_FromArray C (valuesAt vs 4)
                     else Undefined)
                    (if truthy (valuesAt vs 5) then valuesAt vs 5 else Undefined))))"

text \<open>
  \<^verbatim>\<open>Parse\<close>: the animation, or the exception raised in the loop over the keys, and the
  static fields after the constructor has run.
\<close>

definition Parse ::
  "Conversions \<Rightarrow> Statics \<Rightarrow> SerializationObject \<Rightarrow> (error + Animation) \<times> Statics" where
  "Parse C S parsedAnimation =
     (let (animation0, S1) =
            newAnimation S (so_name parsedAnimation) (so_property parsedAnimation)
              (so_framePerSecond parsedAnimation) (so_dataType parsedAnimation)
              (so_loopBehavior parsedAnimation) None;
          animation1 =
            (if so_enableBlending parsedAnimation = Some True
             then animation0\<lparr>enableBlending := so_enableBlending parsedAnimation\<rparr>
             else animation0);
          animation2 =
            (case so_blendingSpeed parsedAnimation of
               None \<Rightarrow> animation1
             | Some speed \<Rightarrow> if speed \<noteq> 0 then animation1\<lparr>blendingSpeed := speed\<rparr>
                             else animation1)
      in
      (bindE (mapE (parseKey C (so_dataType parsedAnimation)) (so_keys parsedAnimation)) (\<lambda>ks.
         Inr (foldl (\<lambda>animation data. createRange animation (sr_name data) (sr_from data)
                                        (sr_to data))
                (setKeys animation2 ks)
                (case so_ranges parsedAnimation of None \<Rightarrow> [] | Some rs \<Rightarrow> rs))),
       S1))"

text \<open>
  The conversions of the sample library: \<^verbatim>\<open>asArray\<close> lists the components, \<^verbatim>\<open>FromArray\<close>
  reads as many elements as the class has components. An element that is missing or is
  not a number gives the component NaN here (the library leaves it undefined).
\<close>

fun numberOr :: "any \<Rightarrow> num" where
  "numberOr (Number a) = a"
| "numberOr _ = NaN"

fun arrayElements :: "any \<Rightarrow> any list" where
  "arrayElements (Array vs) = vs"
| "arrayElements _ = []"

definition sampleFromArray :: "any \<Rightarrow> any \<Rightarrow> any" where
  "sampleFromArray class array =
     rebuild class (map (\<lambda>i. numberOr (valuesAt (arrayElements array) i))
                      [0 ..< length (components class)])"

definition sampleConversions :: Conversions where
  "sampleConversions =
     \<lparr>asArray = (\<lambda>v. map Number (components v)),
      Quaternion_FromArray = sampleFromArray (Quaternion NaN NaN NaN NaN),
      Matrix_FromArray = sampleFromArray (Matrix (replicate 16 NaN)),
      Color3_FromArray = sampleFromArray (Color3 NaN NaN NaN),
      Color4_FromArray = sampleFromArray (Color4 NaN NaN NaN NaN),
      Vector3_FromArray = sampleFromArray (Vector3 NaN NaN NaN),
      Quaternion_Zero = Quaternion (Fin 0) (Fin 0) (Fin 0) (Fin 0),
      equals = (\<lambda>a b. a = b \<and> list_all isFin (components a))\<rparr>"

text \<open>A float track whose only key has an out-tangent and the step flag and no in-tangent;
  a quaternion track whose only key has an in-tangent.\<close>

definition outTangentStepTrack :: Animation where
  "outTangentStepTrack =
     track ANIMATIONTYPE_FLOAT
       [(animationKey 0 (Number (Fin 1)))
          \<lparr>outTangent := Number (Fin 2), interpolation := Number (Fin 1)\<rparr>]"

definition quaternionTangentTrack :: Animation where
  "quaternionTangentTrack =
     track ANIMATIONTYPE_QUATERNION
       [(animationKey 0 (Quaternion (Fin 0) (Fin 0) (Fin 0) (Fin 1)))
          \<lparr>inTangent := Quaternion (Fin 1) (Fin 0) (Fin 0) (Fin 0)\<rparr>]"

section \<open>Animations in a store\<close>

text \<open>
  The store of the key objects and of the range objects, each by its address; the
  addresses from \<open>nextObject\<close> on are free.
\<close>

record Heap =
  keyObjects :: "nat \<Rightarrow> IAnimationKey"
  rangeObjects :: "nat \<Rightarrow> AnimationRange"
  nextObject :: nat

text \<open>An animation read through the store.\<close>

definition animationOf :: "Heap \<Rightarrow> AnimationRef \<Rightarrow> Animation" where
  "animationOf H this =
     \<lparr>uniqueId = uniqueId this,
      name = name this,
      targetProperty = targetProperty this,
      framePerSecond = framePerSecond this,
      dataType = dataType this,
      animationLoopMode = animationLoopMode this,
      enableBlending = enableBlending this,
      blendingSpeed = blendingSpeed this,
      targetPropertyPath = targetPropertyPath this,
      keys = map (keyObjects H) (keys this),
      easingFunction = easingFunction this,
      events = events this,
      ranges = map (\<lambda>(n, r). (n, map_option (rangeObjects H) r)) (ranges this)\<rparr>"

text \<open>The addresses of the ranges of an animation.\<close>

definition rangeRefs :: "AnimationRef \<Rightarrow> nat set" where
  "rangeRefs this = set (List.map_filter snd (ranges this))"

text \<open>
  The loop of \<^verbatim>\<open>clone\<close> over the properties of \<^verbatim>\<open>_ranges\<close>: a null is skipped, a range is
  cloned into the new object.

  Modelled from the spec: \<^verbatim>\<open>AnimationRange.clone\<close> is in \<^verbatim>\<open>animationRange.ts\<close>, which is
  not among the sources; the spec calls a range independently owned and clonable, so the
  clone is a new object with the same name and interval.
\<close>

fun cloneRanges :: "Heap \<Rightarrow> (string \<times> nat option) list \<Rightarrow> (string \<times> nat option) list \<times> Heap" where
  "cloneRanges H [] = ([], H)"
| "cloneRanges H ((n, None) # rs) = cloneRanges H rs"
| "cloneRanges H ((n, Some r) # rs) =
     (let p = nextObject H;
          H1 = H\<lparr>rangeObjects := (rangeObjects H)(p := rangeObjects H r), nextObject := p + 1\<rparr>;
          (rs', H2) = cloneRanges H1 rs
      in ((n, Some p) # rs', H2))"

text \<open>
  \<^verbatim>\<open>clone\<close>: the new animation, and the store and the static fields afterwards. The keys
  go through \<^verbatim>\<open>setKeys\<close>, which copies the array and not the key objects.
\<close>

definition clone :: "Statics \<Rightarrow> Heap \<Rightarrow> AnimationRef \<Rightarrow> AnimationRef \<times> Heap \<times> Statics" where
  "clone S H this =
     (let (clone0, S1) =
            newAnimation S (name this) (joinDots (targetPropertyPath this))
              (framePerSecond this) (dataType this) (Some (animationLoopMode this)) None;
          clone1 = clone0\<lparr>enableBlending := enableBlending this,
                          blendingSpeed := blendingSpeed this\<rparr>;
          clone2 = setKeys clone1 (keys this);
          (rs, H1) = cloneRanges H (ranges this)
      in (clone2\<lparr>ranges := rs\<rparr>, H1, S1))"

text \<open>
  An animation in a store: one key object at the address 0 and one range object at the
  address 1, and a null range.
\<close>

definition storedHeap :: Heap where
  "storedHeap =
     \<lparr>keyObjects = (\<lambda>p. animationKey 0 (Number (Fin 5))),
      rangeObjects = (\<lambda>p. \<lparr>rangeName = ''walk'', rangeFrom = 0, rangeTo = 10\<rparr>),
      nextObject = 2\<rparr>"

definition storedTrack :: AnimationRef where
  "storedTrack =
     (setKeys (fst (newAnimation initialStatics ''track'' ''position.x'' 60
                      ANIMATIONTYPE_FLOAT None None)) [0])
       \<lparr>ranges := [(''walk'', Some 1), (''old'', None)]\<rparr>"

definition storedClone :: "AnimationRef \<times> Heap \<times> Statics" where
  "storedClone = clone initialStatics storedHeap storedTrack"

section \<open>Additive conversion\<close>

text \<open>
  The methods of the maths classes that \<^verbatim>\<open>MakeAnimationAdditive\<close> calls; the library is not
  among the sources, and they are parameters. A method that writes into its receiver or
  into a result object is the function from the arguments to what is written;
  \<open>decompose\<close> gives the scaling, the rotation and the translation that
  \<^verbatim>\<open>Matrix.decompose\<close> writes into its three arguments. \<open>multiplyToRef a b\<close> is what
  \<^verbatim>\<open>a.multiplyToRef(b, result)\<close> writes, \<open>subtractToRef a b\<close> what
  \<^verbatim>\<open>a.subtractToRef(b, result)\<close> writes. What a library function does with an argument
  of another class than its own is the library's matter, and is not modelled.
\<close>

record Additive =
  conjugateInPlace :: "any \<Rightarrow> any"
  decompose :: "any \<Rightarrow> any \<times> any \<times> any"
  subtractInPlace :: "any \<Rightarrow> any \<Rightarrow> any"
  divideInPlace :: "any \<Rightarrow> any \<Rightarrow> any"
  multiplyToRef :: "any \<Rightarrow> any \<Rightarrow> any"
  Matrix_ComposeToRef :: "any \<Rightarrow> any \<Rightarrow> any \<Rightarrow> any"
  subtractToRef :: "any \<Rightarrow> any \<Rightarrow> any"

text \<open>
  \<^verbatim>\<open>value.clone ? value.clone() : value\<close>: reading \<^verbatim>\<open>clone\<close> of undefined raises; the clone
  of an object of the maths classes is an object with the same components; a number, a
  function, an array and a plain object have no \<^verbatim>\<open>clone\<close> and are taken as they are.
\<close>

definition cloneOrSelf :: "any \<Rightarrow> error + any" where
  "cloneOrSelf v = (if v = Undefined then Inl TypeError else Inr v)"

text \<open>
  The variables of the loop that finds the key bookends: the store, the array
  \<^verbatim>\<open>animation._keys\<close> (the addresses of its key objects), and the locals of the function.
\<close>

record Bookends =
  heap :: Heap
  keyRefs :: "nat list"
  index' :: nat
  referenceFound :: bool
  fromKeyFound :: bool
  toKeyFound :: bool
  referenceValue :: any
  startIndex :: nat
  endIndex :: nat

text \<open>\<^verbatim>\<open>animation._keys[i]\<close>: undefined (\<open>None\<close>) outside the array.\<close>

definition refAt :: "nat list \<Rightarrow> nat \<Rightarrow> nat option" where
  "refAt ks i = (if i < length ks then Some (ks ! i) else None)"

text \<open>
  The test \<^verbatim>\<open>x >= currentKey.frame && x <= nextKey.frame\<close>: it raises when it reads the
  frame of an undefined key, and otherwise gives the two keys when it holds.
\<close>

definition bracket ::
  "Heap \<Rightarrow> nat option \<Rightarrow> nat option \<Rightarrow> real \<Rightarrow> error + (IAnimationKey \<times> IAnimationKey) option" where
  "bracket H currentKey nextKey x =
     (case currentKey of
        None \<Rightarrow> Inl TypeError
      | Some c \<Rightarrow>
          if x \<ge> frame (keyObjects H c) then
            (case nextKey of
               None \<Rightarrow> Inl TypeError
             | Some n \<Rightarrow>
                 if x \<le> frame (keyObjects H n)
                 then Inr (Some (keyObjects H c, keyObjects H n))
                 else Inr None)
          else Inr None)"

text \<open>
  \<^verbatim>\<open>animation._interpolate(x, { key: index, repeatCount: 0, loopMode: CONSTANT })\<close> on the
  keys as the array holds them at that moment.
\<close>

definition interpolateFrom ::
  "Maths \<Rightarrow> Statics \<Rightarrow> AnimationRef \<Rightarrow> Bookends \<Rightarrow> real \<Rightarrow> error + any" where
  "interpolateFrom L S animation st x =
     fst (interpolate L S (animationOf (heap st) (animation\<lparr>keys := keyRefs st\<rparr>)) x
            \<lparr>key = int (index' st), repeatCount = 0, workValue = Undefined,
             loopMode = Some ANIMATIONLOOPMODE_CONSTANT,
             offsetValue = Undefined, highLimitValue = Undefined\<rparr>)"

text \<open>
  \<^verbatim>\<open>valueStore.referenceValue = value.clone ? value.clone() : value; referenceFound = true\<close>.
\<close>

definition setReference :: "any \<Rightarrow> Bookends \<Rightarrow> error + Bookends" where
  "setReference v st =
     bindE (cloneOrSelf v) (\<lambda>r. Inr (st\<lparr>referenceValue := r, referenceFound := True\<rparr>))"

text \<open>The first block of the loop body: the reference value, when the two keys bracket
  the reference frame.\<close>

definition referenceBlock ::
  "Maths \<Rightarrow> Statics \<Rightarrow> AnimationRef \<Rightarrow> real \<Rightarrow> nat option \<Rightarrow> nat option \<Rightarrow> Bookends
     \<Rightarrow> error + Bookends" where
  "referenceBlock L S animation referenceFrame currentKey nextKey st =
     (if referenceFound st then Inr st
      else
        bindE (bracket (heap st) currentKey nextKey referenceFrame) (\<lambda>b.
          case b of
            None \<Rightarrow> Inr st
          | Some (c, n) \<Rightarrow>
              bindE (if referenceFrame = frame c then Inr (getKeyValue (value' c))
                     else if referenceFrame = frame n then Inr (getKeyValue (value' n))
                     else interpolateFrom L S animation st referenceFrame) (\<lambda>v.
              setReference v st)))"

text \<open>
  \<^verbatim>\<open>animation._keys.splice(i, 0, key)\<close> with a new key object: the object gets the next free
  address.
\<close>

definition insertKey :: "nat \<Rightarrow> IAnimationKey \<Rightarrow> Bookends \<Rightarrow> Bookends" where
  "insertKey i k st =
     (let H = heap st; p = nextObject H in
      st\<lparr>heap := H\<lparr>keyObjects := (keyObjects H)(p := k), nextObject := p + 1\<rparr>,
         keyRefs := take i (keyRefs st) @ p # drop i (keyRefs st)\<rparr>)"

text \<open>
  What the second and the third block do with their frame \<open>x\<close> (\<^verbatim>\<open>from\<close> or \<^verbatim>\<open>to\<close>): nothing
  (\<open>None\<close>) when the two keys do not bracket \<open>x\<close>; otherwise the index of the key at \<open>x\<close>,
  which is one of the two keys or a new key with the interpolated value, spliced in after
  the current key.
\<close>

definition bookend ::
  "Maths \<Rightarrow> Statics \<Rightarrow> AnimationRef \<Rightarrow> real \<Rightarrow> nat option \<Rightarrow> nat option \<Rightarrow> Bookends
     \<Rightarrow> error + (nat \<times> Bookends) option" where
  "bookend L S animation x currentKey nextKey st =
     bindE (bracket (heap st) currentKey nextKey x) (\<lambda>b.
       case b of
         None \<Rightarrow> Inr None
       | Some (c, n) \<Rightarrow>
           if x = frame c then Inr (Some (index' st, st))
           else if x = frame n then Inr (Some (index' st + 1, st))
           else
             bindE (interpolateFrom L S animation st x) (\<lambda>v.
             bindE (cloneOrSelf v) (\<lambda>v'.
             Inr (Some (index' st + 1, insertKey (index' st + 1) (animationKey x v') st)))))"

definition fromBlock ::
  "Maths \<Rightarrow> Statics \<Rightarrow> AnimationRef \<Rightarrow> real \<Rightarrow> nat option \<Rightarrow> nat option \<Rightarrow> Bookends
     \<Rightarrow> error + Bookends" where
  "fromBlock L S animation from' currentKey nextKey st =
     (if fromKeyFound st then Inr st
      else
        bindE (bookend L S animation from' currentKey nextKey st) (\<lambda>b.
          case b of
            None \<Rightarrow> Inr st
          | Some (i, st') \<Rightarrow> Inr (st'\<lparr>startIndex := i, fromKeyFound := True\<rparr>)))"

definition toBlock ::
  "Maths \<Rightarrow> Statics \<Rightarrow> AnimationRef \<Rightarrow> real \<Rightarrow> nat option \<Rightarrow> nat option \<Rightarrow> Bookends
     \<Rightarrow> error + Bookends" where
  "toBlock L S animation to' currentKey nextKey st =
     (if toKeyFound st then Inr st
      else
        bindE (bookend L S animation to' currentKey nextKey st) (\<lambda>b.
          case b of
            None \<Rightarrow> Inr st
          | Some (i, st') \<Rightarrow> Inr (st'\<lparr>endIndex := i, toKeyFound := True\<rparr>)))"

text \<open>
  One turn of the loop. \<^verbatim>\<open>currentKey\<close> and \<^verbatim>\<open>nextKey\<close> are read once, before the blocks:
  a key spliced in by the second block does not change what the third block compares
  with.
\<close>

definition bookendStep ::
  "Maths \<Rightarrow> Statics \<Rightarrow> AnimationRef \<Rightarrow> real \<Rightarrow> real \<Rightarrow> real \<Rightarrow> Bookends \<Rightarrow> error + Bookends" where
  "bookendStep L S animation referenceFrame from' to' st =
     (let currentKey = refAt (keyRefs st) (index' st);
          nextKey = refAt (keyRefs st) (index' st + 1)
      in bindE (referenceBlock L S animation referenceFrame currentKey nextKey st) (\<lambda>st1.
         bindE (fromBlock L S animation from' currentKey nextKey st1) (\<lambda>st2.
         bindE (toBlock L S animation to' currentKey nextKey st2) (\<lambda>st3.
         Inr (st3\<lparr>index' := index' st3 + 1\<rparr>)))))"

text \<open>
  The loop condition
  \<^verbatim>\<open>!referenceFound || !fromKeyFound || (!toKeyFound && index < animation._keys.length - 1)\<close>.
\<close>

definition bookendsPending :: "Bookends \<Rightarrow> bool" where
  "bookendsPending st \<longleftrightarrow>
     \<not> referenceFound st \<or> \<not> fromKeyFound st
     \<or> (\<not> toKeyFound st \<and> int (index' st) < int (length (keyRefs st)) - 1)"

text \<open>
  The loop ends: a turn that does not raise has read the frame of the current key or has
  its index below the last, so the index is in the array; it moves the index one up, and
  the array grows by at most one key for each of the two flags that it sets.
\<close>

definition bookendsMeasure :: "Bookends \<Rightarrow> nat" where
  "bookendsMeasure st =
     length (keyRefs st) - index' st
       + (if fromKeyFound st then 0 else 2) + (if toKeyFound st then 0 else 2)"

lemma bracket_current: "bracket H currentKey nextKey x = Inr b \<Longrightarrow> currentKey \<noteq> None"
  by (auto simp: bracket_def split: option.splits)

lemma setReference_frame:
  assumes "setReference v st = Inr st1"
  shows "keyRefs st1 = keyRefs st \<and> index' st1 = index' st
       \<and> fromKeyFound st1 = fromKeyFound st \<and> toKeyFound st1 = toKeyFound st"
  using assms by (auto simp: setReference_def bindE_def split: sum.splits)

lemma referenceBlock_frame:
  assumes "referenceBlock L S animation referenceFrame currentKey nextKey st = Inr st1"
  shows "keyRefs st1 = keyRefs st \<and> index' st1 = index' st
       \<and> fromKeyFound st1 = fromKeyFound st \<and> toKeyFound st1 = toKeyFound st
       \<and> (\<not> referenceFound st \<longrightarrow> currentKey \<noteq> None)"
proof (cases "referenceFound st")
  case True
  then show ?thesis using assms by (simp add: referenceBlock_def)
next
  case False
  then obtain b where b: "bracket (heap st) currentKey nextKey referenceFrame = Inr b"
    using assms by (auto simp: referenceBlock_def bindE_def split: sum.splits)
  note cur = bracket_current [OF b]
  show ?thesis
  proof (cases b)
    case None
    then show ?thesis using assms False b cur by (simp add: referenceBlock_def bindE_def)
  next
    case (Some cn)
    obtain c n where cn: "cn = (c, n)" by (cases cn)
    obtain v where "setReference v st = Inr st1"
      using assms False b Some cn
      by (auto simp: referenceBlock_def bindE_def split: sum.splits if_splits)
    then show ?thesis using setReference_frame cur False by blast
  qed
qed

lemma bookend_frame:
  assumes "bookend L S animation x currentKey nextKey st = Inr b"
  shows "currentKey \<noteq> None"
    and "b = Some (i, st') \<Longrightarrow>
           index' st' = index' st \<and> fromKeyFound st' = fromKeyFound st
           \<and> toKeyFound st' = toKeyFound st
           \<and> length (keyRefs st) \<le> length (keyRefs st')
           \<and> length (keyRefs st') \<le> length (keyRefs st) + 1"
proof -
  obtain b0 where b0: "bracket (heap st) currentKey nextKey x = Inr b0"
    using assms by (auto simp: bookend_def bindE_def split: sum.splits)
  show "currentKey \<noteq> None" by (rule bracket_current [OF b0])
  assume s: "b = Some (i, st')"
  then show "index' st' = index' st \<and> fromKeyFound st' = fromKeyFound st
           \<and> toKeyFound st' = toKeyFound st
           \<and> length (keyRefs st) \<le> length (keyRefs st')
           \<and> length (keyRefs st') \<le> length (keyRefs st) + 1"
    using assms b0
    by (auto simp: bookend_def bindE_def insertKey_def Let_def
          split: sum.splits option.splits if_splits)
qed

lemma fromBlock_frame:
  assumes "fromBlock L S animation x currentKey nextKey st = Inr st2"
  shows "index' st2 = index' st \<and> toKeyFound st2 = toKeyFound st
       \<and> (\<not> fromKeyFound st \<longrightarrow> currentKey \<noteq> None)
       \<and> length (keyRefs st) \<le> length (keyRefs st2)
       \<and> length (keyRefs st2) + (if fromKeyFound st2 then 0 else 2)
           \<le> length (keyRefs st) + (if fromKeyFound st then 0 else 2)"
proof (cases "fromKeyFound st")
  case True
  then show ?thesis using assms by (simp add: fromBlock_def)
next
  case False
  then obtain b where b: "bookend L S animation x currentKey nextKey st = Inr b"
    using assms by (auto simp: fromBlock_def bindE_def split: sum.splits)
  show ?thesis
  proof (cases b)
    case None
    then show ?thesis using assms False b bookend_frame(1) [OF b]
      by (simp add: fromBlock_def bindE_def)
  next
    case (Some p)
    obtain i st' where p: "p = (i, st')" by (cases p)
    have st2: "st2 = st'\<lparr>startIndex := i, fromKeyFound := True\<rparr>"
      using assms False b Some p by (simp add: fromBlock_def bindE_def)
    show ?thesis
      using bookend_frame(2) [OF b, of i st'] bookend_frame(1) [OF b] Some p st2 False by simp
  qed
qed

lemma toBlock_frame:
  assumes "toBlock L S animation x currentKey nextKey st = Inr st2"
  shows "index' st2 = index' st \<and> fromKeyFound st2 = fromKeyFound st
       \<and> (\<not> toKeyFound st \<longrightarrow> currentKey \<noteq> None)
       \<and> length (keyRefs st) \<le> length (keyRefs st2)
       \<and> length (keyRefs st2) + (if toKeyFound st2 then 0 else 2)
           \<le> length (keyRefs st) + (if toKeyFound st then 0 else 2)"
proof (cases "toKeyFound st")
  case True
  then show ?thesis using assms by (simp add: toBlock_def)
next
  case False
  then obtain b where b: "bookend L S animation x currentKey nextKey st = Inr b"
    using assms by (auto simp: toBlock_def bindE_def split: sum.splits)
  show ?thesis
  proof (cases b)
    case None
    then show ?thesis using assms False b bookend_frame(1) [OF b]
      by (simp add: toBlock_def bindE_def)
  next
    case (Some p)
    obtain i st' where p: "p = (i, st')" by (cases p)
    have st2: "st2 = st'\<lparr>endIndex := i, toKeyFound := True\<rparr>"
      using assms False b Some p by (simp add: toBlock_def bindE_def)
    show ?thesis
      using bookend_frame(2) [OF b, of i st'] bookend_frame(1) [OF b] Some p st2 False by simp
  qed
qed

lemma bookendStep_decreases:
  assumes "bookendsPending st"
    and "bookendStep L S animation referenceFrame from' to' st = Inr st'"
  shows "bookendsMeasure st' < bookendsMeasure st"
proof -
  let ?c = "refAt (keyRefs st) (index' st)"
  let ?n = "refAt (keyRefs st) (index' st + 1)"
  obtain st1 where r: "referenceBlock L S animation referenceFrame ?c ?n st = Inr st1"
    using assms(2) by (auto simp: bookendStep_def Let_def bindE_def split: sum.splits)
  obtain st2 where f: "fromBlock L S animation from' ?c ?n st1 = Inr st2"
    using assms(2) r by (auto simp: bookendStep_def Let_def bindE_def split: sum.splits)
  obtain st3 where t: "toBlock L S animation to' ?c ?n st2 = Inr st3"
    using assms(2) r f by (auto simp: bookendStep_def Let_def bindE_def split: sum.splits)
  have e: "st' = st3\<lparr>index' := index' st3 + 1\<rparr>"
    using assms(2) r f t by (simp add: bookendStep_def Let_def bindE_def)
  note R = referenceBlock_frame [OF r]
  note F = fromBlock_frame [OF f]
  note T = toBlock_frame [OF t]
  have "?c \<noteq> None \<or> index' st + 1 < length (keyRefs st)"
    using assms(1) R F by (auto simp: bookendsPending_def)
  then have inside: "index' st < length (keyRefs st)"
    by (auto simp: refAt_def split: if_splits)
  have i3: "index' st3 = index' st" using R F T by simp
  have l1: "length (keyRefs st1) = length (keyRefs st)" using R by simp
  have f1: "fromKeyFound st1 = fromKeyFound st" "toKeyFound st1 = toKeyFound st"
    using R by simp_all
  have t2: "toKeyFound st2 = toKeyFound st" using F f1 by simp
  have f3: "fromKeyFound st3 = fromKeyFound st2" using T by simp
  have a: "length (keyRefs st2) + (if fromKeyFound st2 then 0 else 2)
             \<le> length (keyRefs st) + (if fromKeyFound st then 0 else 2)"
    using F l1 f1 by simp
  have b: "length (keyRefs st3) + (if toKeyFound st3 then 0 else 2)
             \<le> length (keyRefs st2) + (if toKeyFound st then 0 else 2)"
    using T t2 by simp
  have c: "length (keyRefs st) \<le> length (keyRefs st3)"
    using F T l1 by simp
  show ?thesis
    using a b c inside i3 f3
    by (simp add: bookendsMeasure_def e split: if_splits)
qed

text \<open>The loop \<^verbatim>\<open>while (...) { ...; index++; }\<close>; an exception in a turn ends it.\<close>

function bookends ::
  "Maths \<Rightarrow> Statics \<Rightarrow> AnimationRef \<Rightarrow> real \<Rightarrow> real \<Rightarrow> real \<Rightarrow> Bookends \<Rightarrow> error + Bookends" where
  "bookends L S animation referenceFrame from' to' st =
     (if bookendsPending st then
        (case bookendStep L S animation referenceFrame from' to' st of
           Inl e \<Rightarrow> Inl e
         | Inr st' \<Rightarrow> bookends L S animation referenceFrame from' to' st')
      else Inr st)"
  by pat_completeness auto
termination
  by (relation "measure (\<lambda>(L, S, animation, referenceFrame, from', to', st). bookendsMeasure st)")
     (auto intro: bookendStep_decreases)

declare bookends.simps [simp del]

text \<open>
  The receivers of the method calls below: \<^verbatim>\<open>normalize\<close> is a method of the vectors and of
  the quaternion, \<^verbatim>\<open>conjugateInPlace\<close> of the quaternion, \<^verbatim>\<open>decompose\<close> of the matrix,
  \<^verbatim>\<open>multiplyToRef\<close> of the quaternion and of the matrix, \<^verbatim>\<open>subtractToRef\<close> of the vectors
  and of the colours. On any other receiver the call raises.
\<close>

definition declaresNormalize :: "any \<Rightarrow> bool" where
  "declaresNormalize v =
     (case v of Vector2 x y \<Rightarrow> True | Vector3 x y z \<Rightarrow> True | Quaternion x y z w \<Rightarrow> True
      | _ \<Rightarrow> False)"

definition isQuaternion :: "any \<Rightarrow> bool" where
  "isQuaternion v = (case v of Quaternion x y z w \<Rightarrow> True | _ \<Rightarrow> False)"

definition isMatrix :: "any \<Rightarrow> bool" where
  "isMatrix v = (case v of Matrix m \<Rightarrow> True | _ \<Rightarrow> False)"

definition declaresMultiplyToRef :: "any \<Rightarrow> bool" where
  "declaresMultiplyToRef v = (isQuaternion v \<or> isMatrix v)"

definition declaresSubtractToRef :: "any \<Rightarrow> bool" where
  "declaresSubtractToRef v =
     (case v of Vector2 x y \<Rightarrow> True | Vector3 x y z \<Rightarrow> True | Color3 r g b \<Rightarrow> True
      | Color4 r g b a \<Rightarrow> True | _ \<Rightarrow> False)"

definition methodOf :: "(any \<Rightarrow> bool) \<Rightarrow> (any \<Rightarrow> 'a) \<Rightarrow> any \<Rightarrow> error + 'a" where
  "methodOf declares m receiver =
     (if declares receiver then Inr (m receiver) else Inl TypeError)"

text \<open>
  The reference after the loop, as the subtraction reads it: \<^verbatim>\<open>referenceValue\<close>,
  \<^verbatim>\<open>referenceScaling\<close>, \<^verbatim>\<open>referenceQuaternion\<close> and \<^verbatim>\<open>referencePosition\<close>. A quaternion
  reference is normalised and conjugated in place; a matrix reference is decomposed, and
  its rotation normalised and conjugated. The three temporaries are read for a matrix
  track only, after \<^verbatim>\<open>decompose\<close> has written them; undefined stands for their content
  otherwise.
\<close>

definition conjugateReference ::
  "Additive \<Rightarrow> Maths \<Rightarrow> int \<Rightarrow> any \<Rightarrow> error + (any \<times> any \<times> any \<times> any)" where
  "conjugateReference A L dataType' ref =
     (if dataType' = ANIMATIONTYPE_QUATERNION then
        bindE (methodOf declaresNormalize (normalize' L) ref) (\<lambda>q.
        bindE (methodOf isQuaternion (conjugateInPlace A) q) (\<lambda>q'.
        Inr (q', Undefined, Undefined, Undefined)))
      else if dataType' = ANIMATIONTYPE_MATRIX then
        bindE (methodOf isMatrix (decompose A) ref) (\<lambda>(scaling, quaternion, position).
        Inr (ref, scaling, conjugateInPlace A (normalize' L quaternion), position))
      else Inr (ref, Undefined, Undefined, Undefined))"

text \<open>
  \<^verbatim>\<open>key.value.width -= referenceValue.width; key.value.height -= referenceValue.height\<close>.
  Reading a property of undefined raises, and so does the write of a property of a number
  (the code is a module, hence strict). A reference that is not a size has no width and no
  height: the differences are NaN. On a receiver of another class the two writes add
  properties that nothing in this model reads.
\<close>

definition sizeSubtract :: "any \<Rightarrow> any \<Rightarrow> error + any" where
  "sizeSubtract v ref =
     (case v of
        Undefined \<Rightarrow> Inl TypeError
      | Number a \<Rightarrow> Inl TypeError
      | Size w h \<Rightarrow>
          (case ref of
             Undefined \<Rightarrow> Inl TypeError
           | Size rw rh \<Rightarrow> Inr (Size (num_minus w rw) (num_minus h rh))
           | _ \<Rightarrow> Inr (Size NaN NaN))
      | _ \<Rightarrow> if ref = Undefined then Inl TypeError else Inr v)"

text \<open>The \<^verbatim>\<open>switch (animation.dataType)\<close> of the subtraction: the new value of a key.\<close>

definition subtractReference ::
  "Additive \<Rightarrow> int \<Rightarrow> any \<times> any \<times> any \<times> any \<Rightarrow> any \<Rightarrow> error + any" where
  "subtractReference A dataType' store v =
     (case store of (ref, referenceScaling, referenceQuaternion, referencePosition) \<Rightarrow>
        if dataType' = ANIMATIONTYPE_MATRIX then
          bindE (methodOf isMatrix (decompose A) v) (\<lambda>(keyScaling, keyQuaternion, keyPosition).
          Inr (Matrix_ComposeToRef A
                 (divideInPlace A keyScaling referenceScaling)
                 (multiplyToRef A referenceQuaternion keyQuaternion)
                 (subtractInPlace A keyPosition referencePosition)))
        else if dataType' = ANIMATIONTYPE_QUATERNION then
          methodOf declaresMultiplyToRef (\<lambda>r. multiplyToRef A r v) ref
        else if dataType' = ANIMATIONTYPE_VECTOR2 \<or> dataType' = ANIMATIONTYPE_VECTOR3
                \<or> dataType' = ANIMATIONTYPE_COLOR3 \<or> dataType' = ANIMATIONTYPE_COLOR4 then
          methodOf declaresSubtractToRef (\<lambda>k. subtractToRef A k ref) v
        else if dataType' = ANIMATIONTYPE_SIZE then sizeSubtract v ref
        else Inr (js_minus v ref))"

text \<open>
  \<^verbatim>\<open>key.value === firstKey.value\<close>, for the keys at two addresses. Two numbers are compared
  by value. The value of a key is taken to be an object of that key alone, so that a write
  into the value of a key is a write into that key: two keys then hold the same object
  only when they are the same key object.
\<close>

definition sameValueObject :: "Heap \<Rightarrow> nat \<Rightarrow> nat \<Rightarrow> bool" where
  "sameValueObject H p q =
     (let v = value' (keyObjects H p); w = value' (keyObjects H q) in
      case v of
        Undefined \<Rightarrow> strictEquals v w
      | Number a \<Rightarrow> strictEquals v w
      | _ \<Rightarrow> p = q)"

text \<open>
  The loop \<^verbatim>\<open>for (index = startIndex; index <= endIndex; index++)\<close> over its indices: a key
  is skipped when the index is not 0, the track is not a float track and the key has the
  value object of the first key; otherwise its value is rewritten.
\<close>

fun subtractKeys ::
  "Additive \<Rightarrow> int \<Rightarrow> nat \<Rightarrow> any \<times> any \<times> any \<times> any \<Rightarrow> nat list \<Rightarrow> nat list \<Rightarrow> Heap
     \<Rightarrow> error + Heap" where
  "subtractKeys A dataType' firstKey store ks [] H = Inr H"
| "subtractKeys A dataType' firstKey store ks (i # rest) H =
     (case refAt ks i of
        None \<Rightarrow> Inl TypeError
      | Some p \<Rightarrow>
          if i \<noteq> 0 \<and> dataType' \<noteq> ANIMATIONTYPE_FLOAT \<and> sameValueObject H p firstKey
          then subtractKeys A dataType' firstKey store ks rest H
          else
            bindE (subtractReference A dataType' store (value' (keyObjects H p))) (\<lambda>v.
            subtractKeys A dataType' firstKey store ks rest
              (H\<lparr>keyObjects := (keyObjects H)(p := (keyObjects H p)\<lparr>value' := v\<rparr>)\<rparr>)))"

text \<open>
  The animation that is converted: the source, or its clone under the name
  \<^verbatim>\<open>clonedName || animation.name\<close> (an empty name is falsy).
\<close>

definition additiveTarget ::
  "Statics \<Rightarrow> Heap \<Rightarrow> AnimationRef \<Rightarrow> bool \<Rightarrow> string option \<Rightarrow> AnimationRef \<times> Heap \<times> Statics" where
  "additiveTarget S H sourceAnimation cloneOriginal clonedName =
     (if cloneOriginal then
        (case clone S H sourceAnimation of
           (animation, H1, S1) \<Rightarrow>
             (animation\<lparr>name := (case clonedName of
                                    None \<Rightarrow> name animation
                                  | Some n \<Rightarrow> if n = [] then name animation else n)\<rparr>,
              H1, S1))
      else (sourceAnimation, H, S))"

text \<open>
  \<^verbatim>\<open>if (range) { rangeValue = animation.getRange(range); if (rangeValue) ... }\<close>: the range
  whose interval replaces the frames of the first and the last key.
\<close>

definition additiveRange :: "Heap \<Rightarrow> AnimationRef \<Rightarrow> string option \<Rightarrow> AnimationRange option" where
  "additiveRange H animation range' =
     (case range' of
        None \<Rightarrow> None
      | Some n \<Rightarrow> if n = [] then None else getRange (animationOf H animation) n)"

text \<open>
  The body of \<^verbatim>\<open>MakeAnimationAdditive\<close> from the declaration of \<^verbatim>\<open>startIndex\<close> on, for an
  animation with at least one key and a reference frame that is not negative. The
  one-key branch hands the key object itself to \<^verbatim>\<open>_getKeyValue\<close>.
\<close>

definition convertKeys ::
  "Additive \<Rightarrow> Maths \<Rightarrow> Statics \<Rightarrow> Heap \<Rightarrow> AnimationRef \<Rightarrow> real \<Rightarrow> string option
     \<Rightarrow> error + (AnimationRef \<times> Heap)" where
  "convertKeys A L S H animation referenceFrame range' =
     (let ks = keys animation;
          firstKey = keyObjects H (hd ks);
          lastKey = keyObjects H (last ks);
          rangeValue = additiveRange H animation range';
          from' = (case rangeValue of None \<Rightarrow> frame firstKey | Some r \<Rightarrow> rangeFrom r);
          to' = (case rangeValue of None \<Rightarrow> frame lastKey | Some r \<Rightarrow> rangeTo r);
          st0 = \<lparr>heap = H, keyRefs = ks, index' = 0, referenceFound = False,
                 fromKeyFound = (frame firstKey = from'), toKeyFound = (frame lastKey = to'),
                 referenceValue = value' firstKey, startIndex = 0, endIndex = length ks - 1\<rparr>
      in bindE (if length ks = 1 then setReference (getKeyValue (Object (hd ks))) st0
                else if referenceFrame \<le> frame firstKey
                  then setReference (getKeyValue (value' firstKey)) st0
                else if referenceFrame \<ge> frame lastKey
                  then setReference (getKeyValue (value' lastKey)) st0
                else Inr st0) (\<lambda>st1.
         bindE (bookends L S animation referenceFrame from' to' st1) (\<lambda>st2.
         bindE (conjugateReference A L (dataType animation) (referenceValue st2)) (\<lambda>store.
         bindE (subtractKeys A (dataType animation) (hd ks) store (keyRefs st2)
                  [startIndex st2 ..< endIndex st2 + 1] (heap st2)) (\<lambda>H'.
         Inr (animation\<lparr>keys := keyRefs st2\<rparr>, H'))))))"

text \<open>
  \<^verbatim>\<open>MakeAnimationAdditive(sourceAnimation, referenceFrame, range, cloneOriginal,
  clonedName)\<close>: the converted animation, and the store and the static fields afterwards.
  What an exception leaves in the store is not reported.
\<close>

definition MakeAnimationAdditive ::
  "Additive \<Rightarrow> Maths \<Rightarrow> Statics \<Rightarrow> Heap \<Rightarrow> AnimationRef \<Rightarrow> real \<Rightarrow> string option \<Rightarrow> bool
     \<Rightarrow> string option \<Rightarrow> error + (AnimationRef \<times> Heap \<times> Statics)" where
  "MakeAnimationAdditive A L S H sourceAnimation referenceFrame range' cloneOriginal clonedName =
     (case additiveTarget S H sourceAnimation cloneOriginal clonedName of
        (animation, H1, S1) \<Rightarrow>
          if keys animation = [] then Inr (animation, H1, S1)
          else
            bindE (convertKeys A L S1 H1 animation
                     (if referenceFrame \<ge> 0 then referenceFrame else 0) range') (\<lambda>(a, H2).
            Inr (a, H2, S1)))"

text \<open>
  A sample of the methods: the conjugate and the product of quaternions, the difference
  and the quotient component by component. It says nothing of the decomposition and the
  composition of matrices.
\<close>

fun sampleConjugate :: "any \<Rightarrow> any" where
  "sampleConjugate (Quaternion x y z w) =
     Quaternion (num_minus (Fin 0) x) (num_minus (Fin 0) y) (num_minus (Fin 0) z) w"
| "sampleConjugate v = v"

definition sampleSubtract :: "any \<Rightarrow> any \<Rightarrow> any" where
  "sampleSubtract a b =
     (if sameClass a b
      then rebuild a (map (\<lambda>(x, y). num_minus x y) (zip (components a) (components b)))
      else rebuild a (map (\<lambda>x. NaN) (components a)))"

definition sampleDivide :: "any \<Rightarrow> any \<Rightarrow> any" where
  "sampleDivide a b =
     (if sameClass a b
      then rebuild a (map (\<lambda>(x, y). if isFin x \<and> isFin y \<and> realOf y \<noteq> 0
                                      then Fin (realOf x / realOf y) else NaN)
                        (zip (components a) (components b)))
      else rebuild a (map (\<lambda>x. NaN) (components a)))"

definition sampleAdditive :: Additive where
  "sampleAdditive =
     \<lparr>conjugateInPlace = sampleConjugate, decompose = undefined,
      subtractInPlace = sampleSubtract, divideInPlace = sampleDivide,
      multiplyToRef = sampleMultiply, Matrix_ComposeToRef = undefined,
      subtractToRef = sampleSubtract\<rparr>"

text \<open>
  A float track in a store: the key objects at the addresses 0 and 1 are at the frames 0
  and 10, with the values 5 and 7.
\<close>

definition additiveHeap :: Heap where
  "additiveHeap =
     \<lparr>keyObjects = (\<lambda>p. if p = 0 then animationKey 0 (Number (Fin 5))
                          else animationKey 10 (Number (Fin 7))),
      rangeObjects = (\<lambda>p. \<lparr>rangeName = ''walk'', rangeFrom = 0, rangeTo = 10\<rparr>),
      nextObject = 2\<rparr>"

definition additiveTrack :: AnimationRef where
  "additiveTrack =
     setKeys (fst (newAnimation initialStatics ''track'' ''position.x'' 60
                     ANIMATIONTYPE_FLOAT None None)) [0, 1]"

chapter \<open>Properties\<close>

section \<open>Properties of the event registry\<close>

lemma removeEvents_loop_filter:
  "removeEvents_loop evs f index
     = take index evs @ filter (\<lambda>e. eventFrame e \<noteq> f) (drop index evs)"
proof (induction evs f index rule: removeEvents_loop.induct)
  case (1 evs f index)
  show ?case
  proof (cases "index < length evs")
    case False
    then show ?thesis by (subst removeEvents_loop.simps) simp
  next
    case inb: True
    have dr: "drop index evs = evs ! index # drop (Suc index) evs"
      using inb by (simp add: Cons_nth_drop_Suc)
    show ?thesis
    proof (cases "eventFrame (evs ! index) = f")
      case True
      have "removeEvents_loop evs f index = removeEvents_loop (splice1 evs index) f index"
        using inb True by (subst removeEvents_loop.simps) simp
      also have "\<dots> = take index (splice1 evs index)
                     @ filter (\<lambda>e. eventFrame e \<noteq> f) (drop index (splice1 evs index))"
        using "1.IH"(1) [OF inb True] .
      also have "take index (splice1 evs index) = take index evs"
        using inb by (simp add: splice1_def)
      also have "drop index (splice1 evs index) = drop (Suc index) evs"
        using inb by (simp add: splice1_def)
      finally show ?thesis using True dr by simp
    next
      case False
      have "removeEvents_loop evs f index = removeEvents_loop evs f (Suc index)"
        using inb False by (subst removeEvents_loop.simps) simp
      also have "\<dots> = take (Suc index) evs
                     @ filter (\<lambda>e. eventFrame e \<noteq> f) (drop (Suc index) evs)"
        using "1.IH"(2) [OF inb False] .
      finally show ?thesis using False dr inb by (simp add: take_Suc_conv_app_nth)
    qed
  qed
qed

lemma events_removeEvents:
  "events (removeEvents this f) = filter (\<lambda>e. eventFrame e \<noteq> f) (events this)"
  by (simp add: removeEvents_def removeEvents_loop_filter)

lemma sorted_events_addEvent: "sorted (map eventFrame (events (addEvent this e)))"
  by (simp add: addEvent_def)

lemma sorted_events_removeEvents:
  "sorted (map eventFrame (events this)) \<Longrightarrow> sorted (map eventFrame (events (removeEvents this f)))"
  by (simp add: events_removeEvents sorted_filter)

lemma sorted_events_run:
  "sorted (map eventFrame (events this))
     \<Longrightarrow> sorted (map eventFrame (events (foldl eventCall_run this calls)))"
proof (induction calls arbitrary: this)
  case Nil
  then show ?case by simp
next
  case (Cons c calls)
  have "sorted (map eventFrame (events (eventCall_run this c)))"
    using Cons.prems by (cases c) (simp_all add: sorted_events_addEvent sorted_events_removeEvents)
  then show ?case using Cons.IH by simp
qed

section \<open>Properties of the range registry\<close>

lemma map_of_setProperty: "map_of (setProperty ps k v) = (map_of ps)(k \<mapsto> v)"
  by (induction ps) (auto simp: fun_eq_iff)

lemma map_fst_setProperty:
  "map fst (setProperty ps k v) = (if k \<in> fst ` set ps then map fst ps else map fst ps @ [k])"
  by (induction ps) auto

lemma deleteRange_loop_filter:
  "m \<le> length ks \<Longrightarrow>
   deleteRange_loop ks from' to' m
     = filter (\<lambda>k. \<not> (from' \<le> frame k \<and> frame k \<le> to')) (take m ks) @ drop m ks"
proof (induction m arbitrary: ks)
  case 0
  then show ?case by simp
next
  case (Suc key)
  then have inb: "key < length ks" by simp
  have tk: "take (Suc key) ks = take key ks @ [ks ! key]"
    using inb by (simp add: take_Suc_conv_app_nth)
  have dr: "drop key ks = ks ! key # drop (Suc key) ks"
    using inb by (simp add: Cons_nth_drop_Suc)
  show ?case
  proof (cases "from' \<le> frame (ks ! key) \<and> frame (ks ! key) \<le> to'")
    case True
    have len: "key \<le> length (splice1 ks key)"
      using inb by (simp add: splice1_def)
    have "deleteRange_loop ks from' to' (Suc key) = deleteRange_loop (splice1 ks key) from' to' key"
      using True by simp
    also have "\<dots> = filter (\<lambda>k. \<not> (from' \<le> frame k \<and> frame k \<le> to')) (take key (splice1 ks key))
                     @ drop key (splice1 ks key)"
      by (rule Suc.IH [OF len])
    also have "take key (splice1 ks key) = take key ks"
      using inb by (simp add: splice1_def)
    also have "drop key (splice1 ks key) = drop (Suc key) ks"
      using inb by (simp add: splice1_def)
    finally show ?thesis using True tk by simp
  next
    case False
    have "deleteRange_loop ks from' to' (Suc key) = deleteRange_loop ks from' to' key"
      using False by auto
    also have "\<dots> = filter (\<lambda>k. \<not> (from' \<le> frame k \<and> frame k \<le> to')) (take key ks) @ drop key ks"
      using inb by (intro Suc.IH) simp
    finally show ?thesis using False tk dr by auto
  qed
qed

lemma keys_deleteRange:
  assumes "getRange this n = Some r"
  shows "keys (deleteRange this n True)
           = filter (\<lambda>k. \<not> (rangeFrom r \<le> frame k \<and> frame k \<le> rangeTo r)) (keys this)"
  using assms by (simp add: deleteRange_def Let_def deleteRange_loop_filter)

lemma ranges_deleteRange:
  assumes "getRange this n = Some r"
  shows "ranges (deleteRange this n b) = setProperty (ranges this) n None"
  using assms by (simp add: deleteRange_def Let_def)

section \<open>Resolving the left key index\<close>

lemma sorted_frames_mono:
  assumes "sorted (map frame ks)" "0 \<le> i" "i \<le> j" "j < int (length ks)"
  shows "frame (ks ! nat i) \<le> frame (ks ! nat j)"
proof -
  have "nat i \<le> nat j" "nat j < length (map frame ks)" using assms by auto
  then have "map frame ks ! nat i \<le> map frame ks ! nat j"
    using assms(1) by (simp add: sorted_iff_nth_mono)
  then show ?thesis using assms by simp
qed

lemma keyWalkDown_spec:
  "k < int (length ks) \<Longrightarrow>
   \<exists>j. keyWalkDown ks f k = Inr j \<and> j \<le> k \<and> (- 1 \<le> k \<longrightarrow> - 1 \<le> j)
        \<and> (0 \<le> j \<longrightarrow> frame (ks ! nat j) \<le> f)
        \<and> (\<forall>i. j < i \<and> i \<le> k \<longrightarrow> f < frame (ks ! nat i))"
proof (induction ks f k rule: keyWalkDown.induct)
  case (1 ks f k)
  show ?case
  proof (cases "k \<ge> 0")
    case False
    then show ?thesis by (subst keyWalkDown.simps) auto
  next
    case nonneg: True
    then have at: "keyAt ks k = Some (ks ! nat k)"
      using "1.prems" by (simp add: keyAt_def)
    show ?thesis
    proof (cases "f < frame (ks ! nat k)")
      case False
      then show ?thesis using nonneg at by (subst keyWalkDown.simps) simp
    next
      case True
      have "k - 1 < int (length ks)" using "1.prems" by simp
      from "1.IH" [OF nonneg at True this]
      obtain j where j: "keyWalkDown ks f (k - 1) = Inr j" "j \<le> k - 1" "- 1 \<le> j"
        "0 \<le> j \<longrightarrow> frame (ks ! nat j) \<le> f"
        "\<forall>i. j < i \<and> i \<le> k - 1 \<longrightarrow> f < frame (ks ! nat i)"
        using nonneg by auto
      have "\<forall>i. j < i \<and> i \<le> k \<longrightarrow> f < frame (ks ! nat i)"
      proof (intro allI impI)
        fix i assume "j < i \<and> i \<le> k"
        then consider "i \<le> k - 1" "j < i" | "i = k" by linarith
        then show "f < frame (ks ! nat i)" using j(5) True by cases auto
      qed
      moreover have "keyWalkDown ks f k = Inr j"
        using nonneg at True j(1) by (subst keyWalkDown.simps) simp
      ultimately show ?thesis using j by auto
    qed
  qed
qed

lemma keyWalkUp_spec:
  "- 1 \<le> j \<Longrightarrow>
   \<exists>k. keyWalkUp ks f j = Inr k \<and> j \<le> k \<and> (j \<le> int (length ks) - 1 \<longrightarrow> k \<le> int (length ks) - 1)
        \<and> (\<forall>i. j < i \<and> i \<le> k \<longrightarrow> frame (ks ! nat i) \<le> f)
        \<and> (k + 1 \<le> int (length ks) - 1 \<longrightarrow> f < frame (ks ! nat (k + 1)))"
proof (induction ks f j rule: keyWalkUp.induct)
  case (1 ks f j)
  show ?case
  proof (cases "j + 1 \<le> int (length ks) - 1")
    case False
    then show ?thesis by (subst keyWalkUp.simps) simp
  next
    case inb: True
    then have at: "keyAt ks (j + 1) = Some (ks ! nat (j + 1))"
      using "1.prems" by (simp add: keyAt_def)
    show ?thesis
    proof (cases "f \<ge> frame (ks ! nat (j + 1))")
      case False
      then show ?thesis using inb at by (subst keyWalkUp.simps) simp
    next
      case True
      have "- 1 \<le> j + 1" using "1.prems" by simp
      from "1.IH" [OF inb at True this]
      obtain k where k: "keyWalkUp ks f (j + 1) = Inr k" "j + 1 \<le> k" "k \<le> int (length ks) - 1"
        "\<forall>i. j + 1 < i \<and> i \<le> k \<longrightarrow> frame (ks ! nat i) \<le> f"
        "k + 1 \<le> int (length ks) - 1 \<longrightarrow> f < frame (ks ! nat (k + 1))"
        using inb by auto
      have "\<forall>i. j < i \<and> i \<le> k \<longrightarrow> frame (ks ! nat i) \<le> f"
      proof (intro allI impI)
        fix i assume "j < i \<and> i \<le> k"
        then consider "j + 1 < i" "i \<le> k" | "i = j + 1" by linarith
        then show "frame (ks ! nat i) \<le> f" using k(4) True by cases auto
      qed
      moreover have "keyWalkUp ks f j = Inr k"
        using inb at True k(1) by (subst keyWalkUp.simps) simp
      ultimately show ?thesis using k by auto
    qed
  qed
qed

text \<open>From a cursor inside the array the index is resolved without an exception, and the
  frame lies in the half-open interval of the keys that bound it.\<close>

lemma resolveKey_spec:
  assumes "- 1 \<le> h" "h < int (length ks)"
  shows "\<exists>k. resolveKey ks f h = Inr k \<and> - 1 \<le> k \<and> k \<le> int (length ks) - 1
             \<and> (0 \<le> k \<longrightarrow> frame (ks ! nat k) \<le> f)
             \<and> (k + 1 \<le> int (length ks) - 1 \<longrightarrow> f < frame (ks ! nat (k + 1)))"
proof -
  obtain j where j: "keyWalkDown ks f h = Inr j" "j \<le> h" "- 1 \<le> j"
      "0 \<le> j \<longrightarrow> frame (ks ! nat j) \<le> f"
    using keyWalkDown_spec [OF assms(2), of f] assms(1) by auto
  obtain k where k: "keyWalkUp ks f j = Inr k" "j \<le> k" "k \<le> int (length ks) - 1"
      "\<forall>i. j < i \<and> i \<le> k \<longrightarrow> frame (ks ! nat i) \<le> f"
      "k + 1 \<le> int (length ks) - 1 \<longrightarrow> f < frame (ks ! nat (k + 1))"
    using keyWalkUp_spec [OF j(3), of ks f] j(2) assms(2) by auto
  have "0 \<le> k \<longrightarrow> frame (ks ! nat k) \<le> f"
  proof
    assume "0 \<le> k"
    show "frame (ks ! nat k) \<le> f"
    proof (cases "j = k")
      case True
      then show ?thesis using j(4) \<open>0 \<le> k\<close> by simp
    next
      case False
      then have "j < k" using k(2) by simp
      then show ?thesis using k(4) by simp
    qed
  qed
  then show ?thesis using j k by (auto simp: resolveKey_def)
qed

lemma resolveKey_segment:
  assumes srt: "sorted (map frame ks)"
    and h: "- 1 \<le> h" "h < int (length ks)"
    and k: "0 \<le> k" "k + 1 < int (length ks)"
    and f: "frame (ks ! nat k) \<le> f" "f < frame (ks ! nat (k + 1))"
  shows "resolveKey ks f h = Inr k"
proof -
  obtain j where j: "keyWalkDown ks f h = Inr j" "j \<le> h" "- 1 \<le> j"
      "0 \<le> j \<longrightarrow> frame (ks ! nat j) \<le> f"
      "\<forall>i. j < i \<and> i \<le> h \<longrightarrow> f < frame (ks ! nat i)"
    using keyWalkDown_spec [OF h(2), of f] h(1) by auto
  have jk: "j \<le> k"
  proof (rule ccontr)
    assume "\<not> j \<le> k"
    then have "k + 1 \<le> j" "0 \<le> j" using k(1) by auto
    then have "frame (ks ! nat (k + 1)) \<le> frame (ks ! nat j)"
      using sorted_frames_mono [OF srt, of "k + 1" j] j(2) h(2) k(1) by simp
    then show False using j(4) \<open>0 \<le> j\<close> f(2) by simp
  qed
  obtain k' where k': "keyWalkUp ks f j = Inr k'" "j \<le> k'" "k' \<le> int (length ks) - 1"
      "\<forall>i. j < i \<and> i \<le> k' \<longrightarrow> frame (ks ! nat i) \<le> f"
      "k' + 1 \<le> int (length ks) - 1 \<longrightarrow> f < frame (ks ! nat (k' + 1))"
    using keyWalkUp_spec [OF j(3), of ks f] j(2) h(2) by auto
  have "\<not> k' < k"
  proof
    assume lt: "k' < k"
    then have "f < frame (ks ! nat (k' + 1))" using k'(5) k(2) by simp
    moreover have "frame (ks ! nat (k' + 1)) \<le> frame (ks ! nat k)"
      using sorted_frames_mono [OF srt, of "k' + 1" k] lt k'(2) j(3) k(2) by simp
    ultimately show False using f(1) by simp
  qed
  moreover have "\<not> k < k'"
  proof
    assume "k < k'"
    then have "frame (ks ! nat (k + 1)) \<le> f" using k'(4) jk by simp
    then show False using f(2) by simp
  qed
  ultimately have "k' = k" by simp
  then show ?thesis using j(1) k'(1) by (simp add: resolveKey_def)
qed



section \<open>The evaluator on a resolved index\<close>

lemma interpolate_shortCircuit:
  "shortCircuit state \<Longrightarrow>
   interpolate L S this f state
     = (if highLimitValue state = Undefined then (Inl TypeError, state)
        else (Inr (highLimitValue state), state))"
  by (simp add: interpolate_def shortCircuit_def)

lemma interpolate_resolve_error:
  "\<not> shortCircuit state \<Longrightarrow> resolveKey (keys this) f (key state) = Inl e
     \<Longrightarrow> interpolate L S this f state = (Inl e, state)"
  by (auto simp: interpolate_def shortCircuit_def resolveKey_def Let_def split: sum.splits)


lemma interpolate_after:
  assumes "\<not> shortCircuit state" "resolveKey (keys this) f (key state) = Inr k" "0 \<le> k"
    "k + 1 > int (length (keys this)) - 1" "keys this \<noteq> []"
  shows "interpolate L S this f state
           = (Inr (getKeyValue (value' (last (keys this)))), state\<lparr>key := k\<rparr>)"
proof -
  have "nat (int (length (keys this)) - 1) = length (keys this) - 1" by arith
  then have "keyAt (keys this) (int (length (keys this)) - 1) = Some (last (keys this))"
    using assms(5) by (simp add: keyAt_def last_conv_nth)
  then show ?thesis
    using assms(1-4)
    by (auto simp: interpolate_def shortCircuit_def resolveKey_def Let_def split: sum.splits)
qed

lemma interpolate_inside:
  assumes "\<not> shortCircuit state" "resolveKey (keys this) f (key state) = Inr k" "0 \<le> k"
    "k + 1 \<le> int (length (keys this)) - 1"
  shows "interpolate L S this f state
           = interpolateSegment L S this f (state\<lparr>key := k\<rparr>)
               (keys this ! nat k) (keys this ! nat (k + 1))"
proof -
  have "keyAt (keys this) k = Some (keys this ! nat k)"
       "keyAt (keys this) (k + 1) = Some (keys this ! nat (k + 1))"
    using assms(3,4) by (simp_all add: keyAt_def)
  then show ?thesis
    using assms
    by (auto simp: interpolate_def shortCircuit_def resolveKey_def Let_def split: sum.splits)
qed

section \<open>The example tracks\<close>

lemma keys_track [simp]: "keys (track d ks) = ks"
  by (simp add: track_def setKeys_def newAnimation_def)

lemma dataType_track [simp]: "dataType (track d ks) = d"
  by (simp add: track_def setKeys_def newAnimation_def)

lemma easingFunction_track [simp]: "easingFunction (track d ks) = None"
  by (simp add: track_def setKeys_def newAnimation_def)

lemma ranges_track [simp]: "ranges (track d ks) = []"
  by (simp add: track_def setKeys_def newAnimation_def)

lemma events_track [simp]: "events (track d ks) = []"
  by (simp add: track_def setKeys_def newAnimation_def)

lemma not_shortCircuit_freshState [simp]: "\<not> shortCircuit freshState"
  by (simp add: shortCircuit_def freshState_def)

lemma key_freshState [simp]: "key freshState = 0"
  by (simp add: freshState_def)


section \<open>Boundary clamp\<close>




lemma keys_stepTrack:
  "keys stepTrack = [animationKeyStep 0 (Number (Fin 1)), animationKey 10 (Number (Fin 2))]"
  by (simp add: stepTrack_def)



section \<open>Step keys\<close>

lemma interpolateSegment_step:
  "strictEquals (interpolation startKey) (STEP L) \<Longrightarrow>
   interpolateSegment L S this f state startKey endKey
     = (Inr (if f < frame endKey then getKeyValue (value' startKey)
             else getKeyValue (value' endKey)), state)"
  by (simp add: interpolateSegment_def)

lemma resolveKey_later:
  assumes srt: "sorted (map frame ks)"
    and h: "- 1 \<le> h" "h < int (length ks)"
    and j: "0 \<le> j" "j < int (length ks)" "frame (ks ! nat j) \<le> f"
  shows "\<exists>k'. resolveKey ks f h = Inr k' \<and> j \<le> k' \<and> k' \<le> int (length ks) - 1
             \<and> frame (ks ! nat k') \<le> f
             \<and> (k' + 1 \<le> int (length ks) - 1 \<longrightarrow> f < frame (ks ! nat (k' + 1)))"
proof -
  obtain k' where k': "resolveKey ks f h = Inr k'" "- 1 \<le> k'" "k' \<le> int (length ks) - 1"
      "0 \<le> k' \<longrightarrow> frame (ks ! nat k') \<le> f"
      "k' + 1 \<le> int (length ks) - 1 \<longrightarrow> f < frame (ks ! nat (k' + 1))"
    using resolveKey_spec [OF h, of f] by blast
  have "j \<le> k'"
  proof (rule ccontr)
    assume "\<not> j \<le> k'"
    then have lt: "k' + 1 \<le> j" by simp
    then have "f < frame (ks ! nat (k' + 1))" using k'(5) j(2) by simp
    moreover have "frame (ks ! nat (k' + 1)) \<le> frame (ks ! nat j)"
      using sorted_frames_mono [OF srt, of "k' + 1" j] lt k'(2) j(2) by simp
    ultimately show False using j(3) by simp
  qed
  then show ?thesis using k' j(1) by auto
qed

text \<open>
  \<^bold>\<open>C2\<close>, as the code has it. On keys in non-decreasing frame order, with a cursor whose
  index is one that the evaluator leaves in a cursor (from -1 to the last index): when
  the left key of a segment carries the step flag, \<open>interpolate\<close> returns the left key's
  value at every frame from the left key's frame up to, and not including, the right
  key's frame. At and after the right key's frame the key walk has moved on: the frame is
  never evaluated in the step segment (the branch that returns the right key's value is
  not reached), but from a left key at or after the right key. When the right key is the
  last key of the track, that is the clamp to the last key, which returns the right key's
  value; otherwise the later segment decides. For a step key at frame 0 with value 1
  followed by a key at frame 10 with value 2, \<open>evaluate 9\<close> is 1 and \<open>evaluate 10\<close> is 2.
\<close>

theorem interpolate_step_hold:
  "(\<forall>state f k.
      \<not> shortCircuit state \<and> sorted (map frame (keys this))
      \<and> - 1 \<le> key state \<and> key state < int (length (keys this))
      \<and> 0 \<le> k \<and> k + 1 < int (length (keys this))
      \<and> strictEquals (interpolation (keys this ! nat k)) (STEP L)
      \<and> frame (keys this ! nat k) \<le> f \<and> f < frame (keys this ! nat (k + 1))
      \<longrightarrow> interpolate L S this f state
            = (Inr (getKeyValue (value' (keys this ! nat k))), state\<lparr>key := k\<rparr>))
   \<and> (\<forall>state f k.
      \<not> shortCircuit state \<and> sorted (map frame (keys this))
      \<and> - 1 \<le> key state \<and> key state < int (length (keys this))
      \<and> 0 \<le> k \<and> k + 1 = int (length (keys this)) - 1
      \<and> frame (keys this ! nat (k + 1)) \<le> f
      \<longrightarrow> interpolate L S this f state
            = (Inr (getKeyValue (value' (keys this ! nat (k + 1)))), state\<lparr>key := k + 1\<rparr>))
   \<and> (\<forall>state f k.
      \<not> shortCircuit state \<and> sorted (map frame (keys this))
      \<and> - 1 \<le> key state \<and> key state < int (length (keys this))
      \<and> 0 \<le> k \<and> k + 1 < int (length (keys this)) - 1
      \<and> frame (keys this ! nat (k + 1)) \<le> f
      \<longrightarrow> (\<exists>k'. k + 1 \<le> k' \<and> k' \<le> int (length (keys this)) - 1
                \<and> resolveKey (keys this) f (key state) = Inr k'
                \<and> frame (keys this ! nat k') \<le> f
                \<and> (k' + 1 \<le> int (length (keys this)) - 1
                     \<longrightarrow> f < frame (keys this ! nat (k' + 1))
                        \<and> interpolate L S this f state
                            = interpolateSegment L S this f (state\<lparr>key := k'\<rparr>)
                                (keys this ! nat k') (keys this ! nat (k' + 1)))
                \<and> (k' = int (length (keys this)) - 1
                     \<longrightarrow> interpolate L S this f state
                          = (Inr (getKeyValue (value' (last (keys this)))),
                             state\<lparr>key := k'\<rparr>))))
   \<and> (\<forall>state f k.
      - 1 \<le> key state \<and> key state < int (length (keys this))
      \<and> resolveKey (keys this) f (key state) = Inr k
      \<and> k + 1 \<le> int (length (keys this)) - 1
      \<longrightarrow> f < frame (keys this ! nat (k + 1)))
   \<and> evaluate sampleMaths S stepTrack 9 = Inr (Number (Fin 1))
   \<and> evaluate sampleMaths S stepTrack 10 = Inr (Number (Fin 2))"
proof (intro conjI allI impI)
  fix state f k
  assume a: "\<not> shortCircuit state \<and> sorted (map frame (keys this))
      \<and> - 1 \<le> key state \<and> key state < int (length (keys this))
      \<and> 0 \<le> k \<and> k + 1 < int (length (keys this))
      \<and> strictEquals (interpolation (keys this ! nat k)) (STEP L)
      \<and> frame (keys this ! nat k) \<le> f \<and> f < frame (keys this ! nat (k + 1))"
  then have "resolveKey (keys this) f (key state) = Inr k"
    using resolveKey_segment [of "keys this" "key state" k f] by simp
  then show "interpolate L S this f state
            = (Inr (getKeyValue (value' (keys this ! nat k))), state\<lparr>key := k\<rparr>)"
    using a interpolate_inside [of state this f k L S] by (simp add: interpolateSegment_step)
next
  fix state f k
  assume a: "\<not> shortCircuit state \<and> sorted (map frame (keys this))
      \<and> - 1 \<le> key state \<and> key state < int (length (keys this))
      \<and> 0 \<le> k \<and> k + 1 = int (length (keys this)) - 1
      \<and> frame (keys this ! nat (k + 1)) \<le> f"
  then have ne: "keys this \<noteq> []" by auto
  have "nat (k + 1) = length (keys this) - 1" using a by arith
  then have lst: "last (keys this) = keys this ! nat (k + 1)"
    using ne by (simp add: last_conv_nth)
  have j: "sorted (map frame (keys this))" "- 1 \<le> key state"
    "key state < int (length (keys this))" "0 \<le> k + 1" "k + 1 < int (length (keys this))"
    "frame (keys this ! nat (k + 1)) \<le> f"
    using a by simp_all
  obtain k' where k': "resolveKey (keys this) f (key state) = Inr k'" "k + 1 \<le> k'"
      "k' \<le> int (length (keys this)) - 1"
    using resolveKey_later [OF j] by blast
  have eq: "k' = k + 1" using k'(2,3) a by simp
  have "interpolate L S this f state
          = (Inr (getKeyValue (value' (last (keys this)))), state\<lparr>key := k'\<rparr>)"
    using a k'(1) eq ne by (intro interpolate_after) simp_all
  then show "interpolate L S this f state
            = (Inr (getKeyValue (value' (keys this ! nat (k + 1)))), state\<lparr>key := k + 1\<rparr>)"
    by (simp only: lst eq)
next
  fix state f k
  assume a: "\<not> shortCircuit state \<and> sorted (map frame (keys this))
      \<and> - 1 \<le> key state \<and> key state < int (length (keys this))
      \<and> 0 \<le> k \<and> k + 1 < int (length (keys this)) - 1
      \<and> frame (keys this ! nat (k + 1)) \<le> f"
  then have ne: "keys this \<noteq> []" by auto
  have j: "sorted (map frame (keys this))" "- 1 \<le> key state"
    "key state < int (length (keys this))" "0 \<le> k + 1" "k + 1 < int (length (keys this))"
    "frame (keys this ! nat (k + 1)) \<le> f"
    using a by simp_all
  obtain k' where k': "resolveKey (keys this) f (key state) = Inr k'" "k + 1 \<le> k'"
      "k' \<le> int (length (keys this)) - 1" "frame (keys this ! nat k') \<le> f"
      "k' + 1 \<le> int (length (keys this)) - 1 \<longrightarrow> f < frame (keys this ! nat (k' + 1))"
    using resolveKey_later [OF j] by blast
  have pos: "0 \<le> k'" using k'(2) a by simp
  have ins: "interpolate L S this f state
               = interpolateSegment L S this f (state\<lparr>key := k'\<rparr>)
                   (keys this ! nat k') (keys this ! nat (k' + 1))"
    if "k' + 1 \<le> int (length (keys this)) - 1"
    using a k'(1) pos that by (intro interpolate_inside) simp_all
  have aft: "interpolate L S this f state
               = (Inr (getKeyValue (value' (last (keys this)))), state\<lparr>key := k'\<rparr>)"
    if "k' = int (length (keys this)) - 1"
    using a k'(1) pos that ne by (intro interpolate_after) simp_all
  show "\<exists>k'. k + 1 \<le> k' \<and> k' \<le> int (length (keys this)) - 1
                \<and> resolveKey (keys this) f (key state) = Inr k'
                \<and> frame (keys this ! nat k') \<le> f
                \<and> (k' + 1 \<le> int (length (keys this)) - 1
                     \<longrightarrow> f < frame (keys this ! nat (k' + 1))
                        \<and> interpolate L S this f state
                            = interpolateSegment L S this f (state\<lparr>key := k'\<rparr>)
                                (keys this ! nat k') (keys this ! nat (k' + 1)))
                \<and> (k' = int (length (keys this)) - 1
                     \<longrightarrow> interpolate L S this f state
                          = (Inr (getKeyValue (value' (last (keys this)))),
                             state\<lparr>key := k'\<rparr>))"
    using k' ins aft by (intro exI [of _ k']) simp
next
  fix state f k
  assume a: "- 1 \<le> key state \<and> key state < int (length (keys this))
      \<and> resolveKey (keys this) f (key state) = Inr k
      \<and> k + 1 \<le> int (length (keys this)) - 1"
  then show "f < frame (keys this ! nat (k + 1))"
    using resolveKey_spec [of "key state" "keys this" f] by auto
next
  show "evaluate sampleMaths S stepTrack 9 = Inr (Number (Fin 1))"
    by (simp add: keys_stepTrack animationKey_def animationKeyStep_def
          evaluate_def interpolate_def keyWalkDown.simps keyWalkUp.simps keyAt_def
          interpolateSegment_def segmentGradient_def getEasingFunction_def sampleMaths_def ANIMATIONLOOPMODE_defs)
next
  show "evaluate sampleMaths S stepTrack 10 = Inr (Number (Fin 2))"
    by (simp add: keys_stepTrack animationKey_def animationKeyStep_def
          evaluate_def interpolate_def keyWalkDown.simps keyWalkUp.simps keyAt_def
          interpolateSegment_def segmentGradient_def getEasingFunction_def sampleMaths_def ANIMATIONLOOPMODE_defs)
qed

theorem interpolate_step_hold_witness:
  "\<not> shortCircuit freshState \<and> sorted (map frame (keys stepTrack))
   \<and> strictEquals (interpolation (keys stepTrack ! nat 0)) (STEP sampleMaths)
   \<and> frame (keys stepTrack ! nat 0) \<le> 9 \<and> 9 < frame (keys stepTrack ! nat (0 + 1))
   \<and> resolveKey (keys stepTrack) 9 (key freshState) = Inr 0
   \<and> interpolate sampleMaths initialStatics stepTrack 9 freshState
       = (Inr (Number (Fin 1)), freshState\<lparr>key := 0\<rparr>)
   \<and> interpolate sampleMaths initialStatics stepTrack 10 freshState
       = (Inr (Number (Fin 2)), freshState\<lparr>key := 1\<rparr>)
   \<and> interpolate sampleMaths initialStatics stepTrack 9 (freshState\<lparr>key := - 1\<rparr>)
       = (Inr (Number (Fin 1)), freshState\<lparr>key := 0\<rparr>)"
proof -
  have h: "\<not> shortCircuit freshState" "sorted (map frame (keys stepTrack))"
    "strictEquals (interpolation (keys stepTrack ! nat 0)) (STEP sampleMaths)"
    "frame (keys stepTrack ! nat 0) \<le> 9" "9 < frame (keys stepTrack ! nat (0 + 1))"
    "frame (keys stepTrack ! nat (0 + 1)) \<le> 10"
    by (simp_all add: keys_stepTrack animationKey_def animationKeyStep_def sampleMaths_def)
  have h': "\<not> shortCircuit (freshState\<lparr>key := - 1\<rparr>)"
    by (simp add: shortCircuit_def freshState_def)
  have r: "resolveKey (keys stepTrack) 9 (key freshState) = Inr 0"
    using resolveKey_segment [of "keys stepTrack" "key freshState" 0 9] h
    by (simp add: keys_stepTrack)
  note t = interpolate_step_hold [of stepTrack sampleMaths initialStatics]
  have "interpolate sampleMaths initialStatics stepTrack 9 freshState
       = (Inr (getKeyValue (value' (keys stepTrack ! nat 0))), freshState\<lparr>key := 0\<rparr>)"
    using t [THEN conjunct1, rule_format, of freshState 0 9] h by (simp add: keys_stepTrack)
  moreover have "interpolate sampleMaths initialStatics stepTrack 10 freshState
       = (Inr (getKeyValue (value' (keys stepTrack ! nat (0 + 1)))), freshState\<lparr>key := 0 + 1\<rparr>)"
    using t [THEN conjunct2, THEN conjunct1, rule_format, of freshState 0 10] h
    by (simp add: keys_stepTrack)
  moreover have "interpolate sampleMaths initialStatics stepTrack 9 (freshState\<lparr>key := - 1\<rparr>)
       = (Inr (getKeyValue (value' (keys stepTrack ! nat 0))),
          (freshState\<lparr>key := - 1\<rparr>)\<lparr>key := 0\<rparr>)"
    using t [THEN conjunct1, rule_format, of "freshState\<lparr>key := - 1\<rparr>" 0 9] h h'
    by (simp add: keys_stepTrack)
  ultimately show ?thesis
    using h r by (simp add: keys_stepTrack animationKey_def animationKeyStep_def)
qed

text \<open>
  At and after the right key's frame the right key's value is not what comes back when
  the right key is not the last: between the frames 10 and 20 the next segment
  interpolates, and of two keys at frame 10 the later one is the left key at frame 10.
\<close>

theorem evaluate_step_right_key_counterexample:
  "map frame (keys stepInteriorTrack) = [0, 10, 20]
   \<and> map value' (keys stepInteriorTrack) = [Number (Fin 1), Number (Fin 2), Number (Fin 4)]
   \<and> interpolation (keys stepInteriorTrack ! 0) = STEP sampleMaths
   \<and> evaluate sampleMaths initialStatics stepInteriorTrack 15 = Inr (Number (Fin 3))
   \<and> map frame (keys stepDoubledTrack) = [0, 10, 10, 20]
   \<and> map value' (keys stepDoubledTrack)
       = [Number (Fin 1), Number (Fin 2), Number (Fin 5), Number (Fin 6)]
   \<and> interpolation (keys stepDoubledTrack ! 0) = STEP sampleMaths
   \<and> evaluate sampleMaths initialStatics stepDoubledTrack 10 = Inr (Number (Fin 5))"
  by (simp add: stepInteriorTrack_def stepDoubledTrack_def track_def setKeys_def
        newAnimation_def animationKey_def animationKeyStep_def
        evaluate_def interpolate_def keyWalkDown.simps keyWalkUp.simps keyAt_def
        interpolateSegment_def segmentGradient_def getEasingFunction_def sampleMaths_def
        sampleLerp_def sameClass_def lerpNum_def Let_def
        ANIMATIONLOOPMODE_defs ANIMATIONTYPE_defs)

section \<open>Deleting a range\<close>

text \<open>
  \<^bold>\<open>C7\<close>. When the track holds a range named \<open>n\<close>, \<open>deleteRange n True\<close> removes exactly
  the keys whose frame lies in the closed interval of the range and keeps the others in
  their order; the name stays a property of the range object, now holding null, and no
  other range changes.
\<close>

theorem deleteRange_removes_covered_keys:
  assumes "getRange this n = Some r"
  shows "keys (deleteRange this n True)
           = filter (\<lambda>k. \<not> (rangeFrom r \<le> frame k \<and> frame k \<le> rangeTo r)) (keys this)
       \<and> map_of (ranges (deleteRange this n True)) n = Some None
       \<and> map fst (ranges (deleteRange this n True)) = map fst (ranges this)
       \<and> (\<forall>m. m \<noteq> n \<longrightarrow> map_of (ranges (deleteRange this n True)) m = map_of (ranges this) m)"
proof -
  have "map_of (ranges this) n \<noteq> None"
    using assms by (auto simp: getRange_def split: option.splits)
  then have "n \<in> fst ` set (ranges this)" by (simp add: map_of_eq_None_iff)
  then show ?thesis
    using assms
    by (simp add: keys_deleteRange ranges_deleteRange map_of_setProperty map_fst_setProperty)
qed

theorem deleteRange_removes_covered_keys_witness:
  "getRange fiveKeyTrack ''walk'' = Some \<lparr>rangeName = ''walk'', rangeFrom = 5, rangeTo = 15\<rparr>
   \<and> map frame (keys fiveKeyTrack) = [0, 5, 10, 15, 20]
   \<and> map frame (keys (deleteRange fiveKeyTrack ''walk'' True)) = [0, 20]
   \<and> map_of (ranges (deleteRange fiveKeyTrack ''walk'' True)) ''walk'' = Some None"
proof -
  have g: "getRange fiveKeyTrack ''walk''
             = Some \<lparr>rangeName = ''walk'', rangeFrom = 5, rangeTo = 15\<rparr>"
    by (simp add: fiveKeyTrack_def createRange_def getRange_def)
  have k: "keys fiveKeyTrack
             = [animationKey 0 (Number (Fin 1)), animationKey 5 (Number (Fin 2)),
                animationKey 10 (Number (Fin 3)), animationKey 15 (Number (Fin 4)),
                animationKey 20 (Number (Fin 5))]"
    by (simp add: fiveKeyTrack_def createRange_def getRange_def)
  show ?thesis
    using deleteRange_removes_covered_keys [OF g] g
    by (simp add: k animationKey_def)
qed

section \<open>The event registry stays sorted\<close>

text \<open>
  \<^bold>\<open>C8\<close>. After \<open>addEvent\<close> the events are sorted by frame, they are the events before
  and the new one, and the events of any one frame stand in the order of their insertion.
  \<open>removeEvents f\<close> removes exactly the events of frame \<open>f\<close> and leaves the others in place,
  so it keeps a sorted list sorted. Starting from a track without events, the list is
  sorted after every sequence of calls.
\<close>

theorem events_sorted_by_frame:
  "sorted (map eventFrame (events (addEvent this e)))
   \<and> mset (events (addEvent this e)) = add_mset e (mset (events this))
   \<and> (\<forall>k. filter (\<lambda>x. eventFrame x = k) (events (addEvent this e))
           = filter (\<lambda>x. eventFrame x = k) (events this @ [e]))
   \<and> events (removeEvents this f) = filter (\<lambda>x. eventFrame x \<noteq> f) (events this)
   \<and> (sorted (map eventFrame (events this))
        \<longrightarrow> sorted (map eventFrame (events (removeEvents this f))))
   \<and> (\<forall>calls. events this = []
        \<longrightarrow> sorted (map eventFrame (events (foldl eventCall_run this calls))))"
proof (intro conjI allI impI)
  show "sorted (map eventFrame (events (addEvent this e)))"
    by (rule sorted_events_addEvent)
  show "mset (events (addEvent this e)) = add_mset e (mset (events this))"
    by (simp add: addEvent_def)
  show "filter (\<lambda>x. eventFrame x = k) (events (addEvent this e))
           = filter (\<lambda>x. eventFrame x = k) (events this @ [e])" for k
    by (simp add: addEvent_def sort_key_stable)
  show "events (removeEvents this f) = filter (\<lambda>x. eventFrame x \<noteq> f) (events this)"
    by (rule events_removeEvents)
  show "sorted (map eventFrame (events (removeEvents this f)))"
    if "sorted (map eventFrame (events this))"
    using that by (rule sorted_events_removeEvents)
  show "sorted (map eventFrame (events (foldl eventCall_run this calls)))"
    if "events this = []" for calls
    using that sorted_events_run [of this calls] by simp
qed

theorem events_sorted_by_frame_witness:
  "events (track ANIMATIONTYPE_FLOAT []) = []
   \<and> events (foldl eventCall_run (track ANIMATIONTYPE_FLOAT [])
        [AddEvent \<lparr>eventFrame = 5, payload = 1\<rparr>, AddEvent \<lparr>eventFrame = 3, payload = 2\<rparr>,
         AddEvent \<lparr>eventFrame = 5, payload = 3\<rparr>])
      = [\<lparr>eventFrame = 3, payload = 2\<rparr>, \<lparr>eventFrame = 5, payload = 1\<rparr>,
         \<lparr>eventFrame = 5, payload = 3\<rparr>]
   \<and> sorted (map eventFrame (events (foldl eventCall_run (track ANIMATIONTYPE_FLOAT [])
        [AddEvent \<lparr>eventFrame = 5, payload = 1\<rparr>, AddEvent \<lparr>eventFrame = 3, payload = 2\<rparr>,
         AddEvent \<lparr>eventFrame = 5, payload = 3\<rparr>, RemoveEvents 3])))
   \<and> events (removeEvents
        ((track ANIMATIONTYPE_FLOAT [])\<lparr>events :=
            [\<lparr>eventFrame = 3, payload = 2\<rparr>, \<lparr>eventFrame = 5, payload = 1\<rparr>,
             \<lparr>eventFrame = 5, payload = 3\<rparr>]\<rparr>) 5)
      = [\<lparr>eventFrame = 3, payload = 2\<rparr>]"
proof -
  note t = events_sorted_by_frame [of "track ANIMATIONTYPE_FLOAT []"]
  note u = events_sorted_by_frame
    [of "(track ANIMATIONTYPE_FLOAT [])\<lparr>events :=
            [\<lparr>eventFrame = 3, payload = 2\<rparr>, \<lparr>eventFrame = 5, payload = 1\<rparr>,
             \<lparr>eventFrame = 5, payload = 3\<rparr>]\<rparr>" _ 5]
  have "events (foldl eventCall_run (track ANIMATIONTYPE_FLOAT [])
        [AddEvent \<lparr>eventFrame = 5, payload = 1\<rparr>, AddEvent \<lparr>eventFrame = 3, payload = 2\<rparr>,
         AddEvent \<lparr>eventFrame = 5, payload = 3\<rparr>])
      = [\<lparr>eventFrame = 3, payload = 2\<rparr>, \<lparr>eventFrame = 5, payload = 1\<rparr>,
         \<lparr>eventFrame = 5, payload = 3\<rparr>]"
    by (simp add: addEvent_def)
  moreover note t [THEN conjunct2, THEN conjunct2, THEN conjunct2, THEN conjunct2, THEN conjunct2,
      rule_format, OF events_track,
      of "[AddEvent \<lparr>eventFrame = 5, payload = 1\<rparr>, AddEvent \<lparr>eventFrame = 3, payload = 2\<rparr>,
           AddEvent \<lparr>eventFrame = 5, payload = 3\<rparr>, RemoveEvents 3]"]
  moreover note u [THEN conjunct2, THEN conjunct2, THEN conjunct2, THEN conjunct1]
  ultimately show ?thesis by simp
qed

section \<open>The relative loop mode\<close>

lemma key_loopMode_update:
  "(state\<lparr>loopMode := m\<rparr>)\<lparr>key := k\<rparr> = (state\<lparr>key := k\<rparr>)\<lparr>loopMode := m\<rparr>"
  by simp

lemma not_shortCircuit_relative:
  "loopMode state = Some ANIMATIONLOOPMODE_RELATIVE \<Longrightarrow> \<not> shortCircuit state"
  by (simp add: shortCircuit_def ANIMATIONLOOPMODE_defs)

lemma not_shortCircuit_cycle:
  "\<not> shortCircuit (state\<lparr>loopMode := Some ANIMATIONLOOPMODE_CYCLE\<rparr>)"
  by (simp add: shortCircuit_def ANIMATIONLOOPMODE_defs)

lemma bindE_Inl [simp]: "bindE (Inl e) f = Inl e"
  by (simp add: bindE_def)

lemma bindE_Inr [simp]: "bindE (Inr v) f = f v"
  by (simp add: bindE_def)

lemma bindE_return: "bindE r Inr = r"
  by (cases r) simp_all

lemma loopModeSwitch_cycle:
  "loopMode state = Some ANIMATIONLOOPMODE_CYCLE \<Longrightarrow>
   loopModeSwitch L state plain relative otherwise = Inr plain"
  by (simp add: loopModeSwitch_def)

lemma loopModeSwitch_relative:
  assumes "loopMode state = Some ANIMATIONLOOPMODE_RELATIVE"
    "declaresScale (offsetValue state)" "isMathsObject plain"
  shows "loopModeSwitch L state plain relative otherwise
           = Inr (relative plain (scale L (offsetValue state) (repeatCount state)))"
  using assms
  by (simp add: loopModeSwitch_def offsetScaled_def methodScale_def method1_def
        ANIMATIONLOOPMODE_defs)

lemma cubicOrLinear_untangented:
  "outTangent sk = Undefined \<or> inTangent ek = Undefined \<Longrightarrow>
   \<exists>v. cubicOrLinear L Hermite Lerp this f sk ek = Inr v"
  by (auto simp: cubicOrLinear_def)

lemma segment_Vector3:
  assumes "\<not> strictEquals (interpolation sk) (STEP L)" "dataType this = ANIMATIONTYPE_VECTOR3"
  shows "interpolateSegment L S this f state sk ek
           = (bindE (cubicOrLinear L (Vector3_Hermite L) (Vector3_Lerp L) this f sk ek)
                (\<lambda>v. loopModeSwitch L state v (add L) (Number (Fin 0))), state)"
  using assms
  by (simp add: interpolateSegment_def cubicOrLinear_def Let_def ANIMATIONTYPE_defs)

lemma segment_Vector2:
  assumes "\<not> strictEquals (interpolation sk) (STEP L)" "dataType this = ANIMATIONTYPE_VECTOR2"
  shows "interpolateSegment L S this f state sk ek
           = (bindE (cubicOrLinear L (Vector2_Hermite L) (Vector2_Lerp L) this f sk ek)
                (\<lambda>v. loopModeSwitch L state v (add L) (Number (Fin 0))), state)"
  using assms
  by (simp add: interpolateSegment_def cubicOrLinear_def Let_def ANIMATIONTYPE_defs)

lemma segment_Color3:
  assumes "\<not> strictEquals (interpolation sk) (STEP L)" "dataType this = ANIMATIONTYPE_COLOR3"
  shows "interpolateSegment L S this f state sk ek
           = (bindE (cubicOrLinear L (Color3_Hermite L) (Color3_Lerp L) this f sk ek)
                (\<lambda>v. loopModeSwitch L state v (add L) (Number (Fin 0))), state)"
  using assms
  by (simp add: interpolateSegment_def cubicOrLinear_def Let_def ANIMATIONTYPE_defs)

lemma segment_Color4:
  assumes "\<not> strictEquals (interpolation sk) (STEP L)" "dataType this = ANIMATIONTYPE_COLOR4"
  shows "interpolateSegment L S this f state sk ek
           = (bindE (cubicOrLinear L (Color4_Hermite L) (Color4_Lerp L) this f sk ek)
                (\<lambda>v. loopModeSwitch L state v (add L) (Number (Fin 0))), state)"
  using assms
  by (simp add: interpolateSegment_def cubicOrLinear_def Let_def ANIMATIONTYPE_defs)

lemma segment_Size:
  assumes "\<not> strictEquals (interpolation sk) (STEP L)" "dataType this = ANIMATIONTYPE_SIZE"
  shows "interpolateSegment L S this f state sk ek
           = (bindE (Inr (Size_Lerp L (getKeyValue (value' sk)) (getKeyValue (value' ek))
                            (segmentGradient this f sk ek)))
                (\<lambda>v. loopModeSwitch L state v (add L) (Number (Fin 0))), state)"
  using assms
  by (simp add: interpolateSegment_def Let_def ANIMATIONTYPE_defs)

lemma segment_Quaternion:
  assumes "\<not> strictEquals (interpolation sk) (STEP L)"
    "dataType this = ANIMATIONTYPE_QUATERNION"
  shows "interpolateSegment L S this f state sk ek
           = (bindE (if outTangent sk \<noteq> Undefined \<and> inTangent ek \<noteq> Undefined
                     then bindE (tangentValue L (Quaternion_Hermite L) (getKeyValue (value' sk)) sk
                                   (getKeyValue (value' ek)) ek (frame ek - frame sk)
                                   (segmentGradient this f sk ek))
                            (method1 (normalize' L))
                     else Inr (Quaternion_Slerp L (getKeyValue (value' sk))
                                 (getKeyValue (value' ek)) (segmentGradient this f sk ek)))
                (\<lambda>v. loopModeSwitch L state v (addInPlace L) v), state)"
  using assms
  by (simp add: interpolateSegment_def Let_def ANIMATIONTYPE_defs)

text \<open>The relative result from the plain one, for a segment of the form the lemmas above
  give.\<close>

lemma relative_from_plain:
  assumes form: "\<And>st. interpolateSegment L S this f st sk ek
                       = (bindE X (\<lambda>v. loopModeSwitch L st v rel (other v)), st)"
    and "loopMode state = Some ANIMATIONLOOPMODE_RELATIVE"
    and "declaresScale (offsetValue state)"
    and "fst (interpolateSegment L S this f (state\<lparr>loopMode := Some ANIMATIONLOOPMODE_CYCLE\<rparr>) sk ek)
           = Inr v"
    and "isMathsObject v"
  shows "fst (interpolateSegment L S this f state sk ek)
           = Inr (rel v (scale L (offsetValue state) (repeatCount state)))"
proof -
  have "bindE X (\<lambda>v. loopModeSwitch L (state\<lparr>loopMode := Some ANIMATIONLOOPMODE_CYCLE\<rparr>) v rel
                        (other v)) = Inr v"
    using assms(4) by (simp add: form)
  then have "X = Inr v"
    by (cases X) (simp_all add: loopModeSwitch_cycle)
  then show ?thesis
    using assms(2,3,5) by (simp add: form loopModeSwitch_relative)
qed

lemma plain_from_form:
  assumes form: "\<And>st. interpolateSegment L S this f st sk ek
                       = (bindE X (\<lambda>v. loopModeSwitch L st v rel (other v)), st)"
    and "X = Inr v"
  shows "fst (interpolateSegment L S this f (state\<lparr>loopMode := Some ANIMATIONLOOPMODE_CYCLE\<rparr>) sk ek)
           = Inr v"
  using assms(2) by (simp add: form loopModeSwitch_cycle)

lemma segment_relative_float:
  assumes "\<not> strictEquals (interpolation sk) (STEP L)"
    "loopMode state = Some ANIMATIONLOOPMODE_RELATIVE" "dataType this = ANIMATIONTYPE_FLOAT"
  shows "\<exists>v. fst (interpolateSegment L S this f (state\<lparr>loopMode := Some ANIMATIONLOOPMODE_CYCLE\<rparr>) sk ek)
               = Inr v
           \<and> fst (interpolateSegment L S this f state sk ek)
               = Inr (js_plus (js_times (offsetValue state) (Number (Fin (repeatCount state)))) v)"
  using assms
  by (simp add: interpolateSegment_def Let_def ANIMATIONLOOPMODE_defs)

lemma segment_relative_object:
  assumes "\<not> strictEquals (interpolation sk) (STEP L)"
    "loopMode state = Some ANIMATIONLOOPMODE_RELATIVE"
    "dataType this = ANIMATIONTYPE_VECTOR2 \<or> dataType this = ANIMATIONTYPE_VECTOR3
     \<or> dataType this = ANIMATIONTYPE_COLOR3 \<or> dataType this = ANIMATIONTYPE_COLOR4"
    "declaresScale (offsetValue state)"
    "fst (interpolateSegment L S this f (state\<lparr>loopMode := Some ANIMATIONLOOPMODE_CYCLE\<rparr>) sk ek)
       = Inr v"
    "isMathsObject v"
  shows "fst (interpolateSegment L S this f state sk ek)
           = Inr (add L v (scale L (offsetValue state) (repeatCount state)))"
  using assms(3)
proof (elim disjE)
  assume d: "dataType this = ANIMATIONTYPE_VECTOR2"
  show ?thesis
    by (rule relative_from_plain [OF segment_Vector2 [OF assms(1) d] assms(2,4,5,6)])
next
  assume d: "dataType this = ANIMATIONTYPE_VECTOR3"
  show ?thesis
    by (rule relative_from_plain [OF segment_Vector3 [OF assms(1) d] assms(2,4,5,6)])
next
  assume d: "dataType this = ANIMATIONTYPE_COLOR3"
  show ?thesis
    by (rule relative_from_plain [OF segment_Color3 [OF assms(1) d] assms(2,4,5,6)])
next
  assume d: "dataType this = ANIMATIONTYPE_COLOR4"
  show ?thesis
    by (rule relative_from_plain [OF segment_Color4 [OF assms(1) d] assms(2,4,5,6)])
qed

lemma segment_relative_quaternion:
  assumes "\<not> strictEquals (interpolation sk) (STEP L)"
    "loopMode state = Some ANIMATIONLOOPMODE_RELATIVE"
    "dataType this = ANIMATIONTYPE_QUATERNION"
    "declaresScale (offsetValue state)"
    "fst (interpolateSegment L S this f (state\<lparr>loopMode := Some ANIMATIONLOOPMODE_CYCLE\<rparr>) sk ek)
       = Inr v"
    "isMathsObject v"
  shows "fst (interpolateSegment L S this f state sk ek)
           = Inr (addInPlace L v (scale L (offsetValue state) (repeatCount state)))"
  by (rule relative_from_plain [OF segment_Quaternion [OF assms(1,3)] assms(2,4,5,6)])

lemma segment_relative_matrix:
  assumes "\<not> strictEquals (interpolation sk) (STEP L)"
    "loopMode state = Some ANIMATIONLOOPMODE_RELATIVE"
    "dataType this = ANIMATIONTYPE_MATRIX"
  shows "fst (interpolateSegment L S this f state sk ek) = Inr (getKeyValue (value' sk))"
  using assms
  by (simp add: interpolateSegment_def Let_def ANIMATIONLOOPMODE_defs ANIMATIONTYPE_defs)

lemma loopModeSwitch_relative_state:
  "loopMode state = Some ANIMATIONLOOPMODE_RELATIVE \<Longrightarrow>
   \<not> (loopMode state = Some ANIMATIONLOOPMODE_CYCLE
       \<or> loopMode state = Some ANIMATIONLOOPMODE_CONSTANT
       \<or> loopMode state = Some ANIMATIONLOOPMODE_YOYO)"
  by (simp add: ANIMATIONLOOPMODE_defs)

lemma segment_relative_state:
  assumes "loopMode state = Some ANIMATIONLOOPMODE_RELATIVE"
  shows "snd (interpolateSegment L S this f state sk ek) = state"
  using assms loopModeSwitch_relative_state [OF assms]
  by (simp add: interpolateSegment_def Let_def)

lemma segment_plain_untangented:
  assumes "\<not> strictEquals (interpolation sk) (STEP L)"
    "dataType this = ANIMATIONTYPE_VECTOR2 \<or> dataType this = ANIMATIONTYPE_VECTOR3
     \<or> dataType this = ANIMATIONTYPE_COLOR3 \<or> dataType this = ANIMATIONTYPE_COLOR4
     \<or> dataType this = ANIMATIONTYPE_SIZE \<or> dataType this = ANIMATIONTYPE_QUATERNION"
    "outTangent sk = Undefined \<or> inTangent ek = Undefined"
  shows "\<exists>v. fst (interpolateSegment L S this f (state\<lparr>loopMode := Some ANIMATIONLOOPMODE_CYCLE\<rparr>) sk ek)
               = Inr v"
  using assms(2)
proof (elim disjE)
  assume d: "dataType this = ANIMATIONTYPE_VECTOR2"
  obtain v where "cubicOrLinear L (Vector2_Hermite L) (Vector2_Lerp L) this f sk ek = Inr v"
    using cubicOrLinear_untangented [OF assms(3)] by blast
  then show ?thesis
    using plain_from_form [OF segment_Vector2 [OF assms(1) d]] by blast
next
  assume d: "dataType this = ANIMATIONTYPE_VECTOR3"
  obtain v where "cubicOrLinear L (Vector3_Hermite L) (Vector3_Lerp L) this f sk ek = Inr v"
    using cubicOrLinear_untangented [OF assms(3)] by blast
  then show ?thesis
    using plain_from_form [OF segment_Vector3 [OF assms(1) d]] by blast
next
  assume d: "dataType this = ANIMATIONTYPE_COLOR3"
  obtain v where "cubicOrLinear L (Color3_Hermite L) (Color3_Lerp L) this f sk ek = Inr v"
    using cubicOrLinear_untangented [OF assms(3)] by blast
  then show ?thesis
    using plain_from_form [OF segment_Color3 [OF assms(1) d]] by blast
next
  assume d: "dataType this = ANIMATIONTYPE_COLOR4"
  obtain v where "cubicOrLinear L (Color4_Hermite L) (Color4_Lerp L) this f sk ek = Inr v"
    using cubicOrLinear_untangented [OF assms(3)] by blast
  then show ?thesis
    using plain_from_form [OF segment_Color4 [OF assms(1) d]] by blast
next
  assume d: "dataType this = ANIMATIONTYPE_SIZE"
  show ?thesis
    using plain_from_form [OF segment_Size [OF assms(1) d] refl] by blast
next
  assume d: "dataType this = ANIMATIONTYPE_QUATERNION"
  have "(if outTangent sk \<noteq> Undefined \<and> inTangent ek \<noteq> Undefined
         then bindE (tangentValue L (Quaternion_Hermite L) (getKeyValue (value' sk)) sk
                       (getKeyValue (value' ek)) ek (frame ek - frame sk)
                       (segmentGradient this f sk ek))
                (method1 (normalize' L))
         else Inr (Quaternion_Slerp L (getKeyValue (value' sk))
                     (getKeyValue (value' ek)) (segmentGradient this f sk ek)))
        = Inr (Quaternion_Slerp L (getKeyValue (value' sk))
                     (getKeyValue (value' ek)) (segmentGradient this f sk ek))"
    using assms(3) by auto
  then show ?thesis
    using plain_from_form [OF segment_Quaternion [OF assms(1) d]] by blast
qed

text \<open>
  \<^bold>\<open>C3\<close>, as the code has it. Take keys in non-decreasing frame order, a cursor in the
  relative loop mode whose index is one that the evaluator leaves in a cursor (from -1 to
  the last index), and a frame bounded by a segment whose left key is not a step key.
  Write \<open>v\<close> for the interpolated value, which is what the call returns from the same
  cursor in the cycle mode. The call leaves the resolved index in the cursor and returns:
  for a float track, \<open>offsetValue * repeatCount + v\<close>; for a track of vectors or colours,
  \<open>v.add(offsetValue.scale(repeatCount))\<close>, the offset being of a class that has \<open>scale\<close>;
  for a track of quaternions, \<open>v.addInPlace(offsetValue.scale(repeatCount))\<close>, an addition
  like the others and not a product; for a track of matrices, the left key's value.
  Without tangents on the segment the interpolated value exists.
\<close>

theorem interpolate_relative_offset:
  assumes "sorted (map frame (keys this))"
    and "- 1 \<le> key state" "key state < int (length (keys this))"
    and "0 \<le> k" "k + 1 < int (length (keys this))"
    and "frame (keys this ! nat k) \<le> f" "f < frame (keys this ! nat (k + 1))"
    and "loopMode state = Some ANIMATIONLOOPMODE_RELATIVE"
    and "\<not> strictEquals (interpolation (keys this ! nat k)) (STEP L)"
  shows "snd (interpolate L S this f state) = state\<lparr>key := k\<rparr>
     \<and> (dataType this = ANIMATIONTYPE_FLOAT \<longrightarrow>
          (\<exists>v. fst (interpolate L S this f (state\<lparr>loopMode := Some ANIMATIONLOOPMODE_CYCLE\<rparr>)) = Inr v
             \<and> fst (interpolate L S this f state)
                 = Inr (js_plus (js_times (offsetValue state) (Number (Fin (repeatCount state)))) v)))
     \<and> (\<forall>v. (dataType this = ANIMATIONTYPE_VECTOR2 \<or> dataType this = ANIMATIONTYPE_VECTOR3
              \<or> dataType this = ANIMATIONTYPE_COLOR3 \<or> dataType this = ANIMATIONTYPE_COLOR4)
             \<and> declaresScale (offsetValue state) \<and> isMathsObject v
             \<and> fst (interpolate L S this f (state\<lparr>loopMode := Some ANIMATIONLOOPMODE_CYCLE\<rparr>)) = Inr v
           \<longrightarrow> fst (interpolate L S this f state)
                 = Inr (add L v (scale L (offsetValue state) (repeatCount state))))
     \<and> (\<forall>v. dataType this = ANIMATIONTYPE_QUATERNION
             \<and> declaresScale (offsetValue state) \<and> isMathsObject v
             \<and> fst (interpolate L S this f (state\<lparr>loopMode := Some ANIMATIONLOOPMODE_CYCLE\<rparr>)) = Inr v
           \<longrightarrow> fst (interpolate L S this f state)
                 = Inr (addInPlace L v (scale L (offsetValue state) (repeatCount state))))
     \<and> (dataType this = ANIMATIONTYPE_MATRIX \<longrightarrow>
          fst (interpolate L S this f state) = Inr (getKeyValue (value' (keys this ! nat k))))
     \<and> ((dataType this = ANIMATIONTYPE_VECTOR2 \<or> dataType this = ANIMATIONTYPE_VECTOR3
          \<or> dataType this = ANIMATIONTYPE_COLOR3 \<or> dataType this = ANIMATIONTYPE_COLOR4
          \<or> dataType this = ANIMATIONTYPE_QUATERNION)
         \<and> (outTangent (keys this ! nat k) = Undefined
             \<or> inTangent (keys this ! nat (k + 1)) = Undefined)
         \<longrightarrow> (\<exists>v. fst (interpolate L S this f (state\<lparr>loopMode := Some ANIMATIONLOOPMODE_CYCLE\<rparr>))
                     = Inr v))"
proof -
  let ?cyc = "state\<lparr>loopMode := Some ANIMATIONLOOPMODE_CYCLE\<rparr>"
  let ?sk = "keys this ! nat k" and ?ek = "keys this ! nat (k + 1)"
  have r: "resolveKey (keys this) f (key state) = Inr k"
    by (rule resolveKey_segment [OF assms(1-7)])
  have rc: "resolveKey (keys this) f (key ?cyc) = Inr k" using r by simp
  have kb: "k + 1 \<le> int (length (keys this)) - 1" using assms(5) by simp
  have rel: "interpolate L S this f state
               = interpolateSegment L S this f (state\<lparr>key := k\<rparr>) ?sk ?ek"
    by (rule interpolate_inside [OF not_shortCircuit_relative [OF assms(8)] r assms(4) kb])
  have cyc: "interpolate L S this f ?cyc
               = interpolateSegment L S this f ((state\<lparr>key := k\<rparr>)\<lparr>loopMode := Some ANIMATIONLOOPMODE_CYCLE\<rparr>)
                   ?sk ?ek"
    using interpolate_inside [OF not_shortCircuit_cycle rc assms(4) kb, of L S]
    by (simp only: key_loopMode_update)
  have lm: "loopMode (state\<lparr>key := k\<rparr>) = Some ANIMATIONLOOPMODE_RELATIVE"
    using assms(8) by simp
  have st: "snd (interpolate L S this f state) = state\<lparr>key := k\<rparr>"
    unfolding rel by (rule segment_relative_state [OF lm])
  have fl: "\<exists>v. fst (interpolate L S this f ?cyc) = Inr v
             \<and> fst (interpolate L S this f state)
                 = Inr (js_plus (js_times (offsetValue state) (Number (Fin (repeatCount state)))) v)"
    if "dataType this = ANIMATIONTYPE_FLOAT"
    using segment_relative_float [OF assms(9) lm that, of S f ?ek] unfolding rel cyc by simp
  have ob: "fst (interpolate L S this f state)
                 = Inr (add L v (scale L (offsetValue state) (repeatCount state)))"
    if "(dataType this = ANIMATIONTYPE_VECTOR2 \<or> dataType this = ANIMATIONTYPE_VECTOR3
              \<or> dataType this = ANIMATIONTYPE_COLOR3 \<or> dataType this = ANIMATIONTYPE_COLOR4)
             \<and> declaresScale (offsetValue state) \<and> isMathsObject v
             \<and> fst (interpolate L S this f ?cyc) = Inr v" for v
    using segment_relative_object [OF assms(9) lm, of this S f ?ek v] that
    unfolding rel cyc by simp
  have qu: "fst (interpolate L S this f state)
                 = Inr (addInPlace L v (scale L (offsetValue state) (repeatCount state)))"
    if "dataType this = ANIMATIONTYPE_QUATERNION
             \<and> declaresScale (offsetValue state) \<and> isMathsObject v
             \<and> fst (interpolate L S this f ?cyc) = Inr v" for v
    using segment_relative_quaternion [OF assms(9) lm, of this S f ?ek v] that
    unfolding rel cyc by simp
  have ma: "fst (interpolate L S this f state) = Inr (getKeyValue (value' ?sk))"
    if "dataType this = ANIMATIONTYPE_MATRIX"
    using segment_relative_matrix [OF assms(9) lm that, of S f ?ek] unfolding rel by simp
  have ex: "\<exists>v. fst (interpolate L S this f ?cyc) = Inr v"
    if "(dataType this = ANIMATIONTYPE_VECTOR2 \<or> dataType this = ANIMATIONTYPE_VECTOR3
          \<or> dataType this = ANIMATIONTYPE_COLOR3 \<or> dataType this = ANIMATIONTYPE_COLOR4
          \<or> dataType this = ANIMATIONTYPE_QUATERNION)
         \<and> (outTangent ?sk = Undefined \<or> inTangent ?ek = Undefined)"
  proof -
    have "dataType this = ANIMATIONTYPE_VECTOR2 \<or> dataType this = ANIMATIONTYPE_VECTOR3
          \<or> dataType this = ANIMATIONTYPE_COLOR3 \<or> dataType this = ANIMATIONTYPE_COLOR4
          \<or> dataType this = ANIMATIONTYPE_SIZE \<or> dataType this = ANIMATIONTYPE_QUATERNION"
      using that by blast
    then show ?thesis
      using segment_plain_untangented [OF assms(9), of this ?ek S f "state\<lparr>key := k\<rparr>"] that
      unfolding cyc by simp
  qed
  show ?thesis using st fl ob qu ma ex by blast
qed

lemma keys_vectorTrack:
  "keys vectorTrack = [animationKey 0 (Vector3 (Fin 0) (Fin 0) (Fin 0)),
                       animationKey 10 (Vector3 (Fin 10) (Fin 20) (Fin 30))]"
  by (simp add: vectorTrack_def)

lemma keys_quaternionTrack:
  "keys quaternionTrack = [animationKey 0 (Quaternion (Fin 0) (Fin 0) (Fin 0) (Fin 1)),
                           animationKey 10 (Quaternion (Fin 0) (Fin 0) (Fin 0) (Fin 1))]"
  by (simp add: quaternionTrack_def)

lemma vectorTrack_cycle:
  "fst (interpolate sampleMaths initialStatics vectorTrack 5
          (vectorRelativeState\<lparr>loopMode := Some ANIMATIONLOOPMODE_CYCLE\<rparr>))
     = Inr (Vector3 (Fin 5) (Fin 10) (Fin 15))"
  by (simp add: keys_vectorTrack vectorTrack_def vectorRelativeState_def freshState_def
        animationKey_def interpolate_def keyWalkDown.simps keyWalkUp.simps keyAt_def
        interpolateSegment_def segmentGradient_def getEasingFunction_def sampleMaths_def ANIMATIONLOOPMODE_defs ANIMATIONTYPE_defs
        loopModeSwitch_def bindE_def sampleLerp_def sameClass_def lerpNum_def)

theorem interpolate_relative_offset_witness:
  "sorted (map frame (keys vectorTrack))
   \<and> frame (keys vectorTrack ! nat 0) \<le> 5 \<and> 5 < frame (keys vectorTrack ! nat (0 + 1))
   \<and> loopMode vectorRelativeState = Some ANIMATIONLOOPMODE_RELATIVE
   \<and> \<not> strictEquals (interpolation (keys vectorTrack ! nat 0)) (STEP sampleMaths)
   \<and> dataType vectorTrack = ANIMATIONTYPE_VECTOR3
   \<and> fst (interpolate sampleMaths initialStatics vectorTrack 5
            (vectorRelativeState\<lparr>loopMode := Some ANIMATIONLOOPMODE_CYCLE\<rparr>))
       = Inr (Vector3 (Fin 5) (Fin 10) (Fin 15))
   \<and> interpolate sampleMaths initialStatics vectorTrack 5 vectorRelativeState
       = (Inr (Vector3 (Fin 7) (Fin 12) (Fin 17)), vectorRelativeState\<lparr>key := 0\<rparr>)"
proof -
  have h: "sorted (map frame (keys vectorTrack))"
    "- 1 \<le> key vectorRelativeState" "key vectorRelativeState < int (length (keys vectorTrack))"
    "(0::int) \<le> 0" "0 + 1 < int (length (keys vectorTrack))"
    "frame (keys vectorTrack ! nat 0) \<le> 5" "5 < frame (keys vectorTrack ! nat (0 + 1))"
    "loopMode vectorRelativeState = Some ANIMATIONLOOPMODE_RELATIVE"
    "\<not> strictEquals (interpolation (keys vectorTrack ! nat 0)) (STEP sampleMaths)"
    by (simp_all add: keys_vectorTrack vectorRelativeState_def freshState_def animationKey_def
          sampleMaths_def)
  have d: "dataType vectorTrack = ANIMATIONTYPE_VECTOR3" by (simp add: vectorTrack_def)
  note t = interpolate_relative_offset [OF h, where S = initialStatics]
  have s: "snd (interpolate sampleMaths initialStatics vectorTrack 5 vectorRelativeState)
             = vectorRelativeState\<lparr>key := 0\<rparr>"
    using t by simp
  have "fst (interpolate sampleMaths initialStatics vectorTrack 5 vectorRelativeState)
          = Inr (add sampleMaths (Vector3 (Fin 5) (Fin 10) (Fin 15))
                   (scale sampleMaths (offsetValue vectorRelativeState)
                      (repeatCount vectorRelativeState)))"
    using t [THEN conjunct2, THEN conjunct2, THEN conjunct1, rule_format,
             of "Vector3 (Fin 5) (Fin 10) (Fin 15)"] d vectorTrack_cycle
    by (simp add: vectorRelativeState_def freshState_def)
  then have "fst (interpolate sampleMaths initialStatics vectorTrack 5 vectorRelativeState)
          = Inr (Vector3 (Fin 7) (Fin 12) (Fin 17))"
    by (simp add: vectorRelativeState_def freshState_def sampleMaths_def sampleAdd_def
          sampleScale_def sameClass_def)
  then show ?thesis
    using s h d vectorTrack_cycle by (simp add: prod_eq_iff)
qed

theorem interpolate_relative_quaternion_counterexample:
  "loopMode quaternionRelativeState = Some ANIMATIONLOOPMODE_RELATIVE
   \<and> repeatCount quaternionRelativeState = 1
   \<and> offsetValue quaternionRelativeState = Quaternion (Fin 0) (Fin 0) (Fin 0) (Fin 1)
   \<and> fst (interpolate sampleMaths initialStatics quaternionTrack 5
            (quaternionRelativeState\<lparr>loopMode := Some ANIMATIONLOOPMODE_CYCLE\<rparr>))
       = Inr (Quaternion (Fin 0) (Fin 0) (Fin 0) (Fin 1))
   \<and> fst (interpolate sampleMaths initialStatics quaternionTrack 5 quaternionRelativeState)
       = Inr (Quaternion (Fin 0) (Fin 0) (Fin 0) (Fin 2))
   \<and> sampleMultiply (Quaternion (Fin 0) (Fin 0) (Fin 0) (Fin 1))
        (sampleScale (Quaternion (Fin 0) (Fin 0) (Fin 0) (Fin 1)) 1)
       = Quaternion (Fin 0) (Fin 0) (Fin 0) (Fin 1)
   \<and> sampleMultiply (sampleScale (Quaternion (Fin 0) (Fin 0) (Fin 0) (Fin 1)) 1)
        (Quaternion (Fin 0) (Fin 0) (Fin 0) (Fin 1))
       = Quaternion (Fin 0) (Fin 0) (Fin 0) (Fin 1)
   \<and> fst (interpolate sampleMaths initialStatics stepTrack 5
            (freshState\<lparr>loopMode := Some ANIMATIONLOOPMODE_RELATIVE, repeatCount := 3,
                        offsetValue := Number (Fin 5)\<rparr>))
       = Inr (Number (Fin 1))
   \<and> loopMode sizeRelativeState = Some ANIMATIONLOOPMODE_RELATIVE
   \<and> repeatCount sizeRelativeState = 2
   \<and> offsetValue sizeRelativeState = Size (Fin 1) (Fin 1)
   \<and> fst (interpolate sampleMaths initialStatics sizeTrack 5
            (sizeRelativeState\<lparr>loopMode := Some ANIMATIONLOOPMODE_CYCLE\<rparr>))
       = Inr (Size (Fin 5) (Fin 10))
   \<and> fst (interpolate sampleMaths initialStatics sizeTrack 5 sizeRelativeState)
       = Inl TypeError"
  by (simp add: keys_quaternionTrack quaternionTrack_def quaternionRelativeState_def
        keys_stepTrack stepTrack_def animationKeyStep_def
        sizeTrack_def sizeRelativeState_def track_def setKeys_def newAnimation_def
        sampleLerp_def lerpNum_def methodScale_def
        freshState_def animationKey_def interpolate_def keyWalkDown.simps keyWalkUp.simps
        keyAt_def interpolateSegment_def segmentGradient_def getEasingFunction_def sampleMaths_def ANIMATIONLOOPMODE_defs
        ANIMATIONTYPE_defs loopModeSwitch_def offsetScaled_def method1_def bindE_def
        sampleAdd_def sampleScale_def sampleMultiply_def sameClass_def slerpReal_def Let_def)

section \<open>Cursor isolation\<close>




















section \<open>Serialization round trip\<close>

text \<open>
  \<^bold>\<open>C6\<close> fails on the code. A float key with an out-tangent and an interpolation flag and
  no in-tangent is serialized with two paddings for the missing in-tangent, so the flag
  lands in the fifth slot, while \<open>Parse\<close> reads it from the fourth: the flag is lost. A
  quaternion key's in-tangent is serialized as one nested array in the fifth slot, while
  \<open>Parse\<close> expects four more numbers: the tangent is lost.
\<close>

theorem serialize_Parse_loses_flags:
  "serialize sampleConversions outTangentStepTrack
     = Inr \<lparr>so_name = ''track'', so_property = ''position.x'', so_framePerSecond = 60,
            so_dataType = ANIMATIONTYPE_FLOAT, so_loopBehavior = Some ANIMATIONLOOPMODE_CYCLE,
            so_enableBlending = None, so_blendingSpeed = Some 0.01,
            so_keys = [\<lparr>sk_frame = 0,
                         sk_values = Some [Number (Fin 1), Undefined, Number (Fin 2), Undefined,
                                           Number (Fin 1)]\<rparr>],
            so_ranges = Some []\<rparr>
   \<and> map interpolation (keys outTangentStepTrack) = [Number (Fin 1)]
   \<and> (case serialize sampleConversions outTangentStepTrack of
         Inr so \<Rightarrow> map_sum id (\<lambda>a. map interpolation (keys a)) (fst (Parse sampleConversions initialStatics so))
       | Inl e \<Rightarrow> Inl e) = Inr [Undefined]
   \<and> map inTangent (keys quaternionTangentTrack) = [Quaternion (Fin 1) (Fin 0) (Fin 0) (Fin 0)]
   \<and> (case serialize sampleConversions quaternionTangentTrack of
         Inr so \<Rightarrow> map_sum id (\<lambda>a. map inTangent (keys a)) (fst (Parse sampleConversions initialStatics so))
       | Inl e \<Rightarrow> Inl e) = Inr [Undefined]"
proof -
  have s1: "serialize sampleConversions outTangentStepTrack
     = Inr \<lparr>so_name = ''track'', so_property = ''position.x'', so_framePerSecond = 60,
            so_dataType = ANIMATIONTYPE_FLOAT, so_loopBehavior = Some ANIMATIONLOOPMODE_CYCLE,
            so_enableBlending = None, so_blendingSpeed = Some 0.01,
            so_keys = [\<lparr>sk_frame = 0,
                         sk_values = Some [Number (Fin 1), Undefined, Number (Fin 2), Undefined,
                                           Number (Fin 1)]\<rparr>],
            so_ranges = Some []\<rparr>"
    by (simp add: serialize_def outTangentStepTrack_def track_def setKeys_def newAnimation_def
          getKeys_def serializeKey_def pushOptionalSlots_def animationKey_def
          initialStatics_def ANIMATIONTYPE_defs)
  have p1: "map_sum id (\<lambda>a. map interpolation (keys a))
              (fst (Parse sampleConversions initialStatics
                 \<lparr>so_name = ''track'', so_property = ''position.x'', so_framePerSecond = 60,
                  so_dataType = ANIMATIONTYPE_FLOAT, so_loopBehavior = Some ANIMATIONLOOPMODE_CYCLE,
                  so_enableBlending = None, so_blendingSpeed = Some 0.01,
                  so_keys = [\<lparr>sk_frame = 0,
                         sk_values = Some [Number (Fin 1), Undefined, Number (Fin 2), Undefined,
                                           Number (Fin 1)]\<rparr>],
                  so_ranges = Some []\<rparr>)) = Inr [Undefined]"
    by (simp add: Parse_def parseKey_def valuesAt_def setKeys_def newAnimation_def
          ANIMATIONTYPE_defs split: prod.splits)
  have s2: "serialize sampleConversions quaternionTangentTrack
     = Inr \<lparr>so_name = ''track'', so_property = ''position.x'', so_framePerSecond = 60,
            so_dataType = ANIMATIONTYPE_QUATERNION, so_loopBehavior = Some ANIMATIONLOOPMODE_CYCLE,
            so_enableBlending = None, so_blendingSpeed = Some 0.01,
            so_keys = [\<lparr>sk_frame = 0,
                         sk_values = Some [Number (Fin 0), Number (Fin 0), Number (Fin 0),
                                           Number (Fin 1),
                                           Array [Number (Fin 1), Number (Fin 0), Number (Fin 0),
                                                  Number (Fin 0)]]\<rparr>],
            so_ranges = Some []\<rparr>"
    by (simp add: serialize_def quaternionTangentTrack_def track_def setKeys_def newAnimation_def
          getKeys_def serializeKey_def pushOptionalSlots_def tangentArray_def method1_def
          animationKey_def sampleConversions_def initialStatics_def ANIMATIONTYPE_defs)
  have p2: "map_sum id (\<lambda>a. map inTangent (keys a))
              (fst (Parse sampleConversions initialStatics
                 \<lparr>so_name = ''track'', so_property = ''position.x'', so_framePerSecond = 60,
                  so_dataType = ANIMATIONTYPE_QUATERNION,
                  so_loopBehavior = Some ANIMATIONLOOPMODE_CYCLE,
                  so_enableBlending = None, so_blendingSpeed = Some 0.01,
                  so_keys = [\<lparr>sk_frame = 0,
                         sk_values = Some [Number (Fin 0), Number (Fin 0), Number (Fin 0),
                                           Number (Fin 1),
                                           Array [Number (Fin 1), Number (Fin 0), Number (Fin 0),
                                                  Number (Fin 0)]]\<rparr>],
                  so_ranges = Some []\<rparr>)) = Inr [Undefined]"
    by (simp add: Parse_def parseKey_def valuesAt_def setKeys_def newAnimation_def
          ANIMATIONTYPE_defs split: prod.splits)
  have k1: "map interpolation (keys outTangentStepTrack) = [Number (Fin 1)]"
    by (simp add: outTangentStepTrack_def animationKey_def)
  have k2: "map inTangent (keys quaternionTangentTrack)
              = [Quaternion (Fin 1) (Fin 0) (Fin 0) (Fin 0)]"
    by (simp add: quaternionTangentTrack_def animationKey_def)
  show ?thesis
    unfolding s1 s2 using p1 p2 k1 k2 by simp
qed

section \<open>Cloning\<close>

lemma mem_rangeRefs: "q \<in> rangeRefs this \<longleftrightarrow> (\<exists>n. (n, Some q) \<in> set (ranges this))"
  by (force simp: rangeRefs_def List.map_filter_def image_iff)

lemma mem_map_filter_snd: "q \<in> set (List.map_filter snd rs) \<longleftrightarrow> (\<exists>n. (n, Some q) \<in> set rs)"
  by (force simp: List.map_filter_def image_iff)

lemma cloneRanges_keyObjects:
  "cloneRanges H rs = (rs', H') \<Longrightarrow> keyObjects H' = keyObjects H"
proof (induction H rs arbitrary: rs' H' rule: cloneRanges.induct)
  case (3 H n r rs)
  let ?H1 = "H\<lparr>rangeObjects := (rangeObjects H)(nextObject H := rangeObjects H r),
               nextObject := nextObject H + 1\<rparr>"
  obtain rs2 H2 where c: "cloneRanges ?H1 rs = (rs2, H2)" by (cases "cloneRanges ?H1 rs")
  have "H' = H2" using "3.prems" c by (simp add: Let_def)
  moreover have "keyObjects H2 = keyObjects ?H1" by (rule "3.IH" [OF refl refl c])
  ultimately show ?case by simp
qed simp_all

lemma cloneRanges_nextObject:
  "cloneRanges H rs = (rs', H') \<Longrightarrow> nextObject H \<le> nextObject H'"
proof (induction H rs arbitrary: rs' H' rule: cloneRanges.induct)
  case (3 H n r rs)
  let ?H1 = "H\<lparr>rangeObjects := (rangeObjects H)(nextObject H := rangeObjects H r),
               nextObject := nextObject H + 1\<rparr>"
  obtain rs2 H2 where c: "cloneRanges ?H1 rs = (rs2, H2)" by (cases "cloneRanges ?H1 rs")
  have "H' = H2" using "3.prems" c by (simp add: Let_def)
  moreover have "nextObject ?H1 \<le> nextObject H2" by (rule "3.IH" [OF refl refl c])
  ultimately show ?case by simp
qed simp_all

lemma cloneRanges_old:
  "cloneRanges H rs = (rs', H') \<Longrightarrow> q < nextObject H \<Longrightarrow> rangeObjects H' q = rangeObjects H q"
proof (induction H rs arbitrary: rs' H' rule: cloneRanges.induct)
  case (3 H n r rs)
  let ?H1 = "H\<lparr>rangeObjects := (rangeObjects H)(nextObject H := rangeObjects H r),
               nextObject := nextObject H + 1\<rparr>"
  obtain rs2 H2 where c: "cloneRanges ?H1 rs = (rs2, H2)" by (cases "cloneRanges ?H1 rs")
  have "H' = H2" using "3.prems" c by (simp add: Let_def)
  moreover have "rangeObjects H2 q = rangeObjects ?H1 q"
    using "3.prems"(2) by (intro "3.IH" [OF refl refl c]) simp
  ultimately show ?case using "3.prems"(2) by simp
qed simp_all

lemma cloneRanges_fresh:
  "cloneRanges H rs = (rs', H') \<Longrightarrow> (n', Some q) \<in> set rs'
     \<Longrightarrow> nextObject H \<le> q \<and> q < nextObject H'"
proof (induction H rs arbitrary: rs' H' rule: cloneRanges.induct)
  case (3 H n r rs)
  let ?H1 = "H\<lparr>rangeObjects := (rangeObjects H)(nextObject H := rangeObjects H r),
               nextObject := nextObject H + 1\<rparr>"
  obtain rs2 H2 where c: "cloneRanges ?H1 rs = (rs2, H2)" by (cases "cloneRanges ?H1 rs")
  have eq: "H' = H2" "rs' = (n, Some (nextObject H)) # rs2"
    using "3.prems" c by (simp_all add: Let_def)
  have nx: "nextObject ?H1 \<le> nextObject H2" by (rule cloneRanges_nextObject [OF c])
  from "3.prems"(2) eq consider "q = nextObject H" | "(n', Some q) \<in> set rs2" by auto
  then show ?case
  proof cases
    case 1
    then show ?thesis using nx eq by simp
  next
    case 2
    then have "nextObject ?H1 \<le> q \<and> q < nextObject H2" by (rule "3.IH" [OF refl refl c])
    then show ?thesis using eq by simp
  qed
qed simp_all

lemma cloneRanges_contents:
  "cloneRanges H rs = (rs', H') \<Longrightarrow> (\<forall>n q. (n, Some q) \<in> set rs \<longrightarrow> q < nextObject H)
     \<Longrightarrow> map (\<lambda>(n, r). (n, map_option (rangeObjects H') r)) rs'
           = filter (\<lambda>(n, r). r \<noteq> None) (map (\<lambda>(n, r). (n, map_option (rangeObjects H) r)) rs)"
proof (induction H rs arbitrary: rs' H' rule: cloneRanges.induct)
  case (1 H)
  then show ?case by simp
next
  case (2 H n rs)
  then show ?case by simp
next
  case (3 H n r rs)
  let ?H1 = "H\<lparr>rangeObjects := (rangeObjects H)(nextObject H := rangeObjects H r),
               nextObject := nextObject H + 1\<rparr>"
  obtain rs2 H2 where c: "cloneRanges ?H1 rs = (rs2, H2)" by (cases "cloneRanges ?H1 rs")
  have eq: "H' = H2" "rs' = (n, Some (nextObject H)) # rs2"
    using "3.prems" c by (simp_all add: Let_def)
  have below: "\<forall>n q. (n, Some q) \<in> set rs \<longrightarrow> q < nextObject ?H1"
    using "3.prems"(2) by fastforce
  let ?f1 = "(rangeObjects H)(nextObject H := rangeObjects H r)"
  have ih: "map (\<lambda>(n, r). (n, map_option (rangeObjects H2) r)) rs2
              = filter (\<lambda>(n, r). r \<noteq> None)
                  (map (\<lambda>(n, r). (n, map_option (rangeObjects ?H1) r)) rs)"
    by (rule "3.IH" [OF refl refl c below])
  have f1: "rangeObjects ?H1 = ?f1" by simp
  have same: "map (\<lambda>(n, r). (n, map_option ?f1 r)) rs
                = map (\<lambda>(n, r). (n, map_option (rangeObjects H) r)) rs"
  proof (rule map_cong [OF refl])
    fix x assume x: "x \<in> set rs"
    obtain m r' where xr: "x = (m, r')" by (cases x)
    show "(case x of (n, r) \<Rightarrow> (n, map_option ?f1 r))
            = (case x of (n, r) \<Rightarrow> (n, map_option (rangeObjects H) r))"
    proof (cases r')
      case None
      then show ?thesis using xr by simp
    next
      case (Some q)
      then have "q < nextObject H" using "3.prems"(2) x xr by fastforce
      then show ?thesis using xr Some by simp
    qed
  qed
  have hd: "rangeObjects H2 (nextObject H) = rangeObjects H r"
    using cloneRanges_old [OF c, of "nextObject H"] by simp
  have "map (\<lambda>(n, r). (n, map_option (rangeObjects H2) r)) rs2
          = filter (\<lambda>(n, r). r \<noteq> None)
              (map (\<lambda>(n, r). (n, map_option (rangeObjects H) r)) rs)"
    by (simp only: ih f1 same)
  then show ?case using eq hd by simp
qed

lemma animationOf_rangeObjects_update:
  assumes "r \<notin> rangeRefs this"
  shows "animationOf (H\<lparr>rangeObjects := (rangeObjects H)(r := x)\<rparr>) this = animationOf H this"
proof -
  have "map (\<lambda>(n, q). (n, map_option ((rangeObjects H)(r := x)) q)) (ranges this)
          = map (\<lambda>(n, q). (n, map_option (rangeObjects H) q)) (ranges this)"
  proof (rule map_cong [OF refl])
    fix y assume y: "y \<in> set (ranges this)"
    obtain m q where yq: "y = (m, q)" by (cases y)
    show "(case y of (n, q) \<Rightarrow> (n, map_option ((rangeObjects H)(r := x)) q))
            = (case y of (n, q) \<Rightarrow> (n, map_option (rangeObjects H) q))"
    proof (cases q)
      case None
      then show ?thesis using yq by simp
    next
      case (Some q')
      then have "q' \<in> rangeRefs this" using y yq by (auto simp: mem_rangeRefs)
      then have "q' \<noteq> r" using assms by auto
      then show ?thesis using yq Some by simp
    qed
  qed
  then show ?thesis by (simp add: animationOf_def)
qed

lemma animationOf_same_rangeObjects:
  assumes "\<forall>q \<in> rangeRefs this. rangeObjects H' q = rangeObjects H q"
    "keyObjects H' = keyObjects H"
  shows "animationOf H' this = animationOf H this"
proof -
  have "map (\<lambda>(n, q). (n, map_option (rangeObjects H') q)) (ranges this)
          = map (\<lambda>(n, q). (n, map_option (rangeObjects H) q)) (ranges this)"
  proof (rule map_cong [OF refl])
    fix y assume y: "y \<in> set (ranges this)"
    obtain m q where yq: "y = (m, q)" by (cases y)
    show "(case y of (n, q) \<Rightarrow> (n, map_option (rangeObjects H') q))
            = (case y of (n, q) \<Rightarrow> (n, map_option (rangeObjects H) q))"
    proof (cases q)
      case None
      then show ?thesis using yq by simp
    next
      case (Some q')
      then have "q' \<in> rangeRefs this" using y yq by (auto simp: mem_rangeRefs)
      then show ?thesis using yq Some assms(1) by simp
    qed
  qed
  then show ?thesis using assms(2) by (simp add: animationOf_def)
qed

lemma clone_parts:
  assumes "clone S H this = (c, H', S')"
  shows "keys c = keys this" "cloneRanges H (ranges this) = (ranges c, H')"
    "dataType c = dataType this"
  using assms
  by (auto simp: clone_def newAnimation_def setKeys_def Let_def split: prod.splits)

text \<open>
  \<^bold>\<open>C5\<close>, as the code has it. \<open>clone\<close> gives the new animation the same key objects as the
  source (its key array is a copy that holds the same addresses) and a fresh copy of every
  range that is not null. Hence a write to a range of the clone leaves the source as it
  was, and a write to a range of the source leaves the clone as it was; but a write to a
  key object is seen alike through the source and the clone.
\<close>

theorem clone_shares_keys_copies_ranges:
  assumes "\<forall>r \<in> rangeRefs this. r < nextObject H" and "clone S H this = (c, H', S')"
  shows "keys c = keys this
       \<and> keyObjects H' = keyObjects H
       \<and> ranges (animationOf H' c) = filter (\<lambda>(n, r). r \<noteq> None) (ranges (animationOf H this))
       \<and> animationOf H' this = animationOf H this
       \<and> (\<forall>r' \<in> rangeRefs c. nextObject H \<le> r' \<and> r' < nextObject H' \<and> r' \<notin> rangeRefs this)
       \<and> (\<forall>r' \<in> rangeRefs c. \<forall>x.
             animationOf (H'\<lparr>rangeObjects := (rangeObjects H')(r' := x)\<rparr>) this
               = animationOf H' this)
       \<and> (\<forall>r \<in> rangeRefs this. \<forall>x.
             animationOf (H'\<lparr>rangeObjects := (rangeObjects H')(r := x)\<rparr>) c = animationOf H' c)
       \<and> (\<forall>k x.
             keys (animationOf (H'\<lparr>keyObjects := (keyObjects H')(k := x)\<rparr>) this)
               = map (\<lambda>q. if q = k then x else keyObjects H' q) (keys this)
           \<and> keys (animationOf (H'\<lparr>keyObjects := (keyObjects H')(k := x)\<rparr>) c)
               = map (\<lambda>q. if q = k then x else keyObjects H' q) (keys this))"
proof -
  note cr = clone_parts(2) [OF assms(2)]
  have kc: "keys c = keys this" by (rule clone_parts(1) [OF assms(2)])
  have ko: "keyObjects H' = keyObjects H" by (rule cloneRanges_keyObjects [OF cr])
  have wf: "\<forall>n q. (n, Some q) \<in> set (ranges this) \<longrightarrow> q < nextObject H"
    using assms(1) by (auto simp: mem_rangeRefs)
  have rc: "ranges (animationOf H' c)
              = filter (\<lambda>(n, r). r \<noteq> None) (ranges (animationOf H this))"
    using cloneRanges_contents [OF cr wf] by (simp add: animationOf_def)
  have src: "animationOf H' this = animationOf H this"
  proof (rule animationOf_same_rangeObjects [OF _ ko])
    show "\<forall>q \<in> rangeRefs this. rangeObjects H' q = rangeObjects H q"
      using assms(1) cloneRanges_old [OF cr] by simp
  qed
  have fresh: "nextObject H \<le> r' \<and> r' < nextObject H' \<and> r' \<notin> rangeRefs this"
    if mem: "r' \<in> rangeRefs c" for r'
  proof -
    obtain n where "(n, Some r') \<in> set (ranges c)" using mem by (auto simp: mem_rangeRefs)
    then have b: "nextObject H \<le> r' \<and> r' < nextObject H'" by (rule cloneRanges_fresh [OF cr])
    then have "r' \<notin> rangeRefs this" using assms(1) by auto
    then show ?thesis using b by simp
  qed
  have w1: "animationOf (H'\<lparr>rangeObjects := (rangeObjects H')(r' := x)\<rparr>) this
              = animationOf H' this"
    if "r' \<in> rangeRefs c" for r' x
    using fresh [OF that] by (intro animationOf_rangeObjects_update) simp
  have w2: "animationOf (H'\<lparr>rangeObjects := (rangeObjects H')(r := x)\<rparr>) c = animationOf H' c"
    if "r \<in> rangeRefs this" for r x
  proof (rule animationOf_rangeObjects_update)
    show "r \<notin> rangeRefs c"
    proof
      assume "r \<in> rangeRefs c"
      then have "nextObject H \<le> r" using fresh by simp
      then show False using assms(1) that by auto
    qed
  qed
  have w3: "keys (animationOf (H'\<lparr>keyObjects := (keyObjects H')(k := x)\<rparr>) this)
               = map (\<lambda>q. if q = k then x else keyObjects H' q) (keys this)
           \<and> keys (animationOf (H'\<lparr>keyObjects := (keyObjects H')(k := x)\<rparr>) c)
               = map (\<lambda>q. if q = k then x else keyObjects H' q) (keys this)" for k x
    by (auto simp: animationOf_def kc)
  show ?thesis using kc ko rc src fresh w1 w2 w3 by blast
qed

lemma storedClone_eq:
  "storedClone
     = ((setKeys (fst (newAnimation initialStatics ''track'' ''position.x'' 60
                      ANIMATIONTYPE_FLOAT (Some ANIMATIONLOOPMODE_CYCLE) None)) [0])
          \<lparr>ranges := [(''walk'', Some 2)]\<rparr>,
        storedHeap\<lparr>rangeObjects := (rangeObjects storedHeap)(2 := rangeObjects storedHeap 1),
                    nextObject := 3\<rparr>,
        initialStatics\<lparr>UniqueIdGenerator := 1\<rparr>)"
  by (simp add: storedClone_def clone_def storedTrack_def storedHeap_def newAnimation_def
        setKeys_def initialStatics_def Let_def)

theorem clone_shares_keys_copies_ranges_witness:
  "nextObject storedHeap = 2
   \<and> clone initialStatics storedHeap storedTrack = storedClone
   \<and> keys (fst storedClone) = [0] \<and> keys storedTrack = [0]
   \<and> rangeRefs storedTrack = {1} \<and> rangeRefs (fst storedClone) = {2}
   \<and> ranges (animationOf (fst (snd storedClone)) (fst storedClone))
       = [(''walk'', Some \<lparr>rangeName = ''walk'', rangeFrom = 0, rangeTo = 10\<rparr>)]
   \<and> animationOf
        ((fst (snd storedClone))
           \<lparr>rangeObjects := (rangeObjects (fst (snd storedClone)))
              (2 := \<lparr>rangeName = ''walk'', rangeFrom = 3, rangeTo = 4\<rparr>)\<rparr>) storedTrack
       = animationOf storedHeap storedTrack"
proof -
  have wf: "\<forall>r \<in> rangeRefs storedTrack. r < nextObject storedHeap"
    by (simp add: rangeRefs_def storedTrack_def storedHeap_def List.map_filter_simps)
  have cl: "clone initialStatics storedHeap storedTrack
              = (fst storedClone, fst (snd storedClone), snd (snd storedClone))"
    by (simp add: storedClone_def)
  note t = clone_shares_keys_copies_ranges [OF wf cl]
  have r2: "rangeRefs (fst storedClone) = {2}"
    by (simp add: storedClone_eq rangeRefs_def List.map_filter_simps)
  have r1: "rangeRefs storedTrack = {1}"
    by (simp add: storedTrack_def rangeRefs_def List.map_filter_simps)
  have k: "keys storedTrack = [0]" by (simp add: storedTrack_def setKeys_def)
  have "animationOf
        ((fst (snd storedClone))
           \<lparr>rangeObjects := (rangeObjects (fst (snd storedClone)))
              (2 := \<lparr>rangeName = ''walk'', rangeFrom = 3, rangeTo = 4\<rparr>)\<rparr>) storedTrack
       = animationOf storedHeap storedTrack"
    using t r2 by simp
  moreover have "ranges (animationOf (fst (snd storedClone)) (fst storedClone))
       = [(''walk'', Some \<lparr>rangeName = ''walk'', rangeFrom = 0, rangeTo = 10\<rparr>)]"
    using t by (simp add: animationOf_def storedTrack_def storedHeap_def)
  moreover have "keys (fst storedClone) = [0]" using t k by simp
  moreover have "nextObject storedHeap = 2" by (simp add: storedHeap_def)
  ultimately show ?thesis using r1 r2 k by (simp add: storedClone_def)
qed

theorem clone_key_object_shared_counterexample:
  "keys storedTrack = [0] \<and> keys (fst storedClone) = [0]
   \<and> map frame (keys (animationOf (fst (snd storedClone)) storedTrack)) = [0]
   \<and> map frame (keys (animationOf
        ((fst (snd storedClone))
           \<lparr>keyObjects := (keyObjects (fst (snd storedClone)))
              (hd (keys (fst storedClone))
                 := (keyObjects (fst (snd storedClone)) (hd (keys (fst storedClone))))
                      \<lparr>frame := 99\<rparr>)\<rparr>)
        storedTrack)) = [99]"
  by (simp add: storedClone_eq storedTrack_def storedHeap_def animationOf_def setKeys_def
        animationKey_def)

section \<open>Additive conversion of a track\<close>

lemma bookends_done:
  "\<not> bookendsPending st \<Longrightarrow> bookends L S animation referenceFrame from' to' st = Inr st"
  by (subst bookends.simps) simp

lemma bookends_turn:
  "bookendsPending st \<Longrightarrow>
     bookends L S animation referenceFrame from' to' st
       = bindE (bookendStep L S animation referenceFrame from' to' st)
           (bookends L S animation referenceFrame from' to')"
  by (subst bookends.simps) (simp add: bindE_def)

lemma additiveTarget_parts:
  assumes "additiveTarget S H sourceAnimation cloneOriginal clonedName = (animation, H1, S1)"
  shows "keys animation = keys sourceAnimation" "dataType animation = dataType sourceAnimation"
    "keyObjects H1 = keyObjects H"
proof -
  show "keys animation = keys sourceAnimation"
    using assms clone_parts(1)
    by (auto simp: additiveTarget_def split: if_splits prod.splits)
  show "dataType animation = dataType sourceAnimation"
    using assms clone_parts(3)
    by (auto simp: additiveTarget_def split: if_splits prod.splits)
  show "keyObjects H1 = keyObjects H"
    using assms clone_parts(2) cloneRanges_keyObjects
    by (fastforce simp: additiveTarget_def split: if_splits prod.splits)
qed

lemma convertKeys_one_key:
  assumes "keys animation = [p]"
  shows "convertKeys A L S H animation referenceFrame None
           = bindE (conjugateReference A L (dataType animation) (getKeyValue (Object p))) (\<lambda>store.
             bindE (subtractReference A (dataType animation) store (value' (keyObjects H p))) (\<lambda>v.
             Inr (animation,
                  H\<lparr>keyObjects := (keyObjects H)(p := (keyObjects H p)\<lparr>value' := v\<rparr>)\<rparr>)))"
proof -
  let ?st = "\<lparr>heap = H, keyRefs = [p], index' = 0, referenceFound = True,
              fromKeyFound = True, toKeyFound = True,
              referenceValue = Object p, startIndex = 0, endIndex = 0\<rparr>"
  have idle: "bookends L S animation referenceFrame (frame (keyObjects H p))
                (frame (keyObjects H p)) ?st = Inr ?st"
    by (rule bookends_done) (simp add: bookendsPending_def)
  have same: "animation\<lparr>keys := [p]\<rparr> = animation" using assms by simp
  show ?thesis
    by (simp add: convertKeys_def assms additiveRange_def Let_def setReference_def
          cloneOrSelf_def idle same refAt_def bindE_def split: sum.splits)
qed

lemma makeAdditive_one_key:
  assumes "keys sourceAnimation = [p]"
    and "additiveTarget S H sourceAnimation cloneOriginal clonedName = (animation, H1, S1)"
  shows "MakeAnimationAdditive A L S H sourceAnimation referenceFrame None cloneOriginal clonedName
           = bindE (conjugateReference A L (dataType animation) (Object p)) (\<lambda>store.
             bindE (subtractReference A (dataType animation) store (value' (keyObjects H1 p)))
               (\<lambda>v.
             Inr (animation,
                  H1\<lparr>keyObjects := (keyObjects H1)(p := (keyObjects H1 p)\<lparr>value' := v\<rparr>)\<rparr>,
                  S1)))"
proof -
  have k: "keys animation = [p]" using additiveTarget_parts(1) [OF assms(2)] assms(1) by simp
  have "MakeAnimationAdditive A L S H sourceAnimation referenceFrame None cloneOriginal clonedName
          = bindE (convertKeys A L S1 H1 animation
                     (if referenceFrame \<ge> 0 then referenceFrame else 0) None) (\<lambda>(a, H2).
            Inr (a, H2, S1))"
    using k by (simp add: MakeAnimationAdditive_def assms(2))
  also have "\<dots> = bindE (conjugateReference A L (dataType animation) (Object p))
             (\<lambda>store.
             bindE (subtractReference A (dataType animation) store (value' (keyObjects H1 p)))
               (\<lambda>v.
             Inr (animation,
                  H1\<lparr>keyObjects := (keyObjects H1)(p := (keyObjects H1 p)\<lparr>value' := v\<rparr>)\<rparr>,
                  S1)))"
    by (simp add: convertKeys_one_key [OF k] bindE_def split: sum.splits)
  finally show ?thesis .
qed

text \<open>
  \<^bold>\<open>C4\<close>, as the code has it. On a track with exactly one key and with no range argument,
  \<^verbatim>\<open>MakeAnimationAdditive\<close> creates no bookend, but the subtraction pass runs over the
  indices from 0 to 0, and so over the single key. Whenever the call returns, it returns
  the converted animation with the same key array and a store in which nothing is new and
  nothing has changed but the value of that key object. On a float track the call returns,
  and the new value is the difference of the old value and the reference, which is not
  the old value when that is a finite number; on a track of vectors or colours the new
  value is what \<^verbatim>\<open>subtractToRef\<close> writes. On a track of quaternions or matrices the call
  does not return: the reference that the one-key branch has taken is the key object, and
  its conjugation raises.
\<close>

theorem additive_one_key_subtracts_once:
  assumes "keys sourceAnimation = [p]"
    and "additiveTarget S H sourceAnimation cloneOriginal clonedName = (animation, H1, S1)"
  shows "keys animation = [p]
     \<and> (\<forall>a H' S'.
           MakeAnimationAdditive A L S H sourceAnimation referenceFrame None cloneOriginal
             clonedName = Inr (a, H', S')
           \<longrightarrow> a = animation \<and> S' = S1
             \<and> nextObject H' = nextObject H1 \<and> rangeObjects H' = rangeObjects H1
             \<and> (\<forall>q. q \<noteq> p \<longrightarrow> keyObjects H' q = keyObjects H1 q)
             \<and> keyObjects H' p = (keyObjects H1 p)\<lparr>value' := value' (keyObjects H' p)\<rparr>)
     \<and> (dataType animation = ANIMATIONTYPE_FLOAT \<longrightarrow>
          MakeAnimationAdditive A L S H sourceAnimation referenceFrame None cloneOriginal
            clonedName
            = Inr (animation,
                   H1\<lparr>keyObjects := (keyObjects H1)
                      (p := (keyObjects H1 p)
                         \<lparr>value' := js_minus (value' (keyObjects H1 p))
                                      (getKeyValue (Object p))\<rparr>)\<rparr>,
                   S1))
     \<and> (\<forall>x. dataType animation = ANIMATIONTYPE_FLOAT
             \<and> value' (keyObjects H1 p) = Number (Fin x)
           \<longrightarrow> (\<exists>H'. MakeAnimationAdditive A L S H sourceAnimation referenceFrame None
                        cloneOriginal clonedName = Inr (animation, H', S1)
                     \<and> value' (keyObjects H' p) \<noteq> Number (Fin x)))
     \<and> ((dataType animation = ANIMATIONTYPE_VECTOR2 \<or> dataType animation = ANIMATIONTYPE_VECTOR3
          \<or> dataType animation = ANIMATIONTYPE_COLOR3 \<or> dataType animation = ANIMATIONTYPE_COLOR4)
         \<and> declaresSubtractToRef (value' (keyObjects H1 p)) \<longrightarrow>
          MakeAnimationAdditive A L S H sourceAnimation referenceFrame None cloneOriginal
            clonedName
            = Inr (animation,
                   H1\<lparr>keyObjects := (keyObjects H1)
                      (p := (keyObjects H1 p)
                         \<lparr>value' := subtractToRef A (value' (keyObjects H1 p))
                                      (getKeyValue (Object p))\<rparr>)\<rparr>,
                   S1))
     \<and> (dataType animation = ANIMATIONTYPE_QUATERNION \<or> dataType animation = ANIMATIONTYPE_MATRIX
          \<longrightarrow> MakeAnimationAdditive A L S H sourceAnimation referenceFrame None cloneOriginal
                 clonedName = Inl TypeError)"
proof -
  let ?M = "MakeAnimationAdditive A L S H sourceAnimation referenceFrame None cloneOriginal
              clonedName"
  let ?v = "value' (keyObjects H1 p)"
  let ?H = "\<lambda>v. H1\<lparr>keyObjects := (keyObjects H1)(p := (keyObjects H1 p)\<lparr>value' := v\<rparr>)\<rparr>"
  note m = makeAdditive_one_key [OF assms, of A L referenceFrame]
  have k: "keys animation = [p]" using additiveTarget_parts(1) [OF assms(2)] assms(1) by simp
  have shape: "a = animation \<and> S' = S1
             \<and> nextObject H' = nextObject H1 \<and> rangeObjects H' = rangeObjects H1
             \<and> (\<forall>q. q \<noteq> p \<longrightarrow> keyObjects H' q = keyObjects H1 q)
             \<and> keyObjects H' p = (keyObjects H1 p)\<lparr>value' := value' (keyObjects H' p)\<rparr>"
    if r: "?M = Inr (a, H', S')" for a H' S'
  proof -
    obtain v where "Inr (animation, ?H v, S1) = (Inr (a, H', S') :: error + _)"
      using r unfolding m by (auto simp: bindE_def split: sum.splits)
    then have "a = animation" "S' = S1" "H' = ?H v" by simp_all
    then show ?thesis by simp
  qed
  have fl: "?M = Inr (animation, ?H (js_minus ?v (getKeyValue (Object p))), S1)"
    if "dataType animation = ANIMATIONTYPE_FLOAT"
    unfolding m using that
    by (simp add: conjugateReference_def subtractReference_def ANIMATIONTYPE_defs)
  have ch: "\<exists>H'. ?M = Inr (animation, H', S1) \<and> value' (keyObjects H' p) \<noteq> Number (Fin x)"
    if "dataType animation = ANIMATIONTYPE_FLOAT \<and> ?v = Number (Fin x)" for x
  proof (intro exI conjI)
    show "?M = Inr (animation, ?H (js_minus ?v (getKeyValue (Object p))), S1)"
      using fl that by simp
    show "value' (keyObjects (?H (js_minus ?v (getKeyValue (Object p)))) p) \<noteq> Number (Fin x)"
      using that by simp
  qed
  have ve: "?M = Inr (animation, ?H (subtractToRef A ?v (getKeyValue (Object p))), S1)"
    if "(dataType animation = ANIMATIONTYPE_VECTOR2 \<or> dataType animation = ANIMATIONTYPE_VECTOR3
          \<or> dataType animation = ANIMATIONTYPE_COLOR3 \<or> dataType animation = ANIMATIONTYPE_COLOR4)
         \<and> declaresSubtractToRef ?v"
    unfolding m using that
    by (auto simp: conjugateReference_def subtractReference_def methodOf_def ANIMATIONTYPE_defs)
  have qm: "?M = Inl TypeError"
    if "dataType animation = ANIMATIONTYPE_QUATERNION \<or> dataType animation = ANIMATIONTYPE_MATRIX"
    unfolding m using that
    by (auto simp: conjugateReference_def methodOf_def declaresNormalize_def isMatrix_def
          ANIMATIONTYPE_defs)
  show ?thesis using k shape fl ch ve qm by blast
qed

theorem additive_one_key_subtracts_once_witness:
  "keys storedTrack = [0]
   \<and> additiveTarget initialStatics storedHeap storedTrack False None
       = (storedTrack, storedHeap, initialStatics)
   \<and> dataType storedTrack = ANIMATIONTYPE_FLOAT
   \<and> value' (keyObjects storedHeap 0) = Number (Fin 5)
   \<and> MakeAnimationAdditive sampleAdditive sampleMaths initialStatics storedHeap storedTrack 0
        None False None
       = Inr (storedTrack,
              storedHeap\<lparr>keyObjects := (keyObjects storedHeap)
                 (0 := (keyObjects storedHeap 0)
                         \<lparr>value' := js_minus (Number (Fin 5)) (Object 0)\<rparr>)\<rparr>,
              initialStatics)
   \<and> js_minus (Number (Fin 5)) (Object 0) \<noteq> Number (Fin 5)"
proof -
  have k: "keys storedTrack = [0]" by (simp add: storedTrack_def setKeys_def)
  have t: "additiveTarget initialStatics storedHeap storedTrack False None
             = (storedTrack, storedHeap, initialStatics)"
    by (simp add: additiveTarget_def)
  have d: "dataType storedTrack = ANIMATIONTYPE_FLOAT"
    by (simp add: storedTrack_def setKeys_def newAnimation_def Let_def)
  have v: "value' (keyObjects storedHeap 0) = Number (Fin 5)"
    by (simp add: storedHeap_def animationKey_def)
  show ?thesis
    using additive_one_key_subtracts_once [OF k t, of sampleAdditive sampleMaths 0,
        THEN conjunct2, THEN conjunct2, THEN conjunct1] d
    by (simp add: k t v)
qed

theorem additive_one_key_value_counterexample:
  "keys storedTrack = [0]
   \<and> value' (keyObjects storedHeap 0) = Number (Fin 5)
   \<and> MakeAnimationAdditive sampleAdditive sampleMaths initialStatics storedHeap storedTrack 0
        None False None
       = Inr (storedTrack,
              storedHeap\<lparr>keyObjects := (keyObjects storedHeap)
                 (0 := animationKey 0 (Number NaN))\<rparr>,
              initialStatics)
   \<and> value' (animationKey 0 (Number NaN)) \<noteq> Number (Fin 5)"
proof -
  have k: "keys storedTrack = [0]" by (simp add: storedTrack_def setKeys_def)
  have d: "dataType storedTrack = ANIMATIONTYPE_FLOAT"
    by (simp add: storedTrack_def setKeys_def newAnimation_def Let_def)
  have v: "keyObjects storedHeap 0 = animationKey 0 (Number (Fin 5))"
    by (simp add: storedHeap_def)
  have c: "convertKeys sampleAdditive sampleMaths initialStatics storedHeap storedTrack 0 None
             = Inr (storedTrack,
                    storedHeap\<lparr>keyObjects := (keyObjects storedHeap)
                       (0 := animationKey 0 (Number NaN))\<rparr>)"
    by (simp add: convertKeys_one_key [OF k] d v conjugateReference_def
          subtractReference_def ANIMATIONTYPE_defs bindE_def animationKey_def)
  show ?thesis
    by (simp add: MakeAnimationAdditive_def additiveTarget_def k c v bindE_def
          animationKey_def)
qed

section \<open>A negative reference frame\<close>

lemma keys_additiveTrack: "keys additiveTrack = [0, 1]"
  by (simp add: additiveTrack_def setKeys_def)

lemma dataType_additiveTrack: "dataType additiveTrack = ANIMATIONTYPE_FLOAT"
  by (simp add: additiveTrack_def setKeys_def newAnimation_def Let_def)

lemma additiveTrack_first_frame:
  "MakeAnimationAdditive sampleAdditive sampleMaths initialStatics additiveHeap additiveTrack 0
     None False None
     = Inr (additiveTrack,
            additiveHeap\<lparr>keyObjects := (keyObjects additiveHeap)
               (0 := animationKey 0 (Number (Fin 0)), 1 := animationKey 10 (Number (Fin 2)))\<rparr>,
            initialStatics)"
proof -
  let ?st = "\<lparr>heap = additiveHeap, keyRefs = [0, Suc 0], index' = 0, referenceFound = True,
              fromKeyFound = True, toKeyFound = True,
              referenceValue = Number (Fin 5), startIndex = 0, endIndex = Suc 0\<rparr>"
  have idle: "bookends sampleMaths initialStatics additiveTrack 0 0 10 ?st = Inr ?st"
    by (rule bookends_done) (simp add: bookendsPending_def)
  have u: "[0..<Suc (Suc 0)] = [0, Suc 0]" by (simp add: upt_rec)
  have same: "additiveTrack\<lparr>keys := [0, Suc 0]\<rparr> = additiveTrack"
    using keys_additiveTrack by simp
  have c: "convertKeys sampleAdditive sampleMaths initialStatics additiveHeap additiveTrack 0 None
             = Inr (additiveTrack,
                    additiveHeap\<lparr>keyObjects := (keyObjects additiveHeap)
                       (0 := animationKey 0 (Number (Fin 0)),
                        1 := animationKey 10 (Number (Fin 2)))\<rparr>)"
    by (simp add: convertKeys_def keys_additiveTrack dataType_additiveTrack additiveRange_def
          Let_def setReference_def cloneOrSelf_def additiveHeap_def animationKey_def
          idle [unfolded additiveHeap_def] u same refAt_def bindE_def
          conjugateReference_def subtractReference_def ANIMATIONTYPE_defs)
  show ?thesis
    by (simp add: MakeAnimationAdditive_def additiveTarget_def keys_additiveTrack c bindE_def)
qed

text \<open>
  The loop at work: the reference frame 5 lies between the two keys, the loop
  interpolates the reference value 6 in its first turn and stops.
\<close>

lemma additiveTrack_interpolate:
  "interpolateFrom sampleMaths initialStatics additiveTrack
     \<lparr>heap = additiveHeap, keyRefs = [0, Suc 0], index' = 0, referenceFound = False,
      fromKeyFound = True, toKeyFound = True,
      referenceValue = Number (Fin 5), startIndex = 0, endIndex = Suc 0\<rparr> 5
     = Inr (Number (Fin 6))"
proof -
  let ?a = "animationOf additiveHeap (additiveTrack\<lparr>keys := [0, Suc 0]\<rparr>)"
  let ?ks = "[animationKey 0 (Number (Fin 5)), animationKey 10 (Number (Fin 7))]"
  let ?state = "\<lparr>key = 0, repeatCount = 0, workValue = Undefined,
             loopMode = Some ANIMATIONLOOPMODE_CONSTANT,
             offsetValue = Undefined, highLimitValue = Undefined\<rparr>"
  have ks: "keys ?a = ?ks" by (simp add: animationOf_def additiveHeap_def)
  have r: "resolveKey ?ks 5 0 = Inr 0"
    by (rule resolveKey_segment) (simp_all add: animationKey_def)
  have i: "interpolate sampleMaths initialStatics ?a 5 ?state
             = interpolateSegment sampleMaths initialStatics ?a 5 (?state\<lparr>key := 0\<rparr>)
                 (keys ?a ! nat 0) (keys ?a ! nat (0 + 1))"
    by (rule interpolate_inside) (simp_all add: ks r shortCircuit_def)
  have d: "dataType ?a = ANIMATIONTYPE_FLOAT" "easingFunction ?a = None"
    by (simp_all add: animationOf_def additiveTrack_def setKeys_def newAnimation_def Let_def)
  show ?thesis
    unfolding interpolateFrom_def
    apply (simp add: i [simplified])
    apply (simp add: ks d interpolateSegment_def segmentGradient_def getEasingFunction_def Let_def
        animationKey_def sampleMaths_def ANIMATIONTYPE_defs ANIMATIONLOOPMODE_defs
        sampleLerp_def sameClass_def lerpNum_def bindE_def loopModeSwitch_def)
    done
qed


lemma additiveTrack_interior:
  "MakeAnimationAdditive sampleAdditive sampleMaths initialStatics additiveHeap additiveTrack 5
     None False None
     = Inr (additiveTrack,
            additiveHeap\<lparr>keyObjects := (keyObjects additiveHeap)
               (0 := animationKey 0 (Number (Fin (- 1))), 1 := animationKey 10 (Number (Fin 1)))\<rparr>,
            initialStatics)"
proof -
  let ?st0 = "\<lparr>heap = additiveHeap, keyRefs = [0, Suc 0], index' = 0, referenceFound = False,
      fromKeyFound = True, toKeyFound = True,
      referenceValue = Number (Fin 5), startIndex = 0, endIndex = Suc 0\<rparr>"
  let ?st1 = "\<lparr>heap = additiveHeap, keyRefs = [0, Suc 0], index' = Suc 0, referenceFound = True,
      fromKeyFound = True, toKeyFound = True,
      referenceValue = Number (Fin 6), startIndex = 0, endIndex = Suc 0\<rparr>"
  have step: "bookendStep sampleMaths initialStatics additiveTrack 5 0 10 ?st0 = Inr ?st1"
    by (simp add: bookendStep_def Let_def refAt_def referenceBlock_def bracket_def
          additiveTrack_interpolate [unfolded additiveHeap_def] setReference_def cloneOrSelf_def fromBlock_def toBlock_def
          bindE_def additiveHeap_def animationKey_def)
  have idle: "bookends sampleMaths initialStatics additiveTrack 5 0 10 ?st1 = Inr ?st1"
    by (rule bookends_done) (simp add: bookendsPending_def)
  have loop: "bookends sampleMaths initialStatics additiveTrack 5 0 10 ?st0 = Inr ?st1"
    by (subst bookends_turn) (simp_all add: bookendsPending_def step idle bindE_def)
  have same: "additiveTrack\<lparr>keys := [0, Suc 0]\<rparr> = additiveTrack"
    using keys_additiveTrack by simp
  have c: "convertKeys sampleAdditive sampleMaths initialStatics additiveHeap additiveTrack 5 None
             = Inr (additiveTrack,
                    additiveHeap\<lparr>keyObjects := (keyObjects additiveHeap)
                       (0 := animationKey 0 (Number (Fin (- 1))),
                        1 := animationKey 10 (Number (Fin 1)))\<rparr>)"
    by (simp add: convertKeys_def keys_additiveTrack dataType_additiveTrack additiveRange_def
          Let_def setReference_def cloneOrSelf_def additiveHeap_def animationKey_def
          loop [unfolded additiveHeap_def] same refAt_def bindE_def
          conjugateReference_def subtractReference_def ANIMATIONTYPE_defs)
  show ?thesis
    by (simp add: MakeAnimationAdditive_def additiveTarget_def keys_additiveTrack c bindE_def)
qed

text \<open>
  \<^bold>\<open>C10\<close>. A negative reference frame is replaced by 0 before the reference value is
  resolved: with every track, range name, clone flag and clone name, the call with a
  negative reference frame gives what the call with the reference frame 0 gives.
\<close>

theorem additive_negative_reference_frame:
  "referenceFrame < 0 \<Longrightarrow>
     MakeAnimationAdditive A L S H sourceAnimation referenceFrame range' cloneOriginal clonedName
       = MakeAnimationAdditive A L S H sourceAnimation 0 range' cloneOriginal clonedName"
  by (simp add: MakeAnimationAdditive_def)

theorem additive_negative_reference_frame_witness:
  "(- 3 :: real) < 0
   \<and> MakeAnimationAdditive sampleAdditive sampleMaths initialStatics additiveHeap additiveTrack
        (- 3) None False None
       = Inr (additiveTrack,
              additiveHeap\<lparr>keyObjects := (keyObjects additiveHeap)
                 (0 := animationKey 0 (Number (Fin 0)),
                  1 := animationKey 10 (Number (Fin 2)))\<rparr>,
              initialStatics)"
  using additive_negative_reference_frame [of "- 3" sampleAdditive sampleMaths initialStatics
      additiveHeap additiveTrack None False None]
  by (simp add: additiveTrack_first_frame)

end
